(* ===== verification/Prelude.thy ===== *)
theory Prelude
  imports Complex_Main "HOL-Library.Sublist" "HOL-Library.Multiset"
begin

text \<open>
  Shared vocabulary of the development: the Python string operations that
  \<^verbatim>\<open>src/app.py\<close> calls (\<^verbatim>\<open>str.lower\<close>, \<^verbatim>\<open>str.upper\<close>, \<^verbatim>\<open>str.title\<close>,
  the \<^verbatim>\<open>in\<close> operator on strings, \<^verbatim>\<open>str.endswith\<close>, \<^verbatim>\<open>str(int)\<close>), modelled on
  ASCII text, with their equivalence to the library's reference notions
  (\<open>sublist\<close>, \<open>suffix\<close>), and the named collections that the component theories fill.
  Strings are HOL strings (lists of 8-bit characters); Python's case mapping of
  non-ASCII letters is not modelled.
\<close>

named_theorems py_simps "evaluation rules of the Python string helpers"
named_theorems state_frame "frame lemmas: fields an operation leaves unchanged"

type_synonym path = string
type_synonym timestamp = string

subsection \<open>Characters\<close>

definition py_is_upper :: "char \<Rightarrow> bool" where
  "py_is_upper c = (let n = (of_char c :: nat) in 65 \<le> n \<and> n \<le> 90)"

definition py_is_lower :: "char \<Rightarrow> bool" where
  "py_is_lower c = (let n = (of_char c :: nat) in 97 \<le> n \<and> n \<le> 122)"

definition py_is_cased :: "char \<Rightarrow> bool" where
  "py_is_cased c = (py_is_upper c \<or> py_is_lower c)"

text \<open>ASCII case mapping flips bit 5 of the code point.\<close>

fun py_lower_char :: "char \<Rightarrow> char" where
  "py_lower_char (Char b0 b1 b2 b3 b4 b5 b6 b7) =
     (if py_is_upper (Char b0 b1 b2 b3 b4 b5 b6 b7) then Char b0 b1 b2 b3 b4 True b6 b7
      else Char b0 b1 b2 b3 b4 b5 b6 b7)"

fun py_upper_char :: "char \<Rightarrow> char" where
  "py_upper_char (Char b0 b1 b2 b3 b4 b5 b6 b7) =
     (if py_is_lower (Char b0 b1 b2 b3 b4 b5 b6 b7) then Char b0 b1 b2 b3 b4 False b6 b7
      else Char b0 b1 b2 b3 b4 b5 b6 b7)"

definition py_lower :: "string \<Rightarrow> string" where
  "py_lower s = map py_lower_char s"

definition py_upper :: "string \<Rightarrow> string" where
  "py_upper s = map py_upper_char s"

text \<open>
  \<^verbatim>\<open>str.title\<close>: a cased character is upper-cased when the character before it
  is not cased, lower-cased otherwise.
\<close>

fun py_title_from :: "bool \<Rightarrow> string \<Rightarrow> string" where
  "py_title_from prev [] = []"
| "py_title_from prev (c # cs) =
     (if py_is_cased c
      then (if prev then py_lower_char c else py_upper_char c) # py_title_from True cs
      else c # py_title_from False cs)"

definition py_title :: "string \<Rightarrow> string" where
  "py_title s = py_title_from False s"

subsection \<open>Numbers\<close>

text \<open>
  A Python \<^verbatim>\<open>float\<close> is modelled by the real it denotes (no rounding, NaN or
  infinity); \<^verbatim>\<open>int(x)\<close> truncates toward zero.
\<close>

type_synonym py_float = real

definition py_int_of_float :: "py_float \<Rightarrow> int" where
  "py_int_of_float x = (if 0 \<le> x then \<lfloor>x\<rfloor> else \<lceil>x\<rceil>)"

subsection \<open>Substrings and suffixes\<close>

text \<open>\<^verbatim>\<open>needle in hay\<close> on strings, written as the scan the interpreter does.\<close>

fun py_in :: "string \<Rightarrow> string \<Rightarrow> bool" where
  "py_in needle [] = (needle = [])"
| "py_in needle (c # cs) = (prefix needle (c # cs) \<or> py_in needle cs)"

definition py_endswith :: "string \<Rightarrow> string \<Rightarrow> bool" where
  "py_endswith s suf = (length suf \<le> length s \<and> drop (length s - length suf) s = suf)"

text \<open>The newline of Python's string literals.\<close>

definition nl :: string where
  "nl = [CHR 0x0A]"

text \<open>\<^verbatim>\<open>sep.join(xs)\<close>.\<close>

fun py_join :: "string \<Rightarrow> string list \<Rightarrow> string" where
  "py_join sep [] = []"
| "py_join sep [x] = x"
| "py_join sep (x # xs) = x @ sep @ py_join sep xs"

text \<open>\<^verbatim>\<open>str(n)\<close> for an integer: decimal digits, a minus sign when negative.\<close>

definition py_digit :: "nat \<Rightarrow> char" where
  "py_digit d = ''0123456789'' ! d"

fun py_digits :: "nat \<Rightarrow> string" where
  "py_digits n = (if n < 10 then [py_digit n]
                  else py_digits (n div 10) @ [py_digit (n mod 10)])"

declare py_digits.simps [simp del]

definition py_str_int :: "int \<Rightarrow> string" where
  "py_str_int i = (if i < 0 then CHR ''-'' # py_digits (nat (- i)) else py_digits (nat i))"

subsection \<open>Lemmas shared by the components\<close>

lemma py_lower_char_idem [simp]: "py_lower_char (py_lower_char c) = py_lower_char c"
  by (cases c) (simp add: py_is_upper_def Let_def)

lemma py_lower_length [simp]: "length (py_lower s) = length s"
  by (simp add: py_lower_def)

lemma py_lower_idem [simp]: "py_lower (py_lower s) = py_lower s"
  by (simp add: py_lower_def)

lemma py_lower_append [simp]: "py_lower (xs @ ys) = py_lower xs @ py_lower ys"
  by (simp add: py_lower_def)

lemma py_upper_length [simp]: "length (py_upper s) = length s"
  by (simp add: py_upper_def)

lemma py_title_from_length [simp]: "length (py_title_from p s) = length s"
  by (induction p s rule: py_title_from.induct) simp_all

lemma py_in_sublist: "py_in needle hay \<longleftrightarrow> sublist needle hay"
proof (induction hay)
  case Nil
  then show ?case by simp
next
  case (Cons c cs)
  then show ?case by (auto simp: sublist_Cons_right)
qed

lemma py_in_Nil [simp]: "py_in [] hay"
  by (simp add: py_in_sublist)

lemma py_in_append_middle [intro]: "py_in needle (xs @ needle @ ys)"
  by (simp add: py_in_sublist)

lemma py_in_mono: "py_in needle hay \<Longrightarrow> py_in needle (xs @ hay @ ys)"
  by (auto simp: py_in_sublist intro: sublist_order.order.trans)

lemma py_endswith_suffix: "py_endswith s suf \<longleftrightarrow> suffix suf s"
proof
  assume "py_endswith s suf"
  then have "s = take (length s - length suf) s @ suf"
    by (metis append_take_drop_id py_endswith_def)
  then show "suffix suf s" by (metis suffix_def)
next
  assume "suffix suf s"
  then obtain zs where "s = zs @ suf" by (auto simp: suffix_def)
  then show "py_endswith s suf" by (simp add: py_endswith_def)
qed

lemma py_endswith_append [intro]: "py_endswith (xs @ suf) suf"
  by (simp add: py_endswith_def)

lemma py_digits_nonempty [simp]: "py_digits n \<noteq> []"
  by (subst py_digits.simps) simp

lemma py_str_int_nonempty [simp]: "py_str_int i \<noteq> []"
  by (simp add: py_str_int_def)

end
