(* ===== verification/Session.thy ===== *)
theory Session
  imports Prelude
begin

text \<open>
  The session report store: the state of \<^verbatim>\<open>EnhancedTraumaAssessmentApp\<close>
  (\<^verbatim>\<open>src/app.py\<close>, \<^verbatim>\<open>__init__\<close>), its onboarding gate
  (\<^verbatim>\<open>complete_onboarding\<close>, \<^verbatim>\<open>generate_cultural_context\<close>) and the
  "New Conversation" handler (\<^verbatim>\<open>clear_conversation\<close>). The nested dictionaries
  of \<^verbatim>\<open>report_data\<close> are records; the chat history of the UI is a list of
  messages whose content is a text or a file path; a specialist reply row of the
  lookup store is a record of JSON values.
\<close>

subsection \<open>Data model\<close>

datatype role = User | Assistant

text \<open>A history entry's content: a string, or \<^verbatim>\<open>{"path": file}\<close>.\<close>

datatype content = TextContent string | FileContent path

record chat_msg =
  msg_role :: role
  msg_content :: content

type_synonym history = "chat_msg list"

text \<open>An entry of \<^verbatim>\<open>ollama_conversation\<close>: \<^verbatim>\<open>{"role": ..., "content": text}\<close>.\<close>

type_synonym turn = "role \<times> string"

record child_info =
  child_name :: string
  child_age :: int
  child_gender :: string
  child_location :: string

record assessment_data =
  parent_observations :: string
  ai_analysis :: string
  severity_score :: int
  risk_indicators :: "string list"
  cultural_context :: string

record attachment =
  att_path :: path
  att_timestamp :: timestamp

record media_attachments =
  drawings :: "attachment list"
  audio_recordings :: "attachment list"
  photos :: "attachment list"

record report_data =
  child_info :: child_info
  assessment_data :: assessment_data
  media_attachments :: media_attachments
  mobile_app_id :: string
  session_start :: timestamp
  conversation_history :: history

text \<open>
  A column of a \<^verbatim>\<open>responses\<close> row as the lookup client returns it: JSON null, a
  string, or an object (whose member values are kept as the text Python prints for
  them). \<^verbatim>\<open>select("*")\<close> returns every column, so no key is missing.
\<close>

datatype jval = JNull | JStr string | JObj "(string \<times> string) list"

text \<open>\<^verbatim>\<open>str(v)\<close> of such a value, as an f-string prints it.\<close>

fun py_str_jval :: "jval \<Rightarrow> string" where
  "py_str_jval JNull = ''None''"
| "py_str_jval (JStr v) = v"
| "py_str_jval (JObj kvs) =
     ''{'' @ py_join '', '' (map (\<lambda>(k, v). CHR 0x27 # k @ CHR 0x27 # '': '' @ v) kvs) @ ''}''"

record specialist_row =
  response_date :: jval
  psychologist_id :: jval
  urgency_level :: jval
  psychologist_notes :: jval
  recommendations :: jval

record app_state =
  report_data :: report_data
  is_onboarded :: bool
  submitted_report_id :: "string option"
  polling_active :: bool
  ollama_conversation :: "turn list"
  supabase_configured :: bool
  specialist_response :: "specialist_row option"

subsection \<open>Construction\<close>

definition empty_media :: media_attachments where
  "empty_media = \<lparr>drawings = [], audio_recordings = [], photos = []\<rparr>"

text \<open>
  \<^verbatim>\<open>__init__\<close>: \<open>uuid\<close> is \<^verbatim>\<open>str(uuid.uuid4())\<close>, \<open>start\<close> the start time, and
  \<open>creds\<close> whether both Supabase variables are set (then a client is created).
\<close>

definition init_app :: "string \<Rightarrow> timestamp \<Rightarrow> bool \<Rightarrow> app_state" where
  "init_app uuid start creds =
     \<lparr>report_data =
        \<lparr>child_info = \<lparr>child_name = [], child_age = 0, child_gender = [], child_location = []\<rparr>,
         assessment_data = \<lparr>parent_observations = [], ai_analysis = [], severity_score = 0,
                            risk_indicators = [], cultural_context = []\<rparr>,
         media_attachments = empty_media,
         mobile_app_id = uuid,
         session_start = start,
         conversation_history = []\<rparr>,
      is_onboarded = False,
      submitted_report_id = None,
      polling_active = False,
      ollama_conversation = [],
      supabase_configured = creds,
      specialist_response = None\<rparr>"

subsection \<open>Onboarding\<close>

definition gaza_keywords :: "string list" where
  "gaza_keywords = [''gaza'', ''palestine'', ''west bank'']"

definition ukraine_keywords :: "string list" where
  "ukraine_keywords = [''ukraine'', ''kyiv'', ''kharkiv'', ''mariupol'']"

definition levant_keywords :: "string list" where
  "levant_keywords = [''syria'', ''lebanon'', ''jordan'']"

definition generate_cultural_context :: "string \<Rightarrow> string" where
  "generate_cultural_context location =
     (let location_lower = py_lower location in
      if list_ex (\<lambda>k. py_in k location_lower) gaza_keywords then
        ''Assessment conducted considering ongoing conflict exposure and displacement trauma''
      else if list_ex (\<lambda>k. py_in k location_lower) ukraine_keywords then
        ''Assessment considering war-related trauma and displacement from conflict zones''
      else if list_ex (\<lambda>k. py_in k location_lower) levant_keywords then
        ''Assessment considering refugee experience and cultural adaptation challenges''
      else ''Assessment conducted with consideration for local cultural context in '' @ location)"

text \<open>
  The form's age arrives from a \<^verbatim>\<open>gr.Number\<close> without precision: a float or
  nothing (\<open>None\<close>). The widget (\<^verbatim>\<open>minimum=2, maximum=18\<close>) rejects a value
  out of range before the handler is called. Python's \<^verbatim>\<open>all([...])\<close> asks
  every field to be truthy: a non-empty string, a non-zero number.
\<close>

definition age_widget_ok :: "py_float option \<Rightarrow> bool" where
  "age_widget_ok age = (case age of None \<Rightarrow> True | Some a \<Rightarrow> 2 \<le> a \<and> a \<le> 18)"

definition onboarding_fields_ok :: "string \<Rightarrow> py_float option \<Rightarrow> string \<Rightarrow> string \<Rightarrow> bool" where
  "onboarding_fields_ok nm age gd loc =
     (nm \<noteq> [] \<and> (case age of None \<Rightarrow> False | Some a \<Rightarrow> a \<noteq> 0) \<and> gd \<noteq> [] \<and> loc \<noteq> [])"

definition complete_onboarding ::
  "string \<Rightarrow> py_float option \<Rightarrow> string \<Rightarrow> string \<Rightarrow> app_state \<Rightarrow> (bool \<times> string) \<times> app_state" where
  "complete_onboarding nm age gd loc s =
     (if \<not> onboarding_fields_ok nm age gd loc
      then ((False, ''Please fill in all required information about your child.''), s)
      else
        (let rd = report_data s;
             ci = \<lparr>child_name = nm, child_age = py_int_of_float (the age), child_gender = gd, child_location = loc\<rparr>;
             ad = (assessment_data rd)\<lparr>cultural_context := generate_cultural_context loc\<rparr>
         in ((True, ''Welcome! I'm ready to help you with '' @ nm @ CHR 0x27 # ''s assessment.''),
             s\<lparr>report_data := rd\<lparr>child_info := ci, assessment_data := ad\<rparr>,
               is_onboarded := True\<rparr>)))"

subsection \<open>Clearing the conversation\<close>

text \<open>
  The handler of the "New Conversation" button: it empties the shown history, the
  observations, the analysis and the attachments, and returns an empty chat.
\<close>

definition clear_conversation :: "app_state \<Rightarrow> history \<times> app_state" where
  "clear_conversation s =
     (let rd = report_data s;
          ad = (assessment_data rd)\<lparr>parent_observations := [], ai_analysis := []\<rparr>
      in ([], s\<lparr>report_data := rd\<lparr>conversation_history := [], assessment_data := ad,
                                     media_attachments := empty_media\<rparr>\<rparr>))"

subsection \<open>The polling fields\<close>

text \<open>
  Two states agree on the fields the submission and polling code reads and writes:
  the poll flag, the report id, the Supabase client and the stored reply.
\<close>

definition poll_fields_eq :: "app_state \<Rightarrow> app_state \<Rightarrow> bool" where
  "poll_fields_eq s t \<longleftrightarrow>
     polling_active t = polling_active s \<and> submitted_report_id t = submitted_report_id s \<and>
     supabase_configured t = supabase_configured s \<and> specialist_response t = specialist_response s"

lemma age_widget_range:
  "age_widget_ok (Some a) \<Longrightarrow> 2 \<le> py_int_of_float a \<and> py_int_of_float a \<le> 18"
  by (simp add: age_widget_ok_def py_int_of_float_def le_floor_iff floor_le_iff)

lemma poll_fields_eq_refl [simp]: "poll_fields_eq s s"
  by (simp add: poll_fields_eq_def)

lemma complete_onboarding_poll_fields [state_frame]:
  "poll_fields_eq s (snd (complete_onboarding nm age gd loc s))"
  by (simp add: complete_onboarding_def poll_fields_eq_def Let_def)

lemma clear_conversation_poll_fields [state_frame]:
  "poll_fields_eq s (snd (clear_conversation s))"
  by (simp add: clear_conversation_def poll_fields_eq_def Let_def)

subsection \<open>Onboarding properties\<close>

text \<open>
  C17: onboarding succeeds exactly when the name, gender and location are non-empty and
  the age is present and non-zero; on success it opens the gate, stores the child's data
  and the cultural context of the location; on failure the state is unchanged. The age
  range 2..18 of the form is not checked here.
\<close>

theorem onboarding_gate:
  "(fst (fst (complete_onboarding nm age gd loc s)) \<longleftrightarrow>
      nm \<noteq> [] \<and> gd \<noteq> [] \<and> loc \<noteq> [] \<and> (\<exists>a. age = Some a \<and> a \<noteq> 0)) \<and>
   (fst (fst (complete_onboarding nm age gd loc s)) \<longrightarrow>
      is_onboarded (snd (complete_onboarding nm age gd loc s)) \<and>
      child_info (report_data (snd (complete_onboarding nm age gd loc s))) =
        \<lparr>child_name = nm, child_age = py_int_of_float (the age), child_gender = gd, child_location = loc\<rparr> \<and>
      cultural_context (assessment_data (report_data (snd (complete_onboarding nm age gd loc s)))) =
        generate_cultural_context loc) \<and>
   (\<not> fst (fst (complete_onboarding nm age gd loc s)) \<longrightarrow> snd (complete_onboarding nm age gd loc s) = s)"
  by (auto simp: complete_onboarding_def onboarding_fields_ok_def Let_def split: option.splits)

text \<open>
  C32: a location that mentions Gaza in any letter case gets the conflict-exposure
  context, which names conflict and displacement.
\<close>

theorem cultural_context_gaza:
  assumes "py_in ''gaza'' (py_lower loc)"
  shows "generate_cultural_context loc =
           ''Assessment conducted considering ongoing conflict exposure and displacement trauma'' \<and>
         py_in ''conflict'' (generate_cultural_context loc) \<and>
         py_in ''displacement'' (generate_cultural_context loc)"
proof -
  have "generate_cultural_context loc =
          ''Assessment conducted considering ongoing conflict exposure and displacement trauma''"
    using assms by (simp add: generate_cultural_context_def gaza_keywords_def)
  moreover have "py_in ''conflict'' ''Assessment conducted considering ongoing conflict exposure and displacement trauma''"
    using py_in_append_middle [of "''conflict''" "''Assessment conducted considering ongoing ''"
                                  "'' exposure and displacement trauma''"] by simp
  moreover have "py_in ''displacement'' ''Assessment conducted considering ongoing conflict exposure and displacement trauma''"
    using py_in_append_middle [of "''displacement''" "''Assessment conducted considering ongoing conflict exposure and ''"
                                  "'' trauma''"] by simp
  ultimately show ?thesis by simp
qed

theorem onboarding_gate_witness:
  "fst (complete_onboarding ''Sam'' (Some 40) ''Female'' ''Gaza'' (init_app ''u'' ''t'' True)) =
     (True, ''Welcome! I'm ready to help you with Sam'' @ CHR 0x27 # ''s assessment.'') \<and>
   child_age (child_info (report_data (snd (complete_onboarding ''Sam'' (Some 40) ''Female'' ''Gaza''
     (init_app ''u'' ''t'' True))))) = 40 \<and>
   snd (complete_onboarding ''Sam'' None ''Female'' ''Gaza'' (init_app ''u'' ''t'' True)) = init_app ''u'' ''t'' True"
proof -
  have a: "fst (fst (complete_onboarding ''Sam'' (Some 40) ''Female'' ''Gaza'' (init_app ''u'' ''t'' True)))"
    and b: "\<not> fst (fst (complete_onboarding ''Sam'' None ''Female'' ''Gaza'' (init_app ''u'' ''t'' True)))"
    using onboarding_gate [of "''Sam''" "Some 40" "''Female''" "''Gaza''" "init_app ''u'' ''t'' True"]
          onboarding_gate [of "''Sam''" None "''Female''" "''Gaza''" "init_app ''u'' ''t'' True"] by simp_all
  have "child_info (report_data (snd (complete_onboarding ''Sam'' (Some 40) ''Female'' ''Gaza''
     (init_app ''u'' ''t'' True)))) = \<lparr>child_name = ''Sam'', child_age = 40, child_gender = ''Female'', child_location = ''Gaza''\<rparr>"
    using a onboarding_gate [of "''Sam''" "Some 40" "''Female''" "''Gaza''" "init_app ''u'' ''t'' True"]
    by (simp add: py_int_of_float_def)
  moreover have "snd (complete_onboarding ''Sam'' None ''Female'' ''Gaza'' (init_app ''u'' ''t'' True)) = init_app ''u'' ''t'' True"
    using b onboarding_gate [of "''Sam''" None "''Female''" "''Gaza''" "init_app ''u'' ''t'' True"] by blast
  moreover have "fst (complete_onboarding ''Sam'' (Some 40) ''Female'' ''Gaza'' (init_app ''u'' ''t'' True)) =
     (True, ''Welcome! I'm ready to help you with Sam'' @ CHR 0x27 # ''s assessment.'')"
    by (simp add: complete_onboarding_def onboarding_fields_ok_def Let_def)
  ultimately show ?thesis by simp
qed

theorem cultural_context_gaza_witness:
  "generate_cultural_context ''Gaza City'' =
     ''Assessment conducted considering ongoing conflict exposure and displacement trauma''"
proof -
  have "py_in ''gaza'' (py_lower ''Gaza City'')" by (simp add: py_lower_def py_is_upper_def)
  from cultural_context_gaza [OF this] show ?thesis by simp
qed

end
