(* ===== verification/Polling.thy ===== *)
theory Polling
  imports Session
begin

text \<open>
  The background poll for a specialist reply (\<^verbatim>\<open>src/app.py\<close>,
  \<^verbatim>\<open>_poll_for_response\<close>), the rendering of a stored reply
  (\<^verbatim>\<open>get_specialist_response\<close>) and the "Check for Specialist Response" handler
  (\<^verbatim>\<open>check_for_response\<close>). The lookup store is an oracle: the \<open>k\<close>-th query,
  for the report id stored at that moment, returns rows or fails. An exception of the
  Python code is a value of \<open>py_error\<close>. The loop is a \<^theory_text>\<open>function\<close> whose
  termination follows from its attempt bound \<open>max_polls\<close>.
\<close>

datatype py_error = TypeError | AttributeError

subsection \<open>Rendering a reply\<close>

datatype badge = BadgeGreen | BadgeYellow | BadgeOrange | BadgeRed | BadgeWhite

definition urgency_color :: "string \<rightharpoonup> badge" where
  "urgency_color =
     [''low'' \<mapsto> BadgeGreen, ''medium'' \<mapsto> BadgeYellow, ''high'' \<mapsto> BadgeOrange,
      ''critical'' \<mapsto> BadgeRed]"

text \<open>\<^verbatim>\<open>urgency_color.get(level, default)\<close>: a dict key must be hashable.\<close>

fun urgency_emoji :: "jval \<Rightarrow> py_error + badge" where
  "urgency_emoji (JStr v) = Inr (case urgency_color v of Some b \<Rightarrow> b | None \<Rightarrow> BadgeWhite)"
| "urgency_emoji JNull = Inr BadgeWhite"
| "urgency_emoji (JObj _) = Inl TypeError"

text \<open>\<^verbatim>\<open>response['response_date'][:19].replace('T', ' ')\<close>.\<close>

fun format_response_date :: "jval \<Rightarrow> py_error + string" where
  "format_response_date (JStr v) =
     Inr (map (\<lambda>c. if c = CHR ''T'' then CHR '' '' else c) (take 19 v))"
| "format_response_date _ = Inl TypeError"

fun upper_level :: "jval \<Rightarrow> py_error + string" where
  "upper_level (JStr v) = Inr (py_upper v)"
| "upper_level _ = Inl AttributeError"

text \<open>A dict of recommendations becomes one bold \<open>Key Title:\<close> line per item.\<close>

fun format_recommendations :: "jval \<Rightarrow> string" where
  "format_recommendations (JObj kvs) =
     concat (map (\<lambda>(k, v). ''**'' @ py_title (map (\<lambda>c. if c = CHR ''_'' then CHR '' '' else c) k)
                          @ '':** '' @ v @ nl @ nl) kvs)"
| "format_recommendations v = py_str_jval v"

record reply_view =
  reply_date :: string
  reply_specialist :: string
  reply_badge :: badge
  reply_urgency :: string
  reply_notes :: string
  reply_recommendations :: string

definition format_specialist_response :: "specialist_row \<Rightarrow> py_error + reply_view" where
  "format_specialist_response r =
     (case urgency_emoji (urgency_level r) of
        Inl e \<Rightarrow> Inl e
      | Inr b \<Rightarrow>
          (case format_response_date (response_date r) of
             Inl e \<Rightarrow> Inl e
           | Inr d \<Rightarrow>
               (case upper_level (urgency_level r) of
                  Inl e \<Rightarrow> Inl e
                | Inr u \<Rightarrow>
                    Inr \<lparr>reply_date = d, reply_specialist = py_str_jval (psychologist_id r),
                         reply_badge = b, reply_urgency = u,
                         reply_notes = py_str_jval (psychologist_notes r),
                         reply_recommendations = format_recommendations (recommendations r)\<rparr>)))"

text \<open>
  \<^verbatim>\<open>get_specialist_response\<close>: \<open>Inr (Some v)\<close> is \<^verbatim>\<open>(True, text)\<close>,
  \<open>Inr None\<close> is \<^verbatim>\<open>(False, "No specialist response available yet...")\<close>.
\<close>

definition get_specialist_response :: "app_state \<Rightarrow> py_error + reply_view option" where
  "get_specialist_response s =
     (case specialist_response s of
        None \<Rightarrow> Inr None
      | Some r \<Rightarrow> (case format_specialist_response r of Inl e \<Rightarrow> Inl e | Inr v \<Rightarrow> Inr (Some v)))"

datatype response_status = ResponseReceived reply_view | StillMonitoring | MonitoringStopped | SubmitFirst

definition check_for_response :: "app_state \<Rightarrow> py_error + response_status" where
  "check_for_response s =
     (case get_specialist_response s of
        Inl e \<Rightarrow> Inl e
      | Inr (Some v) \<Rightarrow> Inr (ResponseReceived v)
      | Inr None \<Rightarrow>
          Inr (if polling_active s then StillMonitoring
               else if submitted_report_id s \<noteq> None \<and> submitted_report_id s \<noteq> Some [] then MonitoringStopped
               else SubmitFirst))"

subsection \<open>The poll loop\<close>

datatype query_outcome = QueryRows "specialist_row list" | QueryFailed

type_synonym lookup_store = "nat \<Rightarrow> string option \<Rightarrow> query_outcome"

definition max_polls :: nat where
  "max_polls = 120"

text \<open>
  One pass of the loop body. A row found is stored first and then rendered; a
  rendering error lands in the \<^verbatim>\<open>except\<close> clause like a failed query. The flag
  says whether the loop breaks.
\<close>

definition poll_body :: "query_outcome \<Rightarrow> app_state \<Rightarrow> app_state \<times> bool" where
  "poll_body qo s =
     (case qo of
        QueryRows (r # _) \<Rightarrow>
          (let s' = s\<lparr>specialist_response := Some r\<rparr> in
           case format_specialist_response r of
             Inr _ \<Rightarrow> (s'\<lparr>polling_active := False\<rparr>, True)
           | Inl _ \<Rightarrow> (s', False))
      | QueryRows [] \<Rightarrow> (s, False)
      | QueryFailed \<Rightarrow> (s, False))"

text \<open>
  \<^verbatim>\<open>while self.polling_active and poll_count < max_polls\<close>, then
  \<^verbatim>\<open>if poll_count >= max_polls: self.polling_active = False\<close>. The result is the
  final state and the final \<^verbatim>\<open>poll_count\<close>.
\<close>

function poll_loop :: "lookup_store \<Rightarrow> nat \<Rightarrow> app_state \<Rightarrow> app_state \<times> nat" where
  "poll_loop q n s =
     (if polling_active s \<and> n < max_polls then
        (case poll_body (q n (submitted_report_id s)) s of
           (s', brk) \<Rightarrow> (if brk then (s', n) else poll_loop q (Suc n) s'))
      else if max_polls \<le> n then (s\<lparr>polling_active := False\<rparr>, n)
      else (s, n))"
  by pat_completeness auto
termination
  by (relation "measure (\<lambda>(q, n, s). max_polls - n)") auto

declare poll_loop.simps [simp del]

definition poll_for_response :: "lookup_store \<Rightarrow> app_state \<Rightarrow> app_state \<times> nat" where
  "poll_for_response q s = poll_loop q 0 s"

text \<open>
  The fields the poller never writes, and the query outcomes that are not a reply
  (no row, or an exception of the lookup client).
\<close>

definition poll_frame :: "app_state \<Rightarrow> app_state \<Rightarrow> bool" where
  "poll_frame s t \<longleftrightarrow>
     report_data t = report_data s \<and> is_onboarded t = is_onboarded s \<and>
     submitted_report_id t = submitted_report_id s \<and>
     ollama_conversation t = ollama_conversation s \<and> supabase_configured t = supabase_configured s"

definition no_reply :: "query_outcome \<Rightarrow> bool" where
  "no_reply qo = (case qo of QueryRows [] \<Rightarrow> True | QueryFailed \<Rightarrow> True | QueryRows (_ # _) \<Rightarrow> False)"

text \<open>
  Sample inputs for the witnesses: a session with report \<open>r1\<close> under polling, a
  well-formed reply row, and a row whose urgency level is JSON null.
\<close>

definition demo_polling_state :: app_state where
  "demo_polling_state =
     (init_app ''a1b2c3d4'' ''2025-01-01T00:00:00'' True)\<lparr>submitted_report_id := Some ''r1'',
                                                         polling_active := True\<rparr>"

definition demo_row :: specialist_row where
  "demo_row = \<lparr>response_date = JStr ''2025-01-02T03:04:05.678'', psychologist_id = JStr ''p1'',
               urgency_level = JStr ''high'', psychologist_notes = JStr ''Seen.'',
               recommendations = JObj [(''next_step'', ''call'')]\<rparr>"

definition demo_bad_row :: specialist_row where
  "demo_bad_row = demo_row\<lparr>urgency_level := JNull\<rparr>"

subsection \<open>The loop: frame, unfolding, exhaustion\<close>

lemma poll_frame_refl [simp]: "poll_frame s s"
  by (simp add: poll_frame_def)

lemma poll_frame_trans [trans]: "poll_frame s t \<Longrightarrow> poll_frame t u \<Longrightarrow> poll_frame s u"
  by (simp add: poll_frame_def)

lemma poll_frame_updates [simp]:
  "poll_frame s (s\<lparr>specialist_response := r\<rparr>)"
  "poll_frame s (s\<lparr>polling_active := b\<rparr>)"
  "poll_frame s (s\<lparr>specialist_response := r, polling_active := b\<rparr>)"
  by (simp_all add: poll_frame_def)

lemma poll_body_frame: "poll_frame s (fst (poll_body qo s))"
  by (simp add: poll_body_def Let_def split: query_outcome.splits list.splits sum.splits)

lemma poll_body_break: "snd (poll_body qo s) \<Longrightarrow> \<not> polling_active (fst (poll_body qo s))"
  by (auto simp: poll_body_def Let_def split: query_outcome.splits list.splits sum.splits)

lemma poll_body_continue:
  "\<not> snd (poll_body qo s) \<Longrightarrow> polling_active (fst (poll_body qo s)) = polling_active s"
  by (auto simp: poll_body_def Let_def split: query_outcome.splits list.splits sum.splits)

lemma poll_loop_result:
  "poll_frame s (fst (poll_loop q n s)) \<and> \<not> polling_active (fst (poll_loop q n s)) \<and>
   snd (poll_loop q n s) \<le> max n max_polls \<and>
   (specialist_response s \<noteq> None \<longrightarrow> specialist_response (fst (poll_loop q n s)) \<noteq> None)"
proof (induction q n s rule: poll_loop.induct)
  case (1 q n s)
  show ?case
  proof (cases "polling_active s \<and> n < max_polls")
    case True
    obtain s' brk where b: "poll_body (q n (submitted_report_id s)) s = (s', brk)"
      by fastforce
    have f: "poll_frame s s'" using poll_body_frame [of s] b by (metis fst_conv)
    have r: "specialist_response s \<noteq> None \<longrightarrow> specialist_response s' \<noteq> None"
      using b by (auto simp: poll_body_def Let_def split: query_outcome.splits list.splits sum.splits)
    show ?thesis
    proof (cases brk)
      case True
      with b True poll_body_break [of _ s] have "\<not> polling_active s'" by (metis fst_conv snd_conv)
      with b f r True \<open>polling_active s \<and> n < max_polls\<close> show ?thesis
        by (simp add: poll_loop.simps [of q n s])
    next
      case False
      with "1" True b have IH: "poll_frame s' (fst (poll_loop q (Suc n) s')) \<and>
          \<not> polling_active (fst (poll_loop q (Suc n) s')) \<and> snd (poll_loop q (Suc n) s') \<le> max (Suc n) max_polls \<and>
          (specialist_response s' \<noteq> None \<longrightarrow> specialist_response (fst (poll_loop q (Suc n) s')) \<noteq> None)"
        by simp
      with f r False b True show ?thesis
        by (simp add: poll_loop.simps [of q n s]) (blast intro: poll_frame_trans)
    qed
  next
    case False
    then show ?thesis by (auto simp: poll_loop.simps [of q n s])
  qed
qed

lemma poll_loop_stop:
  "\<not> (polling_active s \<and> n < max_polls) \<Longrightarrow>
   poll_loop q n s = (if max_polls \<le> n then (s\<lparr>polling_active := False\<rparr>, n) else (s, n))"
  by (auto simp: poll_loop.simps [of q n s])

lemma poll_loop_break:
  "polling_active s \<Longrightarrow> n < max_polls \<Longrightarrow> snd (poll_body (q n (submitted_report_id s)) s) \<Longrightarrow>
   poll_loop q n s = (fst (poll_body (q n (submitted_report_id s)) s), n)"
  by (cases "poll_body (q n (submitted_report_id s)) s") (simp add: poll_loop.simps [of q n s])

lemma poll_loop_continue:
  "polling_active s \<Longrightarrow> n < max_polls \<Longrightarrow> \<not> snd (poll_body (q n (submitted_report_id s)) s) \<Longrightarrow>
   poll_loop q n s = poll_loop q (Suc n) (fst (poll_body (q n (submitted_report_id s)) s))"
  by (cases "poll_body (q n (submitted_report_id s)) s") (simp add: poll_loop.simps [of q n s])

lemma poll_body_eq_continue:
  "\<not> snd (poll_body qo s) \<Longrightarrow> poll_body qo s = (fst (poll_body qo s), False)"
  by (metis prod.collapse)

lemma poll_loop_exhausts:
  assumes "n \<le> max_polls" "P s" "polling_active s"
    and "\<And>k t. n \<le> k \<Longrightarrow> k < max_polls \<Longrightarrow> P t \<Longrightarrow> polling_active t \<Longrightarrow>
           \<not> snd (poll_body (q k (submitted_report_id s)) t) \<and> P (fst (poll_body (q k (submitted_report_id s)) t))"
  shows "\<exists>t. P t \<and> poll_frame s t \<and> poll_loop q n s = (t\<lparr>polling_active := False\<rparr>, max_polls)"
  using assms
proof (induction q n s rule: poll_loop.induct)
  case (1 q n s)
  show ?case
  proof (cases "n < max_polls")
    case False
    with "1.prems" show ?thesis by (auto simp: poll_loop_stop)
  next
    case True
    let ?qo = "q n (submitted_report_id s)"
    let ?s' = "fst (poll_body ?qo s)"
    from "1.prems"(4) [of n s] True "1.prems"(2,3)
    have nb: "\<not> snd (poll_body ?qo s)" and P': "P ?s'" by auto
    have fr: "poll_frame s ?s'" by (rule poll_body_frame)
    have act: "polling_active ?s'" using nb "1.prems"(3) by (simp add: poll_body_continue)
    have id: "submitted_report_id ?s' = submitted_report_id s" using fr by (simp add: poll_frame_def)
    have eq: "poll_loop q n s = poll_loop q (Suc n) ?s'"
      using "1.prems"(3) True nb by (rule poll_loop_continue)
    have "\<exists>t. P t \<and> poll_frame ?s' t \<and> poll_loop q (Suc n) ?s' = (t\<lparr>polling_active := False\<rparr>, max_polls)"
    proof (rule "1.IH" [of ?s' False])
      show "polling_active s \<and> n < max_polls" using "1.prems"(3) True by simp
      show "(?s', False) = poll_body ?qo s" using poll_body_eq_continue [OF nb] by simp
      show "Suc n \<le> max_polls" using True by simp
    qed (use P' act id "1.prems"(4) in auto)
    with eq fr show ?thesis by (auto intro: poll_frame_trans)
  qed
qed


lemma poll_body_no_reply: "no_reply qo \<Longrightarrow> poll_body qo s = (s, False)"
  by (simp add: no_reply_def poll_body_def split: query_outcome.splits list.splits)

text \<open>
  C1: the poll loop always terminates: it makes at most \<open>max_polls\<close> (120) attempts
  and ends with \<open>polling_active\<close> cleared, whatever the lookup store returns.
\<close>

theorem poll_for_response_terminates:
  "\<not> polling_active (fst (poll_for_response q s)) \<and> snd (poll_for_response q s) \<le> max_polls"
  using poll_loop_result [of s q 0] by (simp add: poll_for_response_def)

text \<open>
  C11: when no query of the 120 attempts returns a row (every query empty or
  failing), the loop uses the whole budget, stores no reply and clears the flag: the
  timed-out terminal state.
\<close>

theorem poll_for_response_timeout:
  assumes "polling_active s" "\<forall>k < max_polls. no_reply (q k (submitted_report_id s))"
  shows "poll_for_response q s = (s\<lparr>polling_active := False\<rparr>, max_polls)"
proof -
  have "\<exists>t. t = s \<and> poll_frame s t \<and> poll_loop q 0 s = (t\<lparr>polling_active := False\<rparr>, max_polls)"
    by (rule poll_loop_exhausts) (use assms in \<open>auto simp: poll_body_no_reply max_polls_def\<close>)
  then show ?thesis by (auto simp: poll_for_response_def)
qed

lemma poll_loop_first_reply:
  assumes "polling_active s" "n \<le> k" "k < max_polls"
    and "\<forall>j. n \<le> j \<longrightarrow> j < k \<longrightarrow> no_reply (q j (submitted_report_id s))"
    and "q k (submitted_report_id s) = QueryRows (r # rs)" "format_specialist_response r = Inr v"
  shows "poll_loop q n s = (s\<lparr>specialist_response := Some r, polling_active := False\<rparr>, k)"
  using assms
proof (induction "k - n" arbitrary: n)
  case 0
  then have "n = k" by simp
  with "0.prems" show ?case
    by (simp add: poll_loop_break poll_body_def)
next
  case (Suc d)
  then have "n < k" and nr: "no_reply (q n (submitted_report_id s))" by auto
  with Suc.prems have "poll_loop q n s = poll_loop q (Suc n) s"
    by (simp add: poll_loop_continue poll_body_no_reply)
  also have "\<dots> = (s\<lparr>specialist_response := Some r, polling_active := False\<rparr>, k)"
    using Suc.hyps(1) [of "Suc n"] Suc.hyps(2) Suc.prems \<open>n < k\<close> by simp
  finally show ?case .
qed

text \<open>
  C12: the first attempt that returns a well-formed row ends the loop there: the first
  row is stored as the specialist reply and the flag is cleared.
\<close>

theorem poll_for_response_first_reply:
  assumes "polling_active s" "k < max_polls"
    and "\<forall>j < k. no_reply (q j (submitted_report_id s))"
    and "q k (submitted_report_id s) = QueryRows (r # rs)" "format_specialist_response r = Inr v"
  shows "poll_for_response q s = (s\<lparr>specialist_response := Some r, polling_active := False\<rparr>, k)"
  unfolding poll_for_response_def
  by (rule poll_loop_first_reply) (use assms in auto)

text \<open>
  C13: a reply row that \<^verbatim>\<open>get_specialist_response\<close> cannot render (here: every
  query returns it) is stored, but the rendering error is swallowed as a failed poll:
  the loop keeps querying for all 120 attempts, and afterwards the check handler
  raises the same error on every click.
\<close>

theorem poll_for_response_bad_reply:
  assumes "polling_active s" "\<forall>k < max_polls. q k (submitted_report_id s) = QueryRows [r]"
    and "format_specialist_response r = Inl e"
  shows "poll_for_response q s = (s\<lparr>specialist_response := Some r, polling_active := False\<rparr>, max_polls)
         \<and> check_for_response (fst (poll_for_response q s)) = Inl e"
proof -
  let ?s1 = "s\<lparr>specialist_response := Some r\<rparr>"
  have body: "poll_body (QueryRows [r]) t = (t\<lparr>specialist_response := Some r\<rparr>, False)" for t :: app_state
    using assms(3) by (simp add: poll_body_def)
  have "poll_loop q 0 s = poll_loop q 1 ?s1"
    using assms body [of s] by (simp add: poll_loop_continue max_polls_def)
  moreover have "\<exists>t. t = ?s1 \<and> poll_frame ?s1 t \<and> poll_loop q 1 ?s1 = (t\<lparr>polling_active := False\<rparr>, max_polls)"
    by (rule poll_loop_exhausts) (use assms body in \<open>auto simp: max_polls_def\<close>)
  ultimately have "poll_for_response q s = (s\<lparr>specialist_response := Some r, polling_active := False\<rparr>, max_polls)"
    by (auto simp: poll_for_response_def)
  with assms(3) show ?thesis
    by (simp add: check_for_response_def get_specialist_response_def)
qed

theorem poll_for_response_timeout_witness:
  "polling_active demo_polling_state \<and>
   poll_for_response (\<lambda>_ _. QueryFailed) demo_polling_state =
     (demo_polling_state\<lparr>polling_active := False\<rparr>, max_polls)"
proof -
  have h: "polling_active demo_polling_state"
    "\<forall>k < max_polls. no_reply ((\<lambda>_ _. QueryFailed) k (submitted_report_id demo_polling_state))"
    by (simp_all add: demo_polling_state_def no_reply_def)
  show ?thesis using h poll_for_response_timeout [OF h] by simp
qed

theorem poll_for_response_first_reply_witness:
  "polling_active demo_polling_state \<and> (3::nat) < max_polls \<and>
   format_specialist_response demo_row =
     Inr \<lparr>reply_date = ''2025-01-02 03:04:05'', reply_specialist = ''p1'', reply_badge = BadgeOrange,
          reply_urgency = ''HIGH'', reply_notes = ''Seen.'',
          reply_recommendations = ''**Next Step:** call'' @ nl @ nl\<rparr> \<and>
   poll_for_response (\<lambda>(k::nat) _. if k < 3 then QueryFailed else QueryRows [demo_row]) demo_polling_state =
     (demo_polling_state\<lparr>specialist_response := Some demo_row, polling_active := False\<rparr>, 3)"
proof -
  have f: "format_specialist_response demo_row =
     Inr \<lparr>reply_date = ''2025-01-02 03:04:05'', reply_specialist = ''p1'', reply_badge = BadgeOrange,
          reply_urgency = ''HIGH'', reply_notes = ''Seen.'',
          reply_recommendations = ''**Next Step:** call'' @ nl @ nl\<rparr>"
    by (simp add: format_specialist_response_def demo_row_def urgency_color_def py_upper_def
                  py_is_lower_def py_title_def py_is_cased_def py_is_upper_def)
  have h: "polling_active demo_polling_state" "(3::nat) < max_polls"
    "\<forall>j < 3. no_reply ((\<lambda>(k::nat) _. if k < 3 then QueryFailed else QueryRows [demo_row]) j
                        (submitted_report_id demo_polling_state))"
    "(\<lambda>(k::nat) _. if k < 3 then QueryFailed else QueryRows [demo_row]) 3 (submitted_report_id demo_polling_state)
       = QueryRows [demo_row]"
    by (simp_all add: demo_polling_state_def no_reply_def max_polls_def)
  show ?thesis using h f poll_for_response_first_reply [OF h f] by simp
qed

theorem poll_for_response_bad_reply_witness:
  "polling_active demo_polling_state \<and>
   format_specialist_response demo_bad_row = Inl AttributeError \<and>
   snd (poll_for_response (\<lambda>_ _. QueryRows [demo_bad_row]) demo_polling_state) = max_polls \<and>
   check_for_response (fst (poll_for_response (\<lambda>_ _. QueryRows [demo_bad_row]) demo_polling_state))
     = Inl AttributeError"
proof -
  have f: "format_specialist_response demo_bad_row = Inl AttributeError"
    by (simp add: format_specialist_response_def demo_bad_row_def demo_row_def)
  have h: "polling_active demo_polling_state"
    "\<forall>k < max_polls. (\<lambda>_ _. QueryRows [demo_bad_row]) k (submitted_report_id demo_polling_state)
                     = QueryRows [demo_bad_row]"
    by (simp_all add: demo_polling_state_def)
  have c: "check_for_response
      (demo_polling_state\<lparr>specialist_response := Some demo_bad_row, polling_active := False\<rparr>)
      = Inl AttributeError"
    using f by (simp add: check_for_response_def get_specialist_response_def)
  show ?thesis using h f c poll_for_response_bad_reply [OF h f] by simp
qed

end
