(* ===== verification/Submission.thy ===== *)
theory Submission
  imports Session
begin

text \<open>
  Submission to the case-management platform (\<^verbatim>\<open>src/app.py\<close>,
  \<^verbatim>\<open>push_report_to_care_bridge\<close>) and the start of the background poll
  (\<^verbatim>\<open>start_response_polling\<close>). The HTTP POST is an oracle from the JSON body
  to its outcome: a reply with a status, a body text and the decoded JSON, or one of
  the exceptions of \<^verbatim>\<open>requests\<close>. Launching the polling thread is returned
  as a flag; the thread itself is modelled in \<^verbatim>\<open>Polling\<close> and \<^verbatim>\<open>Concurrency\<close>.
\<close>

subsection \<open>Starting the poll\<close>

text \<open>
  \<^verbatim>\<open>if not self.supabase or not self.submitted_report_id: return\<close>, then
  \<^verbatim>\<open>if self.polling_active: return\<close>; otherwise set the flag and start one thread.
\<close>

definition report_id_truthy :: "string option \<Rightarrow> bool" where
  "report_id_truthy rid = (case rid of None \<Rightarrow> False | Some i \<Rightarrow> i \<noteq> [])"

definition start_response_polling :: "app_state \<Rightarrow> app_state \<times> bool" where
  "start_response_polling s =
     (if \<not> supabase_configured s \<or> \<not> report_id_truthy (submitted_report_id s) then (s, False)
      else if polling_active s then (s, False)
      else (s\<lparr>polling_active := True\<rparr>, True))"

subsection \<open>The request body\<close>

record api_child =
  api_age :: int
  api_gender :: string
  api_location :: string

record api_payload =
  api_child_info :: api_child
  api_assessment :: assessment_data
  api_media :: media_attachments
  api_mobile_app_id :: string

definition build_api_data :: "report_data \<Rightarrow> api_payload" where
  "build_api_data rd =
     \<lparr>api_child_info = \<lparr>api_age = child_age (child_info rd),
                        api_gender = py_lower (child_gender (child_info rd)),
                        api_location = child_location (child_info rd)\<rparr>,
      api_assessment = assessment_data rd,
      api_media = media_attachments rd,
      api_mobile_app_id = mobile_app_id rd\<rparr>"

subsection \<open>The POST and its outcomes\<close>

text \<open>
  The decoded body of a reply: an object, with its \<^verbatim>\<open>id\<close> member if present; a
  body that is not JSON, on which \<^verbatim>\<open>response.json()\<close> raises
  \<^verbatim>\<open>requests.exceptions.JSONDecodeError\<close> (a \<^verbatim>\<open>RequestException\<close> since
  requests 2.27); or JSON that is not an object (a list, a string, a number), on which
  \<^verbatim>\<open>.get\<close> raises \<^verbatim>\<open>AttributeError\<close>. The strings are the exceptions' texts.
\<close>

datatype reply_body = IdObject "jval option" | BodyNotJson string | NotAnObject string

datatype post_outcome =
    HttpReply int string reply_body
  | ConnectionFailed
  | RequestTimeout
  | RequestFailed string
  | UnexpectedFailure string

type_synonym http_post = "api_payload \<Rightarrow> post_outcome"

datatype push_message =
    PushNeedOnboarding
  | PushNeedConversation
  | PushSuccess string
  | PushApiError int string
  | PushCouldNotConnect
  | PushTimedOut
  | PushNetworkError string
  | PushUnexpectedError string

text \<open>
  \<^verbatim>\<open>result.get('id', 'Unknown')\<close> as it is stored in \<^verbatim>\<open>submitted_report_id\<close>: a
  JSON null id is Python's \<open>None\<close>; the stored id is only tested for truthiness
  (lines 419 and 973) and used as the lookup key, so an object id is kept as its text,
  and the empty object, falsy like the empty string, as the empty string.
  \<^verbatim>\<open>report_id_text\<close> is the id as the success message prints it.
\<close>

fun report_id_of :: "jval option \<Rightarrow> string option" where
  "report_id_of None = Some ''Unknown''"
| "report_id_of (Some JNull) = None"
| "report_id_of (Some (JObj [])) = Some []"
| "report_id_of (Some v) = Some (py_str_jval v)"

fun report_id_text :: "jval option \<Rightarrow> string" where
  "report_id_text None = ''Unknown''"
| "report_id_text (Some v) = py_str_jval v"

text \<open>
  The result is the returned pair \<^verbatim>\<open>(ok, message)\<close>, the new state, and whether a
  polling thread was started.
\<close>

definition push_report_to_care_bridge ::
  "http_post \<Rightarrow> app_state \<Rightarrow> (bool \<times> push_message) \<times> app_state \<times> bool" where
  "push_report_to_care_bridge post s =
     (if \<not> is_onboarded s then ((False, PushNeedOnboarding), s, False)
      else if conversation_history (report_data s) = [] then ((False, PushNeedConversation), s, False)
      else
        (case post (build_api_data (report_data s)) of
           HttpReply status text body \<Rightarrow>
             (if status = 201 then
                (case body of
                   IdObject ido \<Rightarrow>
                     (let rid = report_id_of ido;
                          (s', spawned) = start_response_polling (s\<lparr>submitted_report_id := rid\<rparr>)
                      in ((True, PushSuccess (report_id_text ido)), s', spawned))
                 | BodyNotJson e \<Rightarrow> ((False, PushNetworkError e), s, False)
                 | NotAnObject e \<Rightarrow> ((False, PushUnexpectedError e), s, False))
              else ((False, PushApiError status text), s, False))
         | ConnectionFailed \<Rightarrow> ((False, PushCouldNotConnect), s, False)
         | RequestTimeout \<Rightarrow> ((False, PushTimedOut), s, False)
         | RequestFailed e \<Rightarrow> ((False, PushNetworkError e), s, False)
         | UnexpectedFailure e \<Rightarrow> ((False, PushUnexpectedError e), s, False)))"

text \<open>Sample inputs for the witnesses: an onboarded session with one message.\<close>

definition demo_session :: app_state where
  "demo_session =
     (let s = init_app ''a1b2c3d4'' ''2025-01-01T00:00:00'' True;
          rd = report_data s
      in s\<lparr>report_data := rd\<lparr>child_info := \<lparr>child_name = ''Sam'', child_age = 8,
                                                child_gender = ''Female'', child_location = ''Gaza''\<rparr>,
                              conversation_history := [\<lparr>msg_role = User, msg_content = TextContent ''Hi''\<rparr>]\<rparr>,
           is_onboarded := True\<rparr>)"

subsection \<open>Properties of the start of polling\<close>

lemma start_response_polling_cases:
  "start_response_polling s =
     (if supabase_configured s \<and> report_id_truthy (submitted_report_id s) \<and> \<not> polling_active s
      then (s\<lparr>polling_active := True\<rparr>, True) else (s, False))"
  by (auto simp: start_response_polling_def)

lemma start_response_polling_active:
  "polling_active (fst (start_response_polling s)) \<longleftrightarrow>
     polling_active s \<or> (supabase_configured s \<and> report_id_truthy (submitted_report_id s))"
  by (auto simp: start_response_polling_cases)

lemma start_response_polling_frame [state_frame]:
  "submitted_report_id (fst (start_response_polling s)) = submitted_report_id s"
  "report_data (fst (start_response_polling s)) = report_data s"
  "specialist_response (fst (start_response_polling s)) = specialist_response s"
  "supabase_configured (fst (start_response_polling s)) = supabase_configured s"
  "is_onboarded (fst (start_response_polling s)) = is_onboarded s"
  by (simp_all add: start_response_polling_cases)

text \<open>
  C14: starting the poll is idempotent: it launches a thread exactly when Supabase is
  configured, a truthy report id is stored and no poll is active, and a second call
  right after the first launches nothing and changes nothing.
\<close>

theorem start_response_polling_idempotent:
  "(snd (start_response_polling s) \<longleftrightarrow>
     supabase_configured s \<and> report_id_truthy (submitted_report_id s) \<and> \<not> polling_active s)
   \<and> start_response_polling (fst (start_response_polling s)) = (fst (start_response_polling s), False)"
  by (simp add: start_response_polling_cases)

subsection \<open>Properties of the push\<close>

text \<open>
  C15: the failure paths of the push. Without onboarding, or with an empty
  conversation, it fails before any HTTP request (its result does not depend on the
  POST); a reply with another status than 201 (e.g. 500) fails with that status and
  the body text; and every failed push (a guard, a non-201 status, an undecodable body
  or a transport exception) leaves the state as it was and starts no polling thread,
  with no retry.
\<close>

theorem push_error_paths:
  "((\<not> is_onboarded s \<or> conversation_history (report_data s) = []) \<longrightarrow>
      push_report_to_care_bridge post s = push_report_to_care_bridge post' s \<and>
      \<not> fst (fst (push_report_to_care_bridge post s))) \<and>
   (is_onboarded s \<and> conversation_history (report_data s) \<noteq> [] \<and>
      post (build_api_data (report_data s)) = HttpReply status text body \<and> status \<noteq> 201 \<longrightarrow>
      push_report_to_care_bridge post s = ((False, PushApiError status text), s, False)) \<and>
   (\<not> fst (fst (push_report_to_care_bridge post s)) \<longrightarrow>
      snd (push_report_to_care_bridge post s) = (s, False))"
proof (intro conjI impI)
  assume "\<not> is_onboarded s \<or> conversation_history (report_data s) = []"
  then show "push_report_to_care_bridge post s = push_report_to_care_bridge post' s"
    "\<not> fst (fst (push_report_to_care_bridge post s))"
    by (auto simp: push_report_to_care_bridge_def)
next
  assume "is_onboarded s \<and> conversation_history (report_data s) \<noteq> [] \<and>
      post (build_api_data (report_data s)) = HttpReply status text body \<and> status \<noteq> 201"
  then show "push_report_to_care_bridge post s = ((False, PushApiError status text), s, False)"
    by (simp add: push_report_to_care_bridge_def)
next
  assume "\<not> fst (fst (push_report_to_care_bridge post s))"
  then show "snd (push_report_to_care_bridge post s) = (s, False)"
    by (auto simp: push_report_to_care_bridge_def Let_def split: post_outcome.splits reply_body.splits
                    if_splits prod.splits)
qed

text \<open>
  C16: a 201 reply with a string id stores that id and reports success; a polling
  thread is started exactly when Supabase is configured, the id is non-empty and no
  poll was active, and afterwards a poll is active unless Supabase is missing or the
  id is empty.
\<close>

theorem push_success:
  assumes "is_onboarded s" "conversation_history (report_data s) \<noteq> []"
    and "post (build_api_data (report_data s)) = HttpReply 201 text (IdObject (Some (JStr i)))"
  shows "fst (push_report_to_care_bridge post s) = (True, PushSuccess i) \<and>
         submitted_report_id (fst (snd (push_report_to_care_bridge post s))) = Some i \<and>
         (snd (snd (push_report_to_care_bridge post s)) \<longleftrightarrow>
            supabase_configured s \<and> i \<noteq> [] \<and> \<not> polling_active s) \<and>
         (polling_active (fst (snd (push_report_to_care_bridge post s))) \<longleftrightarrow>
            polling_active s \<or> (supabase_configured s \<and> i \<noteq> []))"
  using assms
  by (auto simp: push_report_to_care_bridge_def start_response_polling_cases report_id_truthy_def Let_def)

theorem push_error_paths_witness:
  "push_report_to_care_bridge (\<lambda>_. ConnectionFailed) (init_app ''u'' ''t'' True)
     = push_report_to_care_bridge (\<lambda>_. HttpReply 201 [] (IdObject None)) (init_app ''u'' ''t'' True) \<and>
   \<not> fst (fst (push_report_to_care_bridge (\<lambda>_. ConnectionFailed) (init_app ''u'' ''t'' True))) \<and>
   push_report_to_care_bridge (\<lambda>_. HttpReply 500 ''Internal Server Error'' (NotAnObject [])) demo_session
     = ((False, PushApiError 500 ''Internal Server Error''), demo_session, False) \<and>
   snd (push_report_to_care_bridge (\<lambda>_. RequestTimeout) demo_session) = (demo_session, False)"
proof -
  have g: "\<not> is_onboarded (init_app ''u'' ''t'' True) \<or>
           conversation_history (report_data (init_app ''u'' ''t'' True)) = []"
    by (simp add: init_app_def)
  have d: "is_onboarded demo_session" "conversation_history (report_data demo_session) \<noteq> []"
    by (simp_all add: demo_session_def init_app_def)
  have t: "\<not> fst (fst (push_report_to_care_bridge (\<lambda>_. RequestTimeout) demo_session))"
    by (simp add: push_report_to_care_bridge_def d)
  have "push_report_to_care_bridge (\<lambda>_. ConnectionFailed) (init_app ''u'' ''t'' True)
          = push_report_to_care_bridge (\<lambda>_. HttpReply 201 [] (IdObject None)) (init_app ''u'' ''t'' True) \<and>
        \<not> fst (fst (push_report_to_care_bridge (\<lambda>_. ConnectionFailed) (init_app ''u'' ''t'' True)))"
    using push_error_paths [of "init_app ''u'' ''t'' True" "\<lambda>_. ConnectionFailed"
            "\<lambda>_. HttpReply 201 [] (IdObject None)"] g by blast
  moreover have "push_report_to_care_bridge (\<lambda>_. HttpReply 500 ''Internal Server Error'' (NotAnObject [])) demo_session
     = ((False, PushApiError 500 ''Internal Server Error''), demo_session, False)"
    using push_error_paths [of demo_session "\<lambda>_. HttpReply 500 ''Internal Server Error'' (NotAnObject [])"
            _ 500 "''Internal Server Error''" "NotAnObject []"] d by simp
  moreover have "snd (push_report_to_care_bridge (\<lambda>_. RequestTimeout) demo_session) = (demo_session, False)"
    using push_error_paths [of demo_session "\<lambda>_. RequestTimeout"] t by blast
  ultimately show ?thesis by blast
qed

theorem push_success_witness:
  "fst (push_report_to_care_bridge (\<lambda>_. HttpReply 201 [] (IdObject (Some (JStr ''r1'')))) demo_session)
     = (True, PushSuccess ''r1'') \<and>
   submitted_report_id (fst (snd (push_report_to_care_bridge
     (\<lambda>_. HttpReply 201 [] (IdObject (Some (JStr ''r1''))))  demo_session))) = Some ''r1'' \<and>
   snd (snd (push_report_to_care_bridge (\<lambda>_. HttpReply 201 [] (IdObject (Some (JStr ''r1'')))) demo_session))"
  using push_success [of demo_session "\<lambda>_. HttpReply 201 [] (IdObject (Some (JStr ''r1'')))" "[]" "''r1''"]
  by (simp add: demo_session_def init_app_def)

end
