(* ===== verification/Conversation.thy ===== *)
theory Conversation
  imports Session
begin

text \<open>
  The conversation engine (\<^verbatim>\<open>src/app.py\<close>): \<^verbatim>\<open>add_message\<close> records a user
  turn (files first, then the text) in the shown history, the model's conversation,
  the observations and the media attachments; \<^verbatim>\<open>classify_file_type\<close> sorts files
  by extension; \<^verbatim>\<open>bot_response\<close> asks the language model for a reply and streams it
  character by character. The language model is an oracle from a request to its text,
  \<open>None\<close> standing for any exception of the client. Each \<^verbatim>\<open>yield\<close> of the
  generator is one snapshot of the history in the list \<^verbatim>\<open>bot_response\<close> returns.
  \<open>chat_turn\<close> chains the two as the submit handler does; the last section shows
  which turns keep the model conversation a sequence of user/assistant exchanges.
\<close>

subsection \<open>Recording a user turn\<close>

datatype file_kind = ImageFile | OtherFile

definition image_exts :: "string list" where
  "image_exts = [''.jpg'', ''.jpeg'', ''.png'', ''.gif'', ''.bmp'']"

definition classify_file_type :: "path \<Rightarrow> file_kind" where
  "classify_file_type f =
     (if list_ex (py_endswith (py_lower f)) image_exts then ImageFile else OtherFile)"

text \<open>\<^verbatim>\<open>"drawings" if "draw" in file.lower() else "photos"\<close>.\<close>

definition is_drawing :: "path \<Rightarrow> bool" where
  "is_drawing f = py_in ''draw'' (py_lower f)"

definition user_msg :: "content \<Rightarrow> chat_msg" where
  "user_msg c = \<lparr>msg_role = User, msg_content = c\<rparr>"

text \<open>One pass of \<^verbatim>\<open>for file in message["files"]\<close>.\<close>

definition add_file :: "timestamp \<Rightarrow> history \<times> media_attachments \<Rightarrow> path \<Rightarrow> history \<times> media_attachments" where
  "add_file now hm f =
     (let (h, m) = hm;
          att = \<lparr>att_path = f, att_timestamp = now\<rparr>;
          m' = (if classify_file_type f = ImageFile
                then (if is_drawing f then m\<lparr>drawings := drawings m @ [att]\<rparr>
                      else m\<lparr>photos := photos m @ [att]\<rparr>)
                else m)
      in (h @ [user_msg (FileContent f)], m'))"

fun add_files :: "timestamp \<Rightarrow> history \<times> media_attachments \<Rightarrow> path list \<Rightarrow> history \<times> media_attachments" where
  "add_files now hm [] = hm"
| "add_files now hm (f # fs) = add_files now (add_file now hm f) fs"

text \<open>\<^verbatim>\<open>current_obs + " " + text if current_obs else text\<close>.\<close>

definition append_observation :: "string \<Rightarrow> string \<Rightarrow> string" where
  "append_observation cur t = (if cur = [] then t else cur @ '' '' @ t)"

text \<open>The multimodal textbox value: its files and its text (the empty text is absent).\<close>

record user_input =
  in_files :: "path list"
  in_text :: string

definition add_message :: "timestamp \<Rightarrow> history \<Rightarrow> user_input \<Rightarrow> app_state \<Rightarrow> history \<times> app_state" where
  "add_message now h msg s =
     (if \<not> is_onboarded s then (h, s)
      else
        (let rd = report_data s;
             ad = assessment_data rd;
             (h1, m1) = add_files now (h, media_attachments rd) (in_files msg);
             t = in_text msg;
             (h2, conv, obs) =
               (if t = [] then (h1, ollama_conversation s, parent_observations ad)
                else (h1 @ [user_msg (TextContent t)], ollama_conversation s @ [(User, t)],
                      append_observation (parent_observations ad) t))
         in (h2, s\<lparr>report_data := rd\<lparr>media_attachments := m1,
                                       assessment_data := ad\<lparr>parent_observations := obs\<rparr>,
                                       conversation_history := h2\<rparr>,
                   ollama_conversation := conv\<rparr>)))"

subsection \<open>The assistant's reply\<close>

datatype llm_request = ImageAnalysis string path | TextChat "turn list"

type_synonym llm = "llm_request \<Rightarrow> string option"

text \<open>The content of the most recent user entry of the history, if any.\<close>

definition last_user_content :: "history \<Rightarrow> content option" where
  "last_user_content h = map_option msg_content (find (\<lambda>m. msg_role m = User) (rev h))"

definition image_prompt :: "string \<Rightarrow> string" where
  "image_prompt nm =
     ''I am sharing an image related to my child '' @ nm @ CHR 0x27 #
     ''s situation. Please analyze this image in the context of trauma assessment and respond empathetically.''"

definition image_fallback :: "string \<Rightarrow> string" where
  "image_fallback nm =
     ''I can see you've shared an image. Thank you for providing this visual information about '' @ nm @
     ''. Visual expressions can tell us a lot about how children process their experiences. Could you tell me more about when this was created or what you'd like me to know about it?''"

definition text_fallback :: "string \<Rightarrow> string" where
  "text_fallback nm =
     ''Thank you for sharing that with me. I understand this is a difficult time for you and '' @ nm @
     ''. Could you tell me more about what you're observing?''"

text \<open>
  The request \<^verbatim>\<open>bot_response\<close> sends: an image request when the last user entry
  is a file with a non-empty path (\<^verbatim>\<open>has_image and image_path\<close>), the whole model
  conversation otherwise.
\<close>

definition reply_request :: "app_state \<Rightarrow> history \<Rightarrow> llm_request" where
  "reply_request s h =
     (case last_user_content h of
        Some (FileContent p) \<Rightarrow>
          (if p \<noteq> [] then ImageAnalysis (image_prompt (child_name (child_info (report_data s)))) p
           else TextChat (ollama_conversation s))
      | _ \<Rightarrow> TextChat (ollama_conversation s))"

definition reply_text :: "llm \<Rightarrow> app_state \<Rightarrow> history \<Rightarrow> string" where
  "reply_text model s h =
     (let nm = child_name (child_info (report_data s));
          req = reply_request s h
      in case model req of
           Some t \<Rightarrow> t
         | None \<Rightarrow> (case req of ImageAnalysis _ _ \<Rightarrow> image_fallback nm | TextChat _ \<Rightarrow> text_fallback nm))"

definition assistant_msg :: "string \<Rightarrow> chat_msg" where
  "assistant_msg t = \<lparr>msg_role = Assistant, msg_content = TextContent t\<rparr>"

text \<open>\<^verbatim>\<open>for character in response_text: history[-1]["content"] += character; yield history\<close>.\<close>

fun stream_chars :: "history \<Rightarrow> string \<Rightarrow> string \<Rightarrow> history list" where
  "stream_chars h acc [] = []"
| "stream_chars h acc (c # cs) = (h @ [assistant_msg (acc @ [c])]) # stream_chars h (acc @ [c]) cs"

definition bot_response :: "llm \<Rightarrow> history \<Rightarrow> app_state \<Rightarrow> history list \<times> app_state" where
  "bot_response model h s =
     (if h = [] \<or> \<not> is_onboarded s then ([], s)
      else
        (let t = reply_text model s h
         in (stream_chars h [] t, s\<lparr>ollama_conversation := ollama_conversation s @ [(Assistant, t)]\<rparr>)))"

subsection \<open>Runs of turns and sample inputs\<close>

text \<open>
  A sequence of text-only turns submitted one after the other, each on the history
  the previous one returned; the observation update of one text; an attachment record.
\<close>

fun submit_texts :: "timestamp \<Rightarrow> history \<Rightarrow> string list \<Rightarrow> app_state \<Rightarrow> history \<times> app_state" where
  "submit_texts now h [] s = (h, s)"
| "submit_texts now h (t # ts) s =
     (case add_message now h \<lparr>in_files = [], in_text = t\<rparr> s of (h', s') \<Rightarrow> submit_texts now h' ts s')"

definition observe :: "string \<Rightarrow> string \<Rightarrow> string" where
  "observe cur t = (if t = [] then cur else append_observation cur t)"

definition image_att :: "timestamp \<Rightarrow> path \<Rightarrow> attachment" where
  "image_att now f = \<lparr>att_path = f, att_timestamp = now\<rparr>"

definition demo_chat_state :: app_state where
  "demo_chat_state =
     (let s = init_app ''a1b2c3d4'' ''2025-01-01T00:00:00'' True;
          rd = report_data s
      in s\<lparr>report_data := rd\<lparr>child_info := \<lparr>child_name = ''Sam'', child_age = 8,
                                                child_gender = ''Female'', child_location = ''Gaza''\<rparr>\<rparr>,
           is_onboarded := True\<rparr>)"

text \<open>
  \<^verbatim>\<open>handle_conversation\<close>: a submitted turn runs \<^verbatim>\<open>add_message\<close>, then
  \<^verbatim>\<open>bot_response\<close> on the history it returned. The result is the streamed snapshots
  and the final state.
\<close>

definition chat_turn :: "llm \<Rightarrow> timestamp \<Rightarrow> history \<Rightarrow> user_input \<Rightarrow> app_state \<Rightarrow> history list \<times> app_state" where
  "chat_turn model now h msg s = (case add_message now h msg s of (h1, s1) \<Rightarrow> bot_response model h1 s1)"

text \<open>
  The shape the chat model expects of \<^verbatim>\<open>ollama_conversation\<close>: a sequence of
  exchanges, each a user turn followed by the assistant's reply.
\<close>

fun exchanges :: "turn list \<Rightarrow> bool" where
  "exchanges [] = True"
| "exchanges ((User, u) # (Assistant, a) # rest) = exchanges rest"
| "exchanges _ = False"

subsection \<open>Observations\<close>

lemma py_join_snoc: "py_join sep (ys @ [t]) = (if ys = [] then t else py_join sep ys @ sep @ t)"
  by (induction sep ys rule: py_join.induct) auto

lemma py_join_nonempty: "ys \<noteq> [] \<Longrightarrow> \<forall>y \<in> set ys. y \<noteq> [] \<Longrightarrow> py_join sep ys \<noteq> []"
  by (induction sep ys rule: py_join.induct) auto

lemma foldl_observe: "foldl observe cur ts = py_join '' '' (filter (\<lambda>x. x \<noteq> []) (cur # ts))"
proof (induction ts rule: rev_induct)
  case Nil
  then show ?case by simp
next
  case (snoc t ts)
  let ?ys = "filter (\<lambda>x. x \<noteq> []) (cur # ts)"
  have ne: "?ys \<noteq> [] \<Longrightarrow> py_join '' '' ?ys \<noteq> []" by (rule py_join_nonempty) auto
  have "foldl observe cur (ts @ [t]) = observe (py_join '' '' ?ys) t"
    using snoc by simp
  also have "\<dots> = py_join '' '' (?ys @ filter (\<lambda>x. x \<noteq> []) [t])"
    using ne by (auto simp: observe_def append_observation_def py_join_snoc simp del: filter.simps)
  also have "?ys @ filter (\<lambda>x. x \<noteq> []) [t] = filter (\<lambda>x. x \<noteq> []) (cur # ts @ [t])"
    by (metis append_Cons filter_append)
  finally show ?case .
qed

lemma add_message_text_only:
  "is_onboarded s \<Longrightarrow>
   parent_observations (assessment_data (report_data (snd (add_message now h \<lparr>in_files = [], in_text = t\<rparr> s)))) =
     observe (parent_observations (assessment_data (report_data s))) t \<and>
   is_onboarded (snd (add_message now h \<lparr>in_files = [], in_text = t\<rparr> s))"
  by (simp add: add_message_def observe_def Let_def)

text \<open>
  C23: the observations are the texts of the turns joined by single spaces, in the
  order they were sent ("A" then "B" gives "A B"); empty texts are skipped.
\<close>

theorem submit_texts_observations:
  "is_onboarded s \<Longrightarrow>
   parent_observations (assessment_data (report_data (snd (submit_texts now h ts s)))) =
     py_join '' '' (filter (\<lambda>x. x \<noteq> []) (parent_observations (assessment_data (report_data s)) # ts))"
proof (induction ts arbitrary: h s)
  case Nil
  have "foldl observe (parent_observations (assessment_data (report_data s))) [] =
        parent_observations (assessment_data (report_data s))" by simp
  then show ?case by (simp only: foldl_observe submit_texts.simps snd_conv)
next
  case (Cons t ts)
  obtain h' s' where a: "add_message now h \<lparr>in_files = [], in_text = t\<rparr> s = (h', s')" by fastforce
  with Cons.prems add_message_text_only [of s now h t]
  have "is_onboarded s'" and o: "parent_observations (assessment_data (report_data s')) =
          observe (parent_observations (assessment_data (report_data s))) t" by auto
  from Cons.IH [of s' h'] \<open>is_onboarded s'\<close>
  have "parent_observations (assessment_data (report_data (snd (submit_texts now h' ts s')))) =
     foldl observe (parent_observations (assessment_data (report_data s'))) ts"
    by (simp add: foldl_observe)
  also have "foldl observe (parent_observations (assessment_data (report_data s'))) ts =
      foldl observe (parent_observations (assessment_data (report_data s))) (t # ts)"
    by (simp add: o)
  finally have r: "parent_observations (assessment_data (report_data (snd (submit_texts now h' ts s')))) =
      foldl observe (parent_observations (assessment_data (report_data s))) (t # ts)" .
  show ?case using a r by (simp only: submit_texts.simps prod.case foldl_observe)
qed

subsection \<open>History and attachments\<close>

lemma add_files_eq:
  "add_files now (h, m) fs =
     (h @ map (\<lambda>f. user_msg (FileContent f)) fs,
      m\<lparr>drawings := drawings m @ map (image_att now)
                      (filter (\<lambda>f. classify_file_type f = ImageFile \<and> is_drawing f) fs),
        photos := photos m @ map (image_att now)
                      (filter (\<lambda>f. classify_file_type f = ImageFile \<and> \<not> is_drawing f) fs)\<rparr>)"
  by (induction fs arbitrary: h m) (auto simp: add_file_def image_att_def)

text \<open>
  C24: a turn appends one file entry per uploaded file and then the text entry (if
  the text is non-empty) to the history, stores that history as the report's
  conversation, and files image uploads as drawings when the lower-cased name
  contains "draw" and as photos otherwise; other files get no attachment.
\<close>

theorem add_message_effect:
  assumes "is_onboarded s"
  shows "fst (add_message now h msg s) =
           h @ map (\<lambda>f. user_msg (FileContent f)) (in_files msg) @
           (if in_text msg = [] then [] else [user_msg (TextContent (in_text msg))]) \<and>
         conversation_history (report_data (snd (add_message now h msg s))) = fst (add_message now h msg s) \<and>
         drawings (media_attachments (report_data (snd (add_message now h msg s)))) =
           drawings (media_attachments (report_data s)) @ map (image_att now)
             (filter (\<lambda>f. classify_file_type f = ImageFile \<and> is_drawing f) (in_files msg)) \<and>
         photos (media_attachments (report_data (snd (add_message now h msg s)))) =
           photos (media_attachments (report_data s)) @ map (image_att now)
             (filter (\<lambda>f. classify_file_type f = ImageFile \<and> \<not> is_drawing f) (in_files msg))"
  using assms by (simp add: add_message_def Let_def add_files_eq)

subsection \<open>The streamed reply\<close>

lemma stream_chars_eq:
  "stream_chars h acc cs = map (\<lambda>k. h @ [assistant_msg (acc @ take (Suc k) cs)]) [0..<length cs]"
proof (induction cs arbitrary: acc)
  case Nil
  then show ?case by simp
next
  case (Cons c cs)
  then show ?case by (simp add: map_upt_Suc del: upt_Suc)
qed

text \<open>
  C25: the reply is streamed as one snapshot per character: the \<open>k\<close>-th snapshot is
  the history followed by an assistant entry holding the first \<open>k+1\<close> characters of
  the reply; nothing is emitted for an empty history or before onboarding.
\<close>

theorem bot_response_stream:
  "fst (bot_response model h s) =
     (if h = [] \<or> \<not> is_onboarded s then []
      else map (\<lambda>k. h @ [assistant_msg (take (Suc k) (reply_text model s h))]) [0..<length (reply_text model s h)])"
  by (simp add: bot_response_def stream_chars_eq Let_def)

text \<open>
  C26: when the language model fails, the reply is the fixed fallback sentence naming
  the child (image or text variant), never the error, and it is appended to the
  model's conversation.
\<close>

theorem bot_response_fallback:
  assumes "h \<noteq> []" "is_onboarded s" "model (reply_request s h) = None"
  shows "snd (bot_response model h s) =
           s\<lparr>ollama_conversation := ollama_conversation s @
              [(Assistant, case reply_request s h of
                             ImageAnalysis _ _ \<Rightarrow> image_fallback (child_name (child_info (report_data s)))
                           | TextChat _ \<Rightarrow> text_fallback (child_name (child_info (report_data s))))]\<rparr>"
  using assms by (simp add: bot_response_def reply_text_def Let_def)

text \<open>
  C27: when the last user entry is any file with a non-empty path, the reply request
  is an image analysis of that file, whatever its type: a PDF is sent to the model
  as an image.
\<close>

theorem reply_request_any_file:
  assumes "p \<noteq> []"
  shows "reply_request s (h @ [user_msg (FileContent p)]) = ImageAnalysis (image_prompt (child_name (child_info (report_data s)))) p"
  using assms by (simp add: reply_request_def last_user_content_def user_msg_def)

subsection \<open>Witnesses\<close>

theorem submit_texts_observations_witness:
  "parent_observations (assessment_data (report_data
     (snd (submit_texts ''t'' [] [''A'', [], ''B''] demo_chat_state)))) = ''A B''"
proof -
  have h: "is_onboarded demo_chat_state" by (simp add: demo_chat_state_def init_app_def)
  show ?thesis
    using submit_texts_observations [OF h, of "''t''" "[]" "[''A'', [], ''B'']"]
    by (simp add: demo_chat_state_def init_app_def)
qed

theorem add_message_effect_witness:
  "drawings (media_attachments (report_data (snd (add_message ''t'' []
      \<lparr>in_files = [''draw1.png'', ''photo.JPG'', ''notes.pdf''], in_text = ''He cries''\<rparr>
      demo_chat_state)))) = [image_att ''t'' ''draw1.png''] \<and>
   photos (media_attachments (report_data (snd (add_message ''t'' []
      \<lparr>in_files = [''draw1.png'', ''photo.JPG'', ''notes.pdf''], in_text = ''He cries''\<rparr>
      demo_chat_state)))) = [image_att ''t'' ''photo.JPG'']"
proof -
  have h: "is_onboarded demo_chat_state" by (simp add: demo_chat_state_def init_app_def)
  show ?thesis
    using add_message_effect [OF h, of "''t''" "[]"
        "\<lparr>in_files = [''draw1.png'', ''photo.JPG'', ''notes.pdf''], in_text = ''He cries''\<rparr>"]
    by (simp add: demo_chat_state_def init_app_def empty_media_def classify_file_type_def
                  image_exts_def py_endswith_def py_lower_def py_is_upper_def is_drawing_def)
qed

theorem bot_response_stream_witness:
  "fst (bot_response (\<lambda>_. Some ''Hi'') [user_msg (TextContent ''x'')] demo_chat_state) =
     [[user_msg (TextContent ''x''), assistant_msg ''H''],
      [user_msg (TextContent ''x''), assistant_msg ''Hi'']]"
  using bot_response_stream [of "\<lambda>_. Some ''Hi''" "[user_msg (TextContent ''x'')]" demo_chat_state]
  by (simp add: demo_chat_state_def init_app_def reply_text_def)

theorem bot_response_fallback_witness:
  "snd (bot_response (\<lambda>_. None) [user_msg (TextContent ''x'')] demo_chat_state) =
     demo_chat_state\<lparr>ollama_conversation := [(Assistant, text_fallback ''Sam'')]\<rparr>"
proof -
  have h: "[user_msg (TextContent ''x'')] \<noteq> []" "is_onboarded demo_chat_state"
    "(\<lambda>_. None) (reply_request demo_chat_state [user_msg (TextContent ''x'')]) = (None :: string option)"
    by (simp_all add: demo_chat_state_def init_app_def)
  show ?thesis using bot_response_fallback [OF h]
    by (simp add: demo_chat_state_def init_app_def reply_request_def last_user_content_def user_msg_def)
qed

theorem reply_request_any_file_witness:
  "classify_file_type ''notes.pdf'' = OtherFile \<and>
   reply_request demo_chat_state [user_msg (FileContent ''notes.pdf'')] = ImageAnalysis (image_prompt ''Sam'') ''notes.pdf''"
proof -
  have c: "classify_file_type ''notes.pdf'' = OtherFile"
    by (simp add: classify_file_type_def image_exts_def py_endswith_def py_lower_def py_is_upper_def)
  have "''notes.pdf'' \<noteq> []" by simp
  from reply_request_any_file [OF this, of demo_chat_state "[]"] c show ?thesis
    by (simp add: demo_chat_state_def init_app_def)
qed

subsection \<open>Frame\<close>

lemma add_message_poll_fields [state_frame]: "poll_fields_eq s (snd (add_message now h msg s))"
  by (simp add: add_message_def poll_fields_eq_def Let_def split: prod.split)

lemma bot_response_poll_fields [state_frame]: "poll_fields_eq s (snd (bot_response model h s))"
  by (simp add: bot_response_def poll_fields_eq_def Let_def)

subsection \<open>What is recorded is what the reply reads\<close>

lemma add_files_history: "fst (add_files now (h, m) fs) = h @ map (\<lambda>f. user_msg (FileContent f)) fs"
proof (induction fs arbitrary: h m)
  case Nil
  then show ?case by simp
next
  case (Cons f fs)
  obtain h1 m1 where a: "add_file now (h, m) f = (h1, m1)" by fastforce
  then have h1: "h1 = h @ [user_msg (FileContent f)]" by (simp add: add_file_def Let_def split: prod.splits)
  have "fst (add_files now (h, m) (f # fs)) = fst (add_files now (h1, m1) fs)" using a by simp
  also have "\<dots> = h1 @ map (\<lambda>f. user_msg (FileContent f)) fs" by (rule Cons.IH)
  also have "\<dots> = h @ map (\<lambda>f. user_msg (FileContent f)) (f # fs)" using h1 by simp
  finally show ?case .
qed

lemma last_user_content_snoc [simp]: "last_user_content (h @ [user_msg c]) = Some c"
  by (simp add: last_user_content_def user_msg_def)

text \<open>
  C34: what \<^verbatim>\<open>add_message\<close> records is what \<^verbatim>\<open>bot_response\<close> reads back: the
  returned history is the one stored in the report; after a turn with text, its last
  user entry is that text and the reply request is the model conversation extended by
  it; after a turn of files only, the last user entry is the last file.
\<close>

theorem add_message_roundtrip:
  assumes "is_onboarded s" "add_message now h msg s = (h', s')"
  shows "conversation_history (report_data s') = h' \<and>
         (in_text msg \<noteq> [] \<longrightarrow>
            last_user_content h' = Some (TextContent (in_text msg)) \<and>
            reply_request s' h' = TextChat (ollama_conversation s @ [(User, in_text msg)])) \<and>
         (in_text msg = [] \<and> in_files msg \<noteq> [] \<longrightarrow>
            last_user_content h' = Some (FileContent (last (in_files msg))))"
proof -
  obtain h1 m1 where a: "add_files now (h, media_attachments (report_data s)) (in_files msg) = (h1, m1)"
    by fastforce
  have h1: "h1 = h @ map (\<lambda>f. user_msg (FileContent f)) (in_files msg)"
    using add_files_history [of now h "media_attachments (report_data s)" "in_files msg"] a by simp
  have files: "in_files msg \<noteq> [] \<Longrightarrow> last_user_content h1 = Some (FileContent (last (in_files msg)))"
  proof -
    assume ne: "in_files msg \<noteq> []"
    have "h1 = (h @ map (\<lambda>f. user_msg (FileContent f)) (butlast (in_files msg))) @
                 [user_msg (FileContent (last (in_files msg)))]"
      using h1 append_butlast_last_id [OF ne] by (metis append_assoc list.simps(8,9) map_append)
    then show ?thesis by (simp only: last_user_content_snoc)
  qed
  have st: "h' = (if in_text msg = [] then h1 else h1 @ [user_msg (TextContent (in_text msg))]) \<and>
            conversation_history (report_data s') = h' \<and>
            ollama_conversation s' =
              (if in_text msg = [] then ollama_conversation s else ollama_conversation s @ [(User, in_text msg)])"
    using assms a by (auto simp: add_message_def Let_def)
  then show ?thesis using files by (simp add: reply_request_def)
qed

theorem add_message_roundtrip_witness:
  "last_user_content (fst (add_message ''t1'' [] \<lparr>in_files = [], in_text = ''He has nightmares''\<rparr> demo_chat_state)) =
     Some (TextContent ''He has nightmares'') \<and>
   last_user_content (fst (add_message ''t1'' [] \<lparr>in_files = [''a.png'', ''b.png''], in_text = []\<rparr> demo_chat_state)) =
     Some (FileContent ''b.png'')"
proof -
  have o: "is_onboarded demo_chat_state" by (simp add: demo_chat_state_def Let_def)
  have "last_user_content (fst (add_message ''t1'' [] \<lparr>in_files = [], in_text = ''He has nightmares''\<rparr> demo_chat_state)) =
     Some (TextContent ''He has nightmares'')"
    using add_message_roundtrip [OF o prod.collapse [symmetric], of "''t1''" "[]" "\<lparr>in_files = [], in_text = ''He has nightmares''\<rparr>"]
    by simp
  moreover have "last_user_content (fst (add_message ''t1'' [] \<lparr>in_files = [''a.png'', ''b.png''], in_text = []\<rparr> demo_chat_state)) =
     Some (FileContent ''b.png'')"
    using add_message_roundtrip [OF o prod.collapse [symmetric], of "''t1''" "[]" "\<lparr>in_files = [''a.png'', ''b.png''], in_text = []\<rparr>"]
    by simp
  ultimately show ?thesis ..
qed
subsection \<open>The model conversation across a chat turn\<close>

lemma add_message_conversation:
  assumes "is_onboarded s"
  shows "ollama_conversation (snd (add_message now h msg s)) =
           ollama_conversation s @ (if in_text msg = [] then [] else [(User, in_text msg)]) \<and>
         is_onboarded (snd (add_message now h msg s)) \<and>
         (in_text msg \<noteq> [] \<or> in_files msg \<noteq> [] \<longrightarrow> fst (add_message now h msg s) \<noteq> [])"
proof -
  obtain h1 m1 where a: "add_files now (h, media_attachments (report_data s)) (in_files msg) = (h1, m1)"
    by fastforce
  have h1: "h1 = h @ map (\<lambda>f. user_msg (FileContent f)) (in_files msg)"
    using add_files_history [of now h "media_attachments (report_data s)" "in_files msg"] a by simp
  from assms a h1 show ?thesis by (auto simp: add_message_def Let_def)
qed

lemma chat_turn_conversation:
  assumes "is_onboarded s" "in_text msg \<noteq> [] \<or> in_files msg \<noteq> []"
  shows "\<exists>r. ollama_conversation (snd (chat_turn model now h msg s)) =
              ollama_conversation s @ (if in_text msg = [] then [] else [(User, in_text msg)]) @ [(Assistant, r)]"
proof -
  obtain h1 s1 where a: "add_message now h msg s = (h1, s1)" by fastforce
  with add_message_conversation [OF assms(1), of now h msg] assms(2)
  have "ollama_conversation s1 = ollama_conversation s @ (if in_text msg = [] then [] else [(User, in_text msg)])"
    "is_onboarded s1" "h1 \<noteq> []" by auto
  then show ?thesis using a by (simp add: chat_turn_def bot_response_def Let_def)
qed

lemma exchanges_snoc: "exchanges xs \<Longrightarrow> exchanges (xs @ [(User, t), (Assistant, r)])"
  by (induction xs rule: exchanges.induct) auto

lemma exchanges_even: "exchanges xs \<Longrightarrow> even (length xs)"
  by (induction xs rule: exchanges.induct) auto

text \<open>
  C39: a text turn keeps the model conversation a sequence of user/assistant exchanges,
  but a turn of files only breaks it: the image reply is appended to
  \<^verbatim>\<open>ollama_conversation\<close> with no user turn before it, so the next text request
  carries two assistant messages in a row (or starts with one) and never the image.
\<close>

theorem chat_turn_exchanges:
  assumes "is_onboarded s" "exchanges (ollama_conversation s)"
  shows "(in_text msg \<noteq> [] \<longrightarrow> exchanges (ollama_conversation (snd (chat_turn model now h msg s)))) \<and>
         (in_text msg = [] \<and> in_files msg \<noteq> [] \<longrightarrow>
            \<not> exchanges (ollama_conversation (snd (chat_turn model now h msg s))))"
proof (intro conjI impI)
  assume t: "in_text msg \<noteq> []"
  then obtain r where "ollama_conversation (snd (chat_turn model now h msg s)) =
      ollama_conversation s @ [(User, in_text msg), (Assistant, r)]"
    using chat_turn_conversation [OF assms(1), of msg model now h] by auto
  then show "exchanges (ollama_conversation (snd (chat_turn model now h msg s)))"
    using exchanges_snoc [OF assms(2)] by simp
next
  assume f: "in_text msg = [] \<and> in_files msg \<noteq> []"
  then obtain r where c: "ollama_conversation (snd (chat_turn model now h msg s)) =
      ollama_conversation s @ [(Assistant, r)]"
    using chat_turn_conversation [OF assms(1), of msg model now h] by auto
  have "even (length (ollama_conversation s))" using assms(2) by (rule exchanges_even)
  then have "\<not> even (length (ollama_conversation (snd (chat_turn model now h msg s))))" using c by simp
  then show "\<not> exchanges (ollama_conversation (snd (chat_turn model now h msg s)))"
    using exchanges_even by blast
qed

text \<open>
  C40: an empty reply of the model is recorded but never shown: the generator yields no
  snapshot, so the chat shows no assistant message, while an empty assistant turn is
  appended to the model conversation.
\<close>

theorem bot_response_empty_reply:
  assumes "is_onboarded s" "h \<noteq> []" "model (reply_request s h) = Some []"
  shows "fst (bot_response model h s) = [] \<and>
         ollama_conversation (snd (bot_response model h s)) = ollama_conversation s @ [(Assistant, [])]"
  using assms by (simp add: bot_response_def reply_text_def Let_def)

theorem chat_turn_exchanges_witness:
  "exchanges (ollama_conversation (snd (chat_turn (\<lambda>_. Some ''ok'') ''t'' [] \<lparr>in_files = [], in_text = ''Hi''\<rparr> demo_chat_state))) \<and>
   \<not> exchanges (ollama_conversation (snd (chat_turn (\<lambda>_. Some ''ok'') ''t'' [] \<lparr>in_files = [''d.png''], in_text = []\<rparr> demo_chat_state)))"
proof -
  have h: "is_onboarded demo_chat_state" "exchanges (ollama_conversation demo_chat_state)"
    by (simp_all add: demo_chat_state_def init_app_def Let_def)
  show ?thesis
    using chat_turn_exchanges [OF h, of "\<lparr>in_files = [], in_text = ''Hi''\<rparr>" "\<lambda>_. Some ''ok''" "''t''" "[]"]
          chat_turn_exchanges [OF h, of "\<lparr>in_files = [''d.png''], in_text = []\<rparr>" "\<lambda>_. Some ''ok''" "''t''" "[]"]
    by simp
qed

theorem bot_response_empty_reply_witness:
  "bot_response (\<lambda>_. Some []) [user_msg (TextContent ''Hi'')] demo_chat_state =
     ([], demo_chat_state\<lparr>ollama_conversation := [(Assistant, [])]\<rparr>)"
proof -
  have h: "is_onboarded demo_chat_state" "ollama_conversation demo_chat_state = []"
    by (simp_all add: demo_chat_state_def init_app_def Let_def)
  from bot_response_empty_reply [OF h(1), of "[user_msg (TextContent ''Hi'')]" "\<lambda>_. Some []"]
  have "fst (bot_response (\<lambda>_. Some []) [user_msg (TextContent ''Hi'')] demo_chat_state) = [] \<and>
        ollama_conversation (snd (bot_response (\<lambda>_. Some []) [user_msg (TextContent ''Hi'')] demo_chat_state)) =
          [(Assistant, [])]"
    using h(2) by simp
  moreover have "snd (bot_response (\<lambda>_. Some []) [user_msg (TextContent ''Hi'')] demo_chat_state) =
      demo_chat_state\<lparr>ollama_conversation := ollama_conversation (snd (bot_response (\<lambda>_. Some []) [user_msg (TextContent ''Hi'')] demo_chat_state))\<rparr>"
    by (simp add: bot_response_def Let_def h(1))
  ultimately show ?thesis by (metis prod.collapse)
qed

end
