(* ===== verification/Report.thy ===== *)
theory Report
  imports Session
begin

text \<open>
  The report synthesizer (\<^verbatim>\<open>src/app.py\<close>, \<^verbatim>\<open>generate_comprehensive_report\<close>
  and the \<^verbatim>\<open>RiskAssessment\<close> model). The structured-output call is an oracle from
  the prompt to its outcome: the chat call raises, the reply does not validate against
  \<^verbatim>\<open>RiskAssessment\<close>, or it parses to a record. Progress callbacks are the list
  of milestones reported. The Markdown report is the record of the values the template
  fills in; its fixed prose, emoji and timestamps are not reproduced.
\<close>

subsection \<open>Structured output\<close>

record risk_assessment =
  ra_parent_observations :: string
  ra_ai_analysis :: string
  ra_severity_score :: int
  ra_risk_indicators :: "string list"
  ra_cultural_context :: string

datatype structured_outcome = ChatFailed | InvalidJson | Parsed risk_assessment

type_synonym structured_llm = "string \<Rightarrow> structured_outcome"

datatype milestone = Analyzing | Generating | Processing | Formatting | UsingFallback

text \<open>The f-string \<^verbatim>\<open>assessment_prompt\<close>: built from the child's data only.\<close>

definition assessment_prompt :: "child_info \<Rightarrow> string" where
  "assessment_prompt ci =
     ''Based on our conversation about '' @ child_name ci @ '', a '' @ py_str_int (child_age ci) @
     ''-year-old '' @ child_gender ci @ '' from '' @ child_location ci @
     '', generate a comprehensive trauma risk assessment report. '' @ nl @ nl @
     ''Include:'' @ nl @
     ''- Parent observations summary from our conversation'' @ nl @
     ''- AI analysis of trauma indicators'' @ nl @
     ''- Severity score (1-10 scale)'' @ nl @
     ''- List of risk indicators identified'' @ nl @
     ''- Cultural context considering the child'' @ CHR 0x27 # ''s location and circumstances'' @ nl @ nl @
     ''Consider the conversation history and any cultural factors relevant to '' @ child_location ci @ ''.''"

definition fallback_indicators :: "string list" where
  "fallback_indicators = [''sleep disturbances'', ''behavioral changes'', ''anxiety'']"

definition apply_assessment :: "risk_assessment \<Rightarrow> assessment_data \<Rightarrow> assessment_data" where
  "apply_assessment ra ad =
     ad\<lparr>parent_observations := ra_parent_observations ra, ai_analysis := ra_ai_analysis ra,
        severity_score := ra_severity_score ra, risk_indicators := ra_risk_indicators ra,
        cultural_context := ra_cultural_context ra\<rparr>"

definition fallback_assessment :: "assessment_data \<Rightarrow> assessment_data" where
  "fallback_assessment ad = ad\<lparr>severity_score := 6, risk_indicators := fallback_indicators\<rparr>"

subsection \<open>The rendered report\<close>

datatype risk_level = ModerateRisk | HighRisk

definition risk_level_of :: "int \<Rightarrow> risk_level" where
  "risk_level_of sev = (if sev < 7 then ModerateRisk else HighRisk)"

record report_view =
  rv_assessment_id :: string
  rv_name :: string
  rv_age :: string
  rv_gender :: string
  rv_location :: string
  rv_observations :: string
  rv_exchanges :: nat
  rv_drawings :: nat
  rv_photos :: nat
  rv_analysis :: string
  rv_patterns :: "string list"
  rv_severity :: int
  rv_risk :: risk_level
  rv_cultural :: string

definition render_report :: "report_data \<Rightarrow> report_view" where
  "render_report rd =
     (let ci = child_info rd; ad = assessment_data rd; ma = media_attachments rd
      in \<lparr>rv_assessment_id = take 8 (mobile_app_id rd), rv_name = child_name ci,
          rv_age = py_str_int (child_age ci), rv_gender = py_title (child_gender ci),
          rv_location = child_location ci, rv_observations = parent_observations ad,
          rv_exchanges = length (conversation_history rd),
          rv_drawings = length (drawings ma), rv_photos = length (photos ma),
          rv_analysis = ai_analysis ad, rv_patterns = risk_indicators ad,
          rv_severity = severity_score ad, rv_risk = risk_level_of (severity_score ad),
          rv_cultural = cultural_context ad\<rparr>)"

datatype report_result = ReportMessage string | ReportText report_view

subsection \<open>Generation\<close>

definition generate_comprehensive_report ::
  "structured_llm \<Rightarrow> app_state \<Rightarrow> (milestone list \<times> report_result) \<times> app_state" where
  "generate_comprehensive_report structured s =
     (if \<not> is_onboarded s
      then (([], ReportMessage ''Please complete the initial assessment form first.''), s)
      else if ollama_conversation s = []
      then (([], ReportMessage ''Please have a conversation first before generating a report.''), s)
      else
        (let rd = report_data s;
             ad = assessment_data rd;
             (ms, ad') =
               (case structured (assessment_prompt (child_info rd)) of
                  ChatFailed \<Rightarrow> ([Analyzing, Generating, UsingFallback], fallback_assessment ad)
                | InvalidJson \<Rightarrow> ([Analyzing, Generating, Processing, UsingFallback], fallback_assessment ad)
                | Parsed ra \<Rightarrow> ([Analyzing, Generating, Processing, Formatting], apply_assessment ra ad));
             rd' = rd\<lparr>assessment_data := ad'\<rparr>
         in ((ms, ReportText (render_report rd')), s\<lparr>report_data := rd'\<rparr>)))"

text \<open>Sample inputs for the witnesses: an onboarded session after one turn.\<close>

definition demo_report_state :: app_state where
  "demo_report_state =
     (let s = init_app ''a1b2c3d4-0000'' ''2025-01-01T00:00:00'' True;
          rd = report_data s;
          ad = assessment_data rd
      in s\<lparr>report_data := rd\<lparr>child_info := \<lparr>child_name = ''Sam'', child_age = 8,
                                                child_gender = ''Female'', child_location = ''Gaza''\<rparr>,
                              assessment_data := ad\<lparr>parent_observations := ''He has nightmares'',
                                                     cultural_context := generate_cultural_context ''Gaza''\<rparr>,
                              conversation_history := [\<lparr>msg_role = User, msg_content = TextContent ''He has nightmares''\<rparr>]\<rparr>,
           is_onboarded := True, ollama_conversation := [(User, ''He has nightmares'')]\<rparr>)"

definition demo_assessment :: risk_assessment where
  "demo_assessment = \<lparr>ra_parent_observations = ''Nightmares'', ra_ai_analysis = ''Sleep problems'',
                       ra_severity_score = 42, ra_risk_indicators = [''nightmares''],
                       ra_cultural_context = ''Conflict exposure''\<rparr>"

subsection \<open>Properties\<close>

text \<open>
  C30: before onboarding, or with an empty model conversation, no report is generated:
  the instructional message is returned, the state is unchanged, no milestone is
  reported and the language model is not consulted.
\<close>

theorem report_guard:
  assumes "\<not> is_onboarded s \<or> ollama_conversation s = []"
  shows "generate_comprehensive_report structured s = generate_comprehensive_report structured' s \<and>
         snd (generate_comprehensive_report structured s) = s \<and>
         fst (fst (generate_comprehensive_report structured s)) = []"
  using assms by (auto simp: generate_comprehensive_report_def)

text \<open>
  C29: when the structured-output call raises or its reply does not validate, the report
  is still produced, from the stored assessment with severity 6 and the three fixed
  indicators "sleep disturbances", "behavioral changes", "anxiety"; it shows moderate
  risk, and the last milestone is the fallback notice. The analysis and the cultural
  context keep their previous values.
\<close>

theorem report_fallback:
  assumes "is_onboarded s" "ollama_conversation s \<noteq> []"
    and "structured (assessment_prompt (child_info (report_data s))) = ChatFailed \<or>
         structured (assessment_prompt (child_info (report_data s))) = InvalidJson"
  shows "last (fst (fst (generate_comprehensive_report structured s))) = UsingFallback \<and>
         snd (fst (generate_comprehensive_report structured s)) =
           ReportText (render_report ((report_data s)\<lparr>assessment_data :=
             (assessment_data (report_data s))\<lparr>severity_score := 6, risk_indicators := fallback_indicators\<rparr>\<rparr>)) \<and>
         rv_risk (render_report ((report_data s)\<lparr>assessment_data :=
             (assessment_data (report_data s))\<lparr>severity_score := 6, risk_indicators := fallback_indicators\<rparr>\<rparr>))
           = ModerateRisk"
  using assms by (auto simp: generate_comprehensive_report_def fallback_assessment_def render_report_def
                            risk_level_of_def Let_def)

text \<open>
  C28: a parsed assessment replaces all five assessment fields, the report renders the new
  state, and its risk level is high exactly when the severity is at least 7; the severity
  is taken as it comes, with no check that it lies in 1..10.
\<close>

theorem report_parsed:
  assumes "is_onboarded s" "ollama_conversation s \<noteq> []"
    and "structured (assessment_prompt (child_info (report_data s))) = Parsed ra"
  shows "fst (fst (generate_comprehensive_report structured s)) = [Analyzing, Generating, Processing, Formatting] \<and>
         assessment_data (report_data (snd (generate_comprehensive_report structured s))) =
           apply_assessment ra (assessment_data (report_data s)) \<and>
         snd (fst (generate_comprehensive_report structured s)) =
           ReportText (render_report (report_data (snd (generate_comprehensive_report structured s)))) \<and>
         rv_severity (render_report (report_data (snd (generate_comprehensive_report structured s)))) =
           ra_severity_score ra \<and>
         (rv_risk (render_report (report_data (snd (generate_comprehensive_report structured s)))) = HighRisk
           \<longleftrightarrow> 7 \<le> ra_severity_score ra)"
  using assms by (auto simp: generate_comprehensive_report_def render_report_def apply_assessment_def
                            risk_level_of_def Let_def)

text \<open>
  C31: the report does not depend on the content of the model conversation, only on its
  being non-empty: the prompt is built from the child's data alone.
\<close>

theorem report_ignores_conversation:
  assumes "ollama_conversation s \<noteq> []" "c \<noteq> []"
  shows "generate_comprehensive_report structured (s\<lparr>ollama_conversation := c\<rparr>) =
           (fst (generate_comprehensive_report structured s),
            (snd (generate_comprehensive_report structured s))\<lparr>ollama_conversation := c\<rparr>)"
  using assms by (simp add: generate_comprehensive_report_def Let_def split: prod.split structured_outcome.split)

theorem report_guard_witness:
  "generate_comprehensive_report (\<lambda>_. ChatFailed) (init_app ''u'' ''t'' True) =
     generate_comprehensive_report (\<lambda>_. Parsed demo_assessment) (init_app ''u'' ''t'' True) \<and>
   snd (generate_comprehensive_report (\<lambda>_. ChatFailed) (init_app ''u'' ''t'' True)) = init_app ''u'' ''t'' True \<and>
   fst (fst (generate_comprehensive_report (\<lambda>_. ChatFailed) (init_app ''u'' ''t'' True))) = []"
  by (rule report_guard) (simp add: init_app_def)

theorem report_fallback_witness:
  "last (fst (fst (generate_comprehensive_report (\<lambda>_. ChatFailed) demo_report_state))) = UsingFallback \<and>
   snd (fst (generate_comprehensive_report (\<lambda>_. ChatFailed) demo_report_state)) =
     ReportText (render_report ((report_data demo_report_state)\<lparr>assessment_data :=
       (assessment_data (report_data demo_report_state))\<lparr>severity_score := 6,
          risk_indicators := fallback_indicators\<rparr>\<rparr>)) \<and>
   rv_risk (render_report ((report_data demo_report_state)\<lparr>assessment_data :=
       (assessment_data (report_data demo_report_state))\<lparr>severity_score := 6,
          risk_indicators := fallback_indicators\<rparr>\<rparr>)) = ModerateRisk"
  by (rule report_fallback) (simp_all add: demo_report_state_def init_app_def)

theorem report_parsed_witness:
  "rv_severity (render_report (report_data (snd (generate_comprehensive_report
      (\<lambda>_. Parsed demo_assessment) demo_report_state)))) = 42 \<and>
   rv_risk (render_report (report_data (snd (generate_comprehensive_report
      (\<lambda>_. Parsed demo_assessment) demo_report_state)))) = HighRisk"
proof -
  have h: "is_onboarded demo_report_state" "ollama_conversation demo_report_state \<noteq> []"
    "(\<lambda>_. Parsed demo_assessment) (assessment_prompt (child_info (report_data demo_report_state)))
       = Parsed demo_assessment"
    by (simp_all add: demo_report_state_def init_app_def)
  show ?thesis using report_parsed [OF h] by (simp add: demo_assessment_def)
qed

theorem report_ignores_conversation_witness:
  "generate_comprehensive_report (\<lambda>_. ChatFailed)
       (demo_report_state\<lparr>ollama_conversation := [(User, ''Something else'')]\<rparr>) =
     (fst (generate_comprehensive_report (\<lambda>_. ChatFailed) demo_report_state),
      (snd (generate_comprehensive_report (\<lambda>_. ChatFailed) demo_report_state))
        \<lparr>ollama_conversation := [(User, ''Something else'')]\<rparr>)"
  by (rule report_ignores_conversation) (simp_all add: demo_report_state_def init_app_def)

lemma generate_report_poll_fields [state_frame]:
  "poll_fields_eq s (snd (generate_comprehensive_report structured s))"
  by (simp add: generate_comprehensive_report_def poll_fields_eq_def Let_def split: prod.split structured_outcome.split)

end
