(* ===== verification/Concurrency.thy ===== *)
theory Concurrency
  imports Polling Submission Conversation Report
begin

text \<open>
  The whole application as an interleaving of its two kinds of control flow
  (\<^verbatim>\<open>src/app.py\<close>): the UI handlers, each run to completion on one state
  (\<^verbatim>\<open>handle_onboarding\<close>, \<^verbatim>\<open>add_message\<close>, \<^verbatim>\<open>bot_response\<close>,
  \<^verbatim>\<open>generate_report_with_progress\<close>, \<^verbatim>\<open>clear_conversation\<close>,
  \<^verbatim>\<open>push_to_care_bridge\<close>), and the daemon threads started by
  \<^verbatim>\<open>start_response_polling\<close>, each running \<^verbatim>\<open>_poll_for_response\<close> one
  iteration at a time. The threads are a multiset of their \<^verbatim>\<open>poll_count\<close>s.
  An iteration is atomic: no handler writes the fields it reads in between (the only
  handler that writes the poll fields, the push, sets the flag only when it is clear).
  The outside world is a parameter of the step: the form input, the model's reply,
  the POST's outcome, the lookup store's answer.
\<close>

subsection \<open>States and steps\<close>

record sys =
  app :: app_state
  threads :: "nat multiset"

definition init_sys :: "string \<Rightarrow> timestamp \<Rightarrow> bool \<Rightarrow> sys" where
  "init_sys uuid start creds = \<lparr>app = init_app uuid start creds, threads = {#}\<rparr>"

text \<open>
  What a step does to the thread multiset and to the flag: a push adds a thread when it
  started one; an iteration keeps its thread (one attempt further) unless it broke; an
  exiting thread clears the flag when it ran out of attempts.
\<close>

definition spawned_threads :: "bool \<Rightarrow> nat multiset" where
  "spawned_threads sp = (if sp then {#0#} else {#})"

definition next_threads :: "bool \<Rightarrow> nat \<Rightarrow> nat multiset" where
  "next_threads brk n = (if brk then {#} else {#Suc n#})"

definition after_poll :: "nat multiset \<Rightarrow> nat \<Rightarrow> bool \<Rightarrow> nat multiset" where
  "after_poll T n brk = T - {#n#} + next_threads brk n"

definition exit_state :: "nat \<Rightarrow> app_state \<Rightarrow> app_state" where
  "exit_state n s = (if max_polls \<le> n then s\<lparr>polling_active := False\<rparr> else s)"

datatype event =
    EvOnboard string "py_float option" string string
  | EvMessage timestamp history user_input
  | EvReply llm history
  | EvReport structured_llm
  | EvClear
  | EvPush post_outcome
  | EvPoll nat query_outcome
  | EvPollExit nat

inductive sys_step :: "sys \<Rightarrow> event \<Rightarrow> sys \<Rightarrow> bool" where
  onboard: "age_widget_ok age \<Longrightarrow> sys_step c (EvOnboard nm age gd loc)
              (c\<lparr>app := snd (complete_onboarding nm age gd loc (app c))\<rparr>)"
| message: "sys_step c (EvMessage now h msg) (c\<lparr>app := snd (add_message now h msg (app c))\<rparr>)"
| reply: "sys_step c (EvReply model h) (c\<lparr>app := snd (bot_response model h (app c))\<rparr>)"
| report: "sys_step c (EvReport st) (c\<lparr>app := snd (generate_comprehensive_report st (app c))\<rparr>)"
| clear: "sys_step c EvClear (c\<lparr>app := snd (clear_conversation (app c))\<rparr>)"
| push: "push_report_to_care_bridge (\<lambda>_. out) (app c) = (r, s', sp) \<Longrightarrow>
         sys_step c (EvPush out) \<lparr>app = s', threads = threads c + spawned_threads sp\<rparr>"
| poll: "n \<in># threads c \<Longrightarrow> polling_active (app c) \<Longrightarrow> n < max_polls \<Longrightarrow>
         poll_body qo (app c) = (s', brk) \<Longrightarrow>
         sys_step c (EvPoll n qo)
           \<lparr>app = s', threads = after_poll (threads c) n brk\<rparr>"
| poll_exit: "n \<in># threads c \<Longrightarrow> \<not> (polling_active (app c) \<and> n < max_polls) \<Longrightarrow>
         sys_step c (EvPollExit n)
           \<lparr>app = exit_state n (app c), threads = threads c - {#n#}\<rparr>"

text \<open>
  The states reachable from the start through events that \<open>P\<close> admits; \<open>P\<close> is
  \<open>\<lambda>_. True\<close> for the unrestricted system.
\<close>

inductive reachable_by :: "(event \<Rightarrow> bool) \<Rightarrow> sys \<Rightarrow> bool" for P where
  start: "reachable_by P (init_sys uuid t0 creds)"
| step: "reachable_by P c \<Longrightarrow> sys_step c e c' \<Longrightarrow> P e \<Longrightarrow> reachable_by P c'"

abbreviation reachable :: "sys \<Rightarrow> bool" where
  "reachable \<equiv> reachable_by (\<lambda>_. True)"

text \<open>Background steps: the events of the polling threads.\<close>

fun is_poll_event :: "event \<Rightarrow> bool" where
  "is_poll_event (EvPoll _ _) = True"
| "is_poll_event (EvPollExit _) = True"
| "is_poll_event _ = False"

text \<open>
  The same steps as a function: \<open>None\<close> when the event is not enabled. Runs of
  events are executed one after the other, stopping at a disabled event.
\<close>

fun exec_event :: "sys \<Rightarrow> event \<Rightarrow> sys option" where
  "exec_event c (EvOnboard nm age gd loc) =
     (if age_widget_ok age then Some (c\<lparr>app := snd (complete_onboarding nm age gd loc (app c))\<rparr>) else None)"
| "exec_event c (EvMessage now h msg) = Some (c\<lparr>app := snd (add_message now h msg (app c))\<rparr>)"
| "exec_event c (EvReply model h) = Some (c\<lparr>app := snd (bot_response model h (app c))\<rparr>)"
| "exec_event c (EvReport st) = Some (c\<lparr>app := snd (generate_comprehensive_report st (app c))\<rparr>)"
| "exec_event c EvClear = Some (c\<lparr>app := snd (clear_conversation (app c))\<rparr>)"
| "exec_event c (EvPush out) =
     (case push_report_to_care_bridge (\<lambda>_. out) (app c) of
        (r, s', sp) \<Rightarrow> Some \<lparr>app = s', threads = threads c + spawned_threads sp\<rparr>)"
| "exec_event c (EvPoll n qo) =
     (if n \<in># threads c \<and> polling_active (app c) \<and> n < max_polls then
        (case poll_body qo (app c) of
           (s', brk) \<Rightarrow> Some \<lparr>app = s', threads = after_poll (threads c) n brk\<rparr>)
      else None)"
| "exec_event c (EvPollExit n) =
     (if n \<in># threads c \<and> \<not> (polling_active (app c) \<and> n < max_polls) then
        Some \<lparr>app = exit_state n (app c), threads = threads c - {#n#}\<rparr>
      else None)"

fun exec_events :: "sys \<Rightarrow> event list \<Rightarrow> sys option" where
  "exec_events c [] = Some c"
| "exec_events c (e # es) = (case exec_event c e of None \<Rightarrow> None | Some c' \<Rightarrow> exec_events c' es)"

subsection \<open>Invariant and budget\<close>

text \<open>
  At most one polling thread; the flag is set exactly while one runs; no thread has
  counted past the attempt bound.
\<close>

definition sys_inv :: "sys \<Rightarrow> bool" where
  "sys_inv c \<longleftrightarrow>
     size (threads c) \<le> 1 \<and> (polling_active (app c) \<longleftrightarrow> threads c \<noteq> {#}) \<and>
     (\<forall>n \<in># threads c. n \<le> max_polls)"

text \<open>The attempts the running threads can still make, counting their exits.\<close>

definition poll_budget :: "sys \<Rightarrow> nat" where
  "poll_budget c = sum_mset (image_mset (\<lambda>n. Suc max_polls - n) (threads c))"

text \<open>A run used by the witnesses: onboarding, one message, a push answered with id
  \<open>r1\<close>.\<close>

definition demo_events :: "event list" where
  "demo_events =
     [EvOnboard ''Sam'' (Some 8) ''Female'' ''Gaza'',
      EvMessage ''t1'' [] \<lparr>in_files = [], in_text = ''He has nightmares''\<rparr>,
      EvPush (HttpReply 201 [] (IdObject (Some (JStr ''r1''))))]"

subsection \<open>Invariant, termination and the step function\<close>

lemmas handler_poll_fields =
  complete_onboarding_poll_fields add_message_poll_fields bot_response_poll_fields
  generate_report_poll_fields clear_conversation_poll_fields

lemma mset_le1_member: "size T \<le> 1 \<Longrightarrow> n \<in># T \<Longrightarrow> T = {#n#}"
proof -
  assume s: "size T \<le> 1" and m: "n \<in># T"
  from m obtain T' where T: "T = add_mset n T'" by (metis multi_member_split)
  with s have "T' = {#}" by simp
  with T show ?thesis by simp
qed

lemma push_flag:
  assumes "push_report_to_care_bridge post s = (r, s', sp)"
  shows "(sp \<longrightarrow> \<not> polling_active s \<and> polling_active s') \<and>
         (\<not> sp \<longrightarrow> polling_active s' = polling_active s)"
  using assms
  by (auto simp: push_report_to_care_bridge_def start_response_polling_cases Let_def
           split: post_outcome.splits reply_body.splits if_splits prod.splits)

lemma main_event_frame:
  assumes "sys_step c e c'" "\<not> is_poll_event e" "\<forall>out. e \<noteq> EvPush out"
  shows "threads c' = threads c \<and> poll_fields_eq (app c) (app c')"
  using assms by (cases rule: sys_step.cases) (auto intro: handler_poll_fields)

lemma sys_inv_init: "sys_inv (init_sys uuid t0 creds)"
  by (simp add: sys_inv_def init_sys_def init_app_def)

lemma sys_step_inv:
  assumes "sys_step c e c'" "sys_inv c"
  shows "sys_inv c'"
  using assms
proof (induction rule: sys_step.induct)
  case (push out c r s' sp)
  then show ?case using push_flag [OF push.hyps] by (auto simp: sys_inv_def spawned_threads_def)
next
  case (poll n c qo s' brk)
  then have T: "threads c = {#n#}" by (auto simp: sys_inv_def intro: mset_le1_member)
  show ?case
  proof (cases brk)
    case True
    with poll.hyps(4) poll_body_break [of qo "app c"] have "\<not> polling_active s'" by simp
    with True T show ?thesis by (simp add: sys_inv_def after_poll_def next_threads_def)
  next
    case False
    with poll.hyps(4) poll_body_continue [of qo "app c"] poll.hyps(2) have "polling_active s'" by simp
    with False T poll.hyps(3) show ?thesis by (simp add: sys_inv_def after_poll_def next_threads_def)
  qed
next
  case (poll_exit n c)
  then have T: "threads c = {#n#}" and "polling_active (app c)" by (auto simp: sys_inv_def intro: mset_le1_member)
  with poll_exit.hyps(2) have "max_polls \<le> n" by simp
  with T show ?case by (simp add: sys_inv_def exit_state_def)
qed (insert handler_poll_fields, auto simp: sys_inv_def poll_fields_eq_def)


lemma exec_event_sys_step: "exec_event c e = Some c' \<longleftrightarrow> sys_step c e c'"
proof
  assume "exec_event c e = Some c'"
  then show "sys_step c e c'"
    by (cases e) (auto intro: sys_step.intros split: prod.splits if_splits)
next
  assume "sys_step c e c'"
  then show "exec_event c e = Some c'"
    by (induction rule: sys_step.induct) auto
qed

lemma exec_events_reachable:
  "exec_events c es = Some c' \<Longrightarrow> reachable_by P c \<Longrightarrow> list_all P es \<Longrightarrow> reachable_by P c'"
proof (induction es arbitrary: c)
  case Nil
  then show ?case by simp
next
  case (Cons e es)
  then obtain c1 where e: "exec_event c e = Some c1" and r: "exec_events c1 es = Some c'"
    by (auto split: option.splits)
  from e have "sys_step c e c1" by (simp add: exec_event_sys_step)
  with Cons.prems(2,3) have "reachable_by P c1" by (auto intro: reachable_by.step)
  with r Cons.IH Cons.prems(3) show ?case by simp
qed

lemma reachable_by_inv: "reachable_by P c \<Longrightarrow> sys_inv c"
  by (induction rule: reachable_by.induct) (auto intro: sys_inv_init sys_step_inv)

lemma push_reply_frame:
  "push_report_to_care_bridge post s = (r, s', sp) \<Longrightarrow> specialist_response s' = specialist_response s"
  by (auto simp: push_report_to_care_bridge_def start_response_polling_cases Let_def
           split: post_outcome.splits reply_body.splits if_splits prod.splits)

lemma poll_body_reply_kept:
  "specialist_response s \<noteq> None \<Longrightarrow> specialist_response (fst (poll_body qo s)) \<noteq> None"
  by (auto simp: poll_body_def Let_def split: query_outcome.splits list.splits sum.splits)


text \<open>
  C19: once a specialist reply is stored no step removes it, so the reply stays available to every later check.
\<close>

theorem sys_step_keeps_reply:
  assumes "sys_step c e c'" "specialist_response (app c) \<noteq> None"
  shows "specialist_response (app c') \<noteq> None"
  using assms
proof (induction rule: sys_step.induct)
  case (push out c r s' sp)
  then show ?case using push_reply_frame [OF push.hyps] by simp
next
  case (poll n c qo s' brk)
  then show ?case using poll_body_reply_kept [of "app c" qo] by simp
qed (insert handler_poll_fields, auto simp: poll_fields_eq_def exit_state_def)

lemma budget_poll:
  assumes "sys_step c e c'" "is_poll_event e" "sys_inv c"
  shows "poll_budget c' < poll_budget c"
  using assms
proof (induction rule: sys_step.induct)
  case (poll n c qo s' brk)
  then have T: "threads c = {#n#}" by (auto simp: sys_inv_def intro: mset_le1_member)
  with poll.hyps(3) show ?case by (auto simp: poll_budget_def after_poll_def next_threads_def Suc_diff_le)
next
  case (poll_exit n c)
  then have T: "threads c = {#n#}" and "n \<le> max_polls" by (auto simp: sys_inv_def intro: mset_le1_member)
  then show ?case by (simp add: poll_budget_def)
qed auto

text \<open>A running thread can always step, with whatever answer \<open>q\<close> the store gives
  to its attempt: an iteration while the loop test holds, the exit otherwise.\<close>

lemma poll_progress:
  assumes "threads c \<noteq> {#}"
  shows "\<exists>e c'. is_poll_event e \<and> (\<forall>k qo. e = EvPoll k qo \<longrightarrow> qo = q k) \<and> sys_step c e c'"
proof -
  from assms obtain n where n: "n \<in># threads c" by blast
  show ?thesis
  proof (cases "polling_active (app c) \<and> n < max_polls")
    case True
    obtain s' brk where "poll_body (q n) (app c) = (s', brk)" by fastforce
    with n True have "sys_step c (EvPoll n (q n))
        \<lparr>app = s', threads = after_poll (threads c) n brk\<rparr>"
      by (auto intro: sys_step.poll)
    then have "is_poll_event (EvPoll n (q n)) \<and> (\<forall>k qo. EvPoll n (q n) = EvPoll k qo \<longrightarrow> qo = q k) \<and>
        sys_step c (EvPoll n (q n)) \<lparr>app = s', threads = after_poll (threads c) n brk\<rparr>" by simp
    then show ?thesis by blast
  next
    case False
    with n have "sys_step c (EvPollExit n) \<lparr>app = exit_state n (app c), threads = threads c - {#n#}\<rparr>"
      by (rule sys_step.poll_exit)
    then have "is_poll_event (EvPollExit n) \<and> (\<forall>k qo. EvPollExit n = EvPoll k qo \<longrightarrow> qo = q k) \<and>
        sys_step c (EvPollExit n) \<lparr>app = exit_state n (app c), threads = threads c - {#n#}\<rparr>" by simp
    then show ?thesis by blast
  qed
qed


text \<open>
  C3: the background polling always terminates: in every reachable state the remaining poll budget is at most 121, a running thread can always take a step, and every step of a polling thread strictly decreases the budget.
\<close>

theorem poll_threads_terminate:
  assumes "reachable c"
  shows "poll_budget c \<le> Suc max_polls \<and>
         (threads c \<noteq> {#} \<longrightarrow> (\<exists>e c'. is_poll_event e \<and> sys_step c e c')) \<and>
         (\<forall>e c'. sys_step c e c' \<longrightarrow> is_poll_event e \<longrightarrow> poll_budget c' < poll_budget c)"
proof -
  from assms have inv: "sys_inv c" by (rule reachable_by_inv)
  have "poll_budget c \<le> Suc max_polls"
  proof (cases "threads c = {#}")
    case True
    then show ?thesis by (simp add: poll_budget_def)
  next
    case False
    then obtain n where "n \<in># threads c" by blast
    with inv have "threads c = {#n#}" by (auto simp: sys_inv_def intro: mset_le1_member)
    then show ?thesis by (simp add: poll_budget_def)
  qed
  moreover have "threads c \<noteq> {#} \<longrightarrow> (\<exists>e c'. is_poll_event e \<and> sys_step c e c')"
    using poll_progress by blast
  moreover have "\<forall>e c'. sys_step c e c' \<longrightarrow> is_poll_event e \<longrightarrow> poll_budget c' < poll_budget c"
    using inv budget_poll by blast
  ultimately show ?thesis by blast
qed


text \<open>
  C2: in every reachable state of the interleaved system at most one polling thread runs, and polling_active is set exactly while one runs: starting the poll is idempotent across pushes.
\<close>

theorem at_most_one_poll_thread:
  assumes "reachable c"
  shows "size (threads c) \<le> 1 \<and> (polling_active (app c) \<longleftrightarrow> threads c \<noteq> {#})"
  using reachable_by_inv [OF assms] by (simp add: sys_inv_def)


lemmas run_simps = init_sys_def init_app_def complete_onboarding_def onboarding_fields_ok_def
  age_widget_ok_def py_int_of_float_def
  add_message_def push_report_to_care_bridge_def start_response_polling_def report_id_truthy_def
  Let_def append_observation_def build_api_data_def spawned_threads_def


subsection \<open>Witnesses\<close>

lemma demo_run:
  "exec_events (init_sys ''u'' ''t0'' True) demo_events = Some (the (exec_events (init_sys ''u'' ''t0'' True) demo_events))"
  by (simp add: demo_events_def run_simps)

lemma demo_run_reachable_any: "reachable (the (exec_events (init_sys ''u'' ''t0'' True) demo_events))"
  by (rule exec_events_reachable [OF demo_run reachable_by.start]) (simp add: list_all_iff)

lemma demo_run_state:
  "threads (the (exec_events (init_sys ''u'' ''t0'' True) demo_events)) = {#0#} \<and>
   polling_active (app (the (exec_events (init_sys ''u'' ''t0'' True) demo_events))) \<and>
   supabase_configured (app (the (exec_events (init_sys ''u'' ''t0'' True) demo_events))) \<and>
   specialist_response (app (the (exec_events (init_sys ''u'' ''t0'' True) demo_events))) = None \<and>
   submitted_report_id (app (the (exec_events (init_sys ''u'' ''t0'' True) demo_events))) = Some ''r1''"
  by (simp add: demo_events_def run_simps)

theorem at_most_one_poll_thread_witness:
  "size (threads (the (exec_events (init_sys ''u'' ''t0'' True) demo_events))) \<le> 1 \<and>
   threads (the (exec_events (init_sys ''u'' ''t0'' True) demo_events)) = {#0#}"
  using at_most_one_poll_thread [OF demo_run_reachable_any] demo_run_state by simp

theorem poll_threads_terminate_witness:
  "poll_budget (the (exec_events (init_sys ''u'' ''t0'' True) demo_events)) = 121"
  using poll_threads_terminate [OF demo_run_reachable_any] demo_run_state
  by (simp add: poll_budget_def max_polls_def)

theorem sys_step_keeps_reply_witness:
  "specialist_response (snd (clear_conversation (demo_polling_state\<lparr>specialist_response := Some demo_row\<rparr>)))
   = Some demo_row"
proof -
  let ?c = "\<lparr>app = demo_polling_state\<lparr>specialist_response := Some demo_row\<rparr>, threads = {#}\<rparr>"
  have "sys_step ?c EvClear (?c\<lparr>app := snd (clear_conversation (app ?c))\<rparr>)" by (rule sys_step.clear)
  from sys_step_keeps_reply [OF this] show ?thesis
    by (simp add: clear_conversation_def Let_def)
qed

end
