(* ===== verification/Runs.thy ===== *)
theory Runs
  imports Concurrency
begin

text \<open>
  Finite runs of the interleaved system of \<open>Concurrency\<close>: a labelled
  reflexive-transitive closure of \<open>sys_step\<close>, the event list recording which handler
  or which polling thread moved at each step. On runs the development states what no
  single step shows: the background polling winds down whatever the scheduler and the
  lookup store do (liveness), the number of poll attempts is bounded by the number of
  submissions (bounds), and before onboarding no event changes the state (the gate of
  \<^verbatim>\<open>complete_onboarding\<close>, which every handler checks first).
\<close>

subsection \<open>Runs\<close>

inductive runs :: "sys \<Rightarrow> event list \<Rightarrow> sys \<Rightarrow> bool" where
  nil: "runs c [] c"
| cons: "sys_step c e c1 \<Longrightarrow> runs c1 es c' \<Longrightarrow> runs c (e # es) c'"

inductive_cases runs_NilE [elim!]: "runs c [] c'"
inductive_cases runs_ConsE [elim!]: "runs c (e # es) c'"

fun is_push_event :: "event \<Rightarrow> bool" where
  "is_push_event (EvPush _) = True"
| "is_push_event _ = False"

text \<open>A run used by the witnesses: onboarding, a message, a push answered with id
  \<open>r1\<close>, then two polls, one failing and one finding no row.\<close>

definition demo_poll_events :: "event list" where
  "demo_poll_events = demo_events @ [EvPoll 0 QueryFailed, EvPoll 1 (QueryRows [])]"

text \<open>Events sent before onboarding: a message, a push, a report request, a Clear
  and an onboarding attempt without an age; none of them may change the state.\<close>

definition early_events :: "event list" where
  "early_events =
     [EvMessage ''t1'' [] \<lparr>in_files = [], in_text = ''Hello''\<rparr>,
      EvPush (HttpReply 201 [] (IdObject (Some (JStr ''r1'')))),
      EvReport (\<lambda>_. ChatFailed), EvClear,
      EvOnboard ''Sam'' None ''Female'' ''Gaza'']"

subsection \<open>Basic facts on runs\<close>

lemma runs_append: "runs c es c1 \<Longrightarrow> runs c1 fs c' \<Longrightarrow> runs c (es @ fs) c'"
  by (induction rule: runs.induct) (auto intro: runs.cons)

lemma exec_events_runs: "exec_events c es = Some c' \<longleftrightarrow> runs c es c'"
proof (induction es arbitrary: c)
  case Nil
  then show ?case by (auto intro: runs.nil)
next
  case (Cons e es)
  show ?case
  proof
    assume "exec_events c (e # es) = Some c'"
    then obtain c1 where "exec_event c e = Some c1" "exec_events c1 es = Some c'"
      by (auto split: option.splits)
    with Cons.IH show "runs c (e # es) c'" by (auto simp: exec_event_sys_step intro: runs.cons)
  next
    assume "runs c (e # es) c'"
    then obtain c1 where "sys_step c e c1" "runs c1 es c'" by blast
    with Cons.IH show "exec_events c (e # es) = Some c'" by (simp add: exec_event_sys_step [symmetric])
  qed
qed

lemma runs_inv: "runs c es c' \<Longrightarrow> sys_inv c \<Longrightarrow> sys_inv c'"
  by (induction rule: runs.induct) (auto intro: sys_step_inv)

lemma runs_reachable: "runs c es c' \<Longrightarrow> reachable_by P c \<Longrightarrow> list_all P es \<Longrightarrow> reachable_by P c'"
  by (induction rule: runs.induct) (auto intro: reachable_by.step)

lemma sys_inv_budget: "sys_inv c \<Longrightarrow> poll_budget c \<le> Suc max_polls"
proof (cases "threads c = {#}")
  case True
  then show ?thesis by (simp add: poll_budget_def)
next
  case False
  assume inv: "sys_inv c"
  with False obtain n where "threads c = {#n#}"
    by (metis mset_le1_member multiset_nonemptyE sys_inv_def)
  then show ?thesis by (simp add: poll_budget_def)
qed

text \<open>What one step does to the budget: a poll step spends at least one unit, a push
  adds at most one fresh thread's \<open>Suc max_polls\<close>, the other handlers leave it alone.\<close>

lemma step_budget:
  assumes "sys_step c e c'" "sys_inv c"
  shows "poll_budget c' + (if is_poll_event e then 1 else 0) \<le>
           poll_budget c + (if is_push_event e then Suc max_polls else 0)"
proof (cases "is_poll_event e")
  case True
  with budget_poll [OF assms(1) True assms(2)] show ?thesis by (cases e) auto
next
  case False
  show ?thesis
  proof (cases "is_push_event e")
    case True
    then obtain out where e: "e = EvPush out" by (cases e) auto
    from assms(1) [unfolded e] obtain r sp
      where "threads c' = threads c + spawned_threads sp"
      by (cases rule: sys_step.cases) auto
    then show ?thesis using e by (simp add: poll_budget_def spawned_threads_def)
  next
    case push: False
    then have "\<forall>out. e \<noteq> EvPush out" by auto
    with main_event_frame [OF assms(1) False] have "threads c' = threads c" by simp
    with False push show ?thesis by (simp add: poll_budget_def)
  qed
qed

lemma runs_budget:
  "runs c es c' \<Longrightarrow> sys_inv c \<Longrightarrow>
   length (filter is_poll_event es) + poll_budget c' \<le>
     poll_budget c + Suc max_polls * length (filter is_push_event es)"
proof (induction rule: runs.induct)
  case (nil c)
  then show ?case by simp
next
  case (cons c e c1 es c')
  have "sys_inv c1" using cons.hyps(1) cons.prems by (rule sys_step_inv)
  with cons.IH have ih: "length (filter is_poll_event es) + poll_budget c' \<le>
      poll_budget c1 + Suc max_polls * length (filter is_push_event es)" .
  from step_budget [OF cons.hyps(1) cons.prems] ih show ?case by (cases e) auto
qed

lemma drain:
  "sys_inv c \<Longrightarrow> \<exists>es c'. runs c es c' \<and> list_all is_poll_event es \<and>
     (\<forall>k qo. EvPoll k qo \<in> set es \<longrightarrow> qo = q k) \<and> threads c' = {#}"
proof (induction "poll_budget c" arbitrary: c rule: less_induct)
  case less
  show ?case
  proof (cases "threads c = {#}")
    case True
    have "runs c [] c" by (rule runs.nil)
    with True show ?thesis by (intro exI [of _ "[]"] exI [of _ c]) simp
  next
    case False
    then obtain e c1 where e: "is_poll_event e" "\<forall>k qo. e = EvPoll k qo \<longrightarrow> qo = q k" "sys_step c e c1"
      using poll_progress by blast
    have inv1: "sys_inv c1" using e(3) less.prems by (rule sys_step_inv)
    have "poll_budget c1 < poll_budget c" using budget_poll [OF e(3) e(1) less.prems] .
    with less.hyps inv1 obtain es c' where r: "runs c1 es c'" "list_all is_poll_event es"
        "\<forall>k qo. EvPoll k qo \<in> set es \<longrightarrow> qo = q k" "threads c' = {#}"
      by blast
    from e(3) r(1) have "runs c (e # es) c'" by (rule runs.cons)
    with e(1,2) r(2-4) show ?thesis by (intro exI [of _ "e # es"] exI [of _ c']) auto
  qed
qed

text \<open>A run of polling-thread steps alone is paid for by the budget of its start.\<close>

lemma poll_runs_length:
  assumes "runs c es c'" "list_all is_poll_event es" "sys_inv c"
  shows "length es \<le> Suc max_polls"
proof -
  have "filter is_poll_event es = es" "filter is_push_event es = []"
    using assms(2) by (induction es) (auto elim: is_poll_event.elims)
  then have "length es \<le> poll_budget c" using runs_budget [OF assms(1,3)] by simp
  also have "\<dots> \<le> Suc max_polls" using assms(3) by (rule sys_inv_budget)
  finally show ?thesis .
qed

text \<open>With no thread left the flag is clear: \<open>sys_inv\<close> ties the two.\<close>

lemma no_thread_flag_clear: "sys_inv c \<Longrightarrow> threads c = {#} \<Longrightarrow> \<not> polling_active (app c)"
  by (simp add: sys_inv_def)

lemma onboarded_step:
  assumes "sys_step c e c'" "is_onboarded (app c)"
  shows "is_onboarded (app c')"
  using assms
proof (induction rule: sys_step.induct)
  case (push out c r s' sp)
  then show ?case
    by (auto simp: push_report_to_care_bridge_def start_response_polling_cases Let_def
             split: post_outcome.splits reply_body.splits if_splits prod.splits)
next
  case (poll n c qo s' brk)
  then show ?case using poll_body_frame [of "app c" qo] by (simp add: poll_frame_def)
qed (auto simp: complete_onboarding_def add_message_def bot_response_def generate_comprehensive_report_def
         clear_conversation_def exit_state_def Let_def split: prod.splits structured_outcome.splits)

lemma clear_init: "snd (clear_conversation (init_app uuid t0 creds)) = init_app uuid t0 creds"
  by (simp add: clear_conversation_def init_app_def empty_media_def)

lemma init_step:
  assumes "sys_step (init_sys uuid t0 creds) e c'"
  shows "c' = init_sys uuid t0 creds \<or> is_onboarded (app c')"
  using assms
proof (cases rule: sys_step.cases)
  case (push out r s' sp)
  then show ?thesis
    by (simp add: push_report_to_care_bridge_def init_sys_def init_app_def spawned_threads_def)
next
  case (onboard nm age gd loc)
  then show ?thesis
    by (auto simp: complete_onboarding_def init_sys_def Let_def)
qed (auto simp: init_sys_def add_message_def bot_response_def generate_comprehensive_report_def
        clear_init [unfolded init_app_def] init_app_def)

lemma runs_gate:
  "runs c es c' \<Longrightarrow> c = init_sys uuid t0 creds \<or> is_onboarded (app c) \<Longrightarrow>
   c' = init_sys uuid t0 creds \<or> is_onboarded (app c')"
proof (induction rule: runs.induct)
  case (nil c)
  then show ?case .
next
  case (cons c e c1 es c')
  from cons.prems have "c1 = init_sys uuid t0 creds \<or> is_onboarded (app c1)"
    using init_step [of uuid t0 creds e c1] onboarded_step [OF cons.hyps(1)] cons.hyps(1) by blast
  then show ?case by (rule cons.IH)
qed

lemma thread_runs_poll_loop:
  "\<exists>es. runs \<lparr>app = s, threads = {#n#}\<rparr> es \<lparr>app = fst (poll_loop q n s), threads = {#}\<rparr> \<and>
        list_all is_poll_event es \<and> length es \<le> Suc (max_polls - n) \<and>
        (\<forall>k qo. EvPoll k qo \<in> set es \<longrightarrow> qo = q k (submitted_report_id s))"
proof (induction q n s rule: poll_loop.induct)
  case (1 q n s)
  let ?qo = "q n (submitted_report_id s)"
  show ?case
  proof (cases "polling_active s \<and> n < max_polls")
    case act: True
    obtain s1 brk where b: "poll_body ?qo s = (s1, brk)" by fastforce
    have st: "sys_step \<lparr>app = s, threads = {#n#}\<rparr> (EvPoll n ?qo) \<lparr>app = s1, threads = after_poll {#n#} n brk\<rparr>"
      using sys_step.poll [of n "\<lparr>app = s, threads = {#n#}\<rparr>" ?qo s1 brk] act b by simp
    have id: "submitted_report_id s1 = submitted_report_id s"
      using poll_body_frame [of s ?qo] b by (simp add: poll_frame_def)
    show ?thesis
    proof (cases brk)
      case True
      with act b have loop: "poll_loop q n s = (s1, n)" by (simp add: poll_loop.simps [of q n s])
      from st True have "runs \<lparr>app = s, threads = {#n#}\<rparr> [EvPoll n ?qo] \<lparr>app = s1, threads = {#}\<rparr>"
        by (auto simp: after_poll_def next_threads_def intro: runs.cons runs.nil)
      with loop show ?thesis by (intro exI [of _ "[EvPoll n ?qo]"]) simp
    next
      case False
      with act b have loop: "poll_loop q n s = poll_loop q (Suc n) s1" by (simp add: poll_loop.simps [of q n s])
      from "1.IH" [OF act b [symmetric] False] obtain es where
        r: "runs \<lparr>app = s1, threads = {#Suc n#}\<rparr> es \<lparr>app = fst (poll_loop q (Suc n) s1), threads = {#}\<rparr>"
        and p: "list_all is_poll_event es" and l: "length es \<le> Suc (max_polls - Suc n)"
        and qs: "\<forall>k qo. EvPoll k qo \<in> set es \<longrightarrow> qo = q k (submitted_report_id s1)"
        by blast
      from st False have st': "sys_step \<lparr>app = s, threads = {#n#}\<rparr> (EvPoll n ?qo) \<lparr>app = s1, threads = {#Suc n#}\<rparr>"
        by (simp add: after_poll_def next_threads_def)
      have "runs \<lparr>app = s, threads = {#n#}\<rparr> (EvPoll n ?qo # es) \<lparr>app = fst (poll_loop q n s), threads = {#}\<rparr>"
        using runs.cons [OF st' r] loop by simp
      moreover have "length (EvPoll n ?qo # es) \<le> Suc (max_polls - n)" using l act by (simp add: Suc_diff_Suc)
      ultimately show ?thesis using p qs id by (intro exI [of _ "EvPoll n ?qo # es"]) auto
    qed
  next
    case False
    then have st: "sys_step \<lparr>app = s, threads = {#n#}\<rparr> (EvPollExit n) \<lparr>app = exit_state n s, threads = {#}\<rparr>"
      using sys_step.poll_exit [of n "\<lparr>app = s, threads = {#n#}\<rparr>"] by simp
    have "fst (poll_loop q n s) = exit_state n s"
      using False by (simp add: poll_loop_stop exit_state_def)
    with st have "runs \<lparr>app = s, threads = {#n#}\<rparr> [EvPollExit n] \<lparr>app = fst (poll_loop q n s), threads = {#}\<rparr>"
      by (auto intro: runs.cons runs.nil)
    then show ?thesis by (intro exI [of _ "[EvPollExit n]"]) simp
  qed
qed

lemma demo_poll_run:
  "runs (init_sys ''u'' ''t0'' True) demo_poll_events
     (the (exec_events (init_sys ''u'' ''t0'' True) demo_poll_events))"
proof -
  have "exec_events (init_sys ''u'' ''t0'' True) demo_poll_events =
          Some (the (exec_events (init_sys ''u'' ''t0'' True) demo_poll_events))"
    by (simp add: demo_poll_events_def demo_events_def run_simps poll_body_def after_poll_def
                  next_threads_def max_polls_def)
  then show ?thesis by (simp add: exec_events_runs)
qed

lemma early_run:
  "runs (init_sys ''u'' ''t0'' True) early_events (the (exec_events (init_sys ''u'' ''t0'' True) early_events)) \<and>
   \<not> is_onboarded (app (the (exec_events (init_sys ''u'' ''t0'' True) early_events)))"
proof -
  have e: "exec_events (init_sys ''u'' ''t0'' True) early_events = Some (init_sys ''u'' ''t0'' True)"
    by (simp add: early_events_def run_simps generate_comprehensive_report_def clear_init [unfolded init_app_def])
  then have r: "runs (init_sys ''u'' ''t0'' True) early_events (init_sys ''u'' ''t0'' True)"
    by (simp only: exec_events_runs)
  have n: "\<not> is_onboarded (app (init_sys ''u'' ''t0'' True))" by (simp add: init_sys_def init_app_def)
  show ?thesis unfolding e option.sel using r n by (rule conjI)
qed

subsection \<open>Liveness, bounds and the onboarding gate\<close>

text \<open>
  C4: the background polling always winds down, whatever the lookup store answers and
  however the thread's steps are scheduled: every run of polling-thread steps from a
  reachable state has at most 121 steps; every such run that cannot be extended by
  another polling-thread step ends with no thread and the flag clear; and for every
  sequence of store answers the thread, fed those answers, reaches that state.
\<close>

theorem polling_winds_down:
  assumes "reachable c"
  shows "(\<forall>es c'. runs c es c' \<and> list_all is_poll_event es \<longrightarrow> length es \<le> Suc max_polls) \<and>
         (\<forall>es c'. runs c es c' \<and> list_all is_poll_event es \<and>
              \<not> (\<exists>e c''. is_poll_event e \<and> sys_step c' e c'') \<longrightarrow>
            threads c' = {#} \<and> \<not> polling_active (app c')) \<and>
         (\<forall>q. \<exists>es c'. runs c es c' \<and> list_all is_poll_event es \<and>
              (\<forall>k qo. EvPoll k qo \<in> set es \<longrightarrow> qo = q k) \<and>
              threads c' = {#} \<and> \<not> polling_active (app c'))"
proof -
  have inv: "sys_inv c" using assms by (rule reachable_by_inv)
  have bounded: "\<forall>es c'. runs c es c' \<and> list_all is_poll_event es \<longrightarrow> length es \<le> Suc max_polls"
    using poll_runs_length inv by blast
  have stuck: "threads c' = {#} \<and> \<not> polling_active (app c')"
    if r: "runs c es c'" "\<not> (\<exists>e c''. is_poll_event e \<and> sys_step c' e c'')" for es c'
  proof -
    have inv': "sys_inv c'" using r(1) inv by (rule runs_inv)
    have "threads c' = {#}" using r(2) poll_progress by blast
    with inv' show ?thesis by (simp add: no_thread_flag_clear)
  qed
  have fed: "\<exists>es c'. runs c es c' \<and> list_all is_poll_event es \<and>
              (\<forall>k qo. EvPoll k qo \<in> set es \<longrightarrow> qo = q k) \<and>
              threads c' = {#} \<and> \<not> polling_active (app c')" for q
  proof -
    obtain es c' where r: "runs c es c'" "list_all is_poll_event es"
        "\<forall>k qo. EvPoll k qo \<in> set es \<longrightarrow> qo = q k" "threads c' = {#}"
      using drain [OF inv] by blast
    have "sys_inv c'" using r(1) inv by (rule runs_inv)
    with r show ?thesis using no_thread_flag_clear by blast
  qed
  from bounded stuck fed show ?thesis by blast
qed

text \<open>
  C10: the polling work is bounded by the submissions: in any run from the start, the
  steps of polling threads number at most 121 per push.
\<close>

theorem poll_attempts_bounded:
  assumes "runs (init_sys uuid t0 creds) es c"
  shows "length (filter is_poll_event es) \<le> Suc max_polls * length (filter is_push_event es)"
  using runs_budget [OF assms sys_inv_init]
  by (simp add: poll_budget_def init_sys_def)

text \<open>
  C9: before onboarding succeeds no event changes anything: a run from the start that
  ends with the gate still closed ends in the start state (no transcript, no
  observations, no submission, no polling thread).
\<close>

theorem nothing_before_onboarding:
  assumes "runs (init_sys uuid t0 creds) es c" "\<not> is_onboarded (app c)"
  shows "c = init_sys uuid t0 creds"
  using runs_gate [OF assms(1)] assms(2) by auto

text \<open>
  C5: the daemon thread computes \<^verbatim>\<open>_poll_for_response\<close>: a freshly started polling
  thread, stepped one loop iteration at a time in the interleaving, reaches exactly the
  state the sequential loop \<open>poll_for_response\<close> returns, in at most 121 steps, each
  attempt asking the store about the report id of the start state.
\<close>

theorem poll_thread_runs_loop:
  assumes "threads c = {#0#}"
  shows "\<exists>es. runs c es \<lparr>app = fst (poll_for_response q (app c)), threads = {#}\<rparr> \<and>
               list_all is_poll_event es \<and> length es \<le> Suc max_polls \<and>
               (\<forall>k qo. EvPoll k qo \<in> set es \<longrightarrow> qo = q k (submitted_report_id (app c)))"
proof -
  have c: "\<lparr>app = app c, threads = {#0#}\<rparr> = c" using assms by (cases c) simp
  from thread_runs_poll_loop [of "app c" 0 q] c show ?thesis by (simp add: poll_for_response_def)
qed

subsection \<open>Witnesses\<close>

theorem polling_winds_down_witness:
  "\<exists>es c'. runs (the (exec_events (init_sys ''u'' ''t0'' True) demo_events)) es c' \<and>
       list_all is_poll_event es \<and> (\<forall>k qo. EvPoll k qo \<in> set es \<longrightarrow> qo = QueryRows []) \<and>
       length es \<le> 121 \<and> threads c' = {#} \<and> \<not> polling_active (app c')"
proof -
  note w = polling_winds_down [OF demo_run_reachable_any]
  from spec [OF conjunct2 [OF conjunct2 [OF w]], of "\<lambda>_. QueryRows []"]
  obtain es c' where r: "runs (the (exec_events (init_sys ''u'' ''t0'' True) demo_events)) es c'"
      "list_all is_poll_event es" "\<forall>k qo. EvPoll k qo \<in> set es \<longrightarrow> qo = QueryRows []"
      "threads c' = {#}" "\<not> polling_active (app c')"
    by auto
  have "length es \<le> Suc max_polls" using conjunct1 [OF w] r(1,2) by blast
  then have "length es \<le> 121" by (simp add: max_polls_def)
  with r show ?thesis by blast
qed

theorem poll_attempts_bounded_witness:
  "length (filter is_poll_event demo_poll_events) = 2 \<and>
   length (filter is_poll_event demo_poll_events) \<le> Suc max_polls * length (filter is_push_event demo_poll_events)"
  using poll_attempts_bounded [OF demo_poll_run] by (simp add: demo_poll_events_def demo_events_def)

theorem nothing_before_onboarding_witness:
  "the (exec_events (init_sys ''u'' ''t0'' True) early_events) = init_sys ''u'' ''t0'' True"
  using nothing_before_onboarding [OF conjunct1 [OF early_run] conjunct2 [OF early_run]] .

theorem poll_thread_runs_loop_witness:
  "\<exists>es. runs (the (exec_events (init_sys ''u'' ''t0'' True) demo_events)) es
          \<lparr>app = fst (poll_for_response (\<lambda>k _. if k < 2 then QueryFailed else QueryRows [demo_row])
                        (app (the (exec_events (init_sys ''u'' ''t0'' True) demo_events)))),
           threads = {#}\<rparr> \<and> length es \<le> 121"
  using poll_thread_runs_loop [of "the (exec_events (init_sys ''u'' ''t0'' True) demo_events)"
          "\<lambda>k _. if k < 2 then QueryFailed else QueryRows [demo_row]"] demo_run_state
  by (auto simp: max_polls_def)

end
