(* ===== verification/Wellformed.thy ===== *)
theory Wellformed
  imports Concurrency
begin

text \<open>
  Well-formedness of the application state (\<^verbatim>\<open>src/app.py\<close>,
  \<^verbatim>\<open>EnhancedTraumaAssessmentApp\<close>): the media lists are typed by the
  classification \<^verbatim>\<open>add_message\<close> applied when it filed them (drawings are images
  whose name contains \<open>draw\<close>, photos are the other images, audio recordings stay
  empty since no code path adds one); polling and a stored reply only occur with the
  Supabase client configured; an onboarded state holds the child's data the form
  required, with an age in the widget's range 2..18. One lemma per handler shows that
  it keeps the invariant; the summary theorem does the case split on the step of the
  interleaving.
\<close>

subsection \<open>The invariant\<close>

definition media_wf :: "media_attachments \<Rightarrow> bool" where
  "media_wf m \<longleftrightarrow>
     (\<forall>a \<in> set (drawings m). classify_file_type (att_path a) = ImageFile \<and> is_drawing (att_path a)) \<and>
     (\<forall>a \<in> set (photos m). classify_file_type (att_path a) = ImageFile \<and> \<not> is_drawing (att_path a)) \<and>
     audio_recordings m = []"

definition child_wf :: "child_info \<Rightarrow> bool" where
  "child_wf ci \<longleftrightarrow>
     child_name ci \<noteq> [] \<and> 2 \<le> child_age ci \<and> child_age ci \<le> 18 \<and>
     child_gender ci \<noteq> [] \<and> child_location ci \<noteq> []"

definition app_wf :: "app_state \<Rightarrow> bool" where
  "app_wf s \<longleftrightarrow>
     media_wf (media_attachments (report_data s)) \<and>
     (polling_active s \<longrightarrow> supabase_configured s) \<and>
     (specialist_response s \<noteq> None \<longrightarrow> supabase_configured s) \<and>
     (is_onboarded s \<longrightarrow> child_wf (child_info (report_data s)))"

text \<open>A photo filed by \<^verbatim>\<open>add_message\<close> from the demo session: the witness's step.\<close>

definition photo_event :: event where
  "photo_event = EvMessage ''t2'' [] \<lparr>in_files = [''garden.PNG'', ''notes.pdf''], in_text = []\<rparr>"

subsection \<open>Each handler keeps it\<close>

lemma media_wf_empty [simp]: "media_wf empty_media"
  by (simp add: media_wf_def empty_media_def)

lemma add_file_media_wf: "media_wf m \<Longrightarrow> media_wf (snd (add_file now (h, m) f))"
  by (auto simp: add_file_def media_wf_def Let_def)

lemma add_files_media_wf: "media_wf (snd hm) \<Longrightarrow> media_wf (snd (add_files now hm fs))"
proof (induction now hm fs rule: add_files.induct)
  case (1 now hm)
  then show ?case by simp
next
  case (2 now hm f fs)
  obtain h m where hm: "hm = (h, m)" by fastforce
  with "2.prems" have "media_wf (snd (add_file now hm f))" by (simp add: add_file_media_wf)
  then show ?case using "2.IH" by simp
qed

lemma complete_onboarding_wf:
  "age_widget_ok age \<Longrightarrow> app_wf s \<Longrightarrow> app_wf (snd (complete_onboarding nm age gd loc s))"
  by (auto simp: complete_onboarding_def onboarding_fields_ok_def app_wf_def child_wf_def Let_def
           dest: age_widget_range split: option.splits)

lemma add_message_wf: "app_wf s \<Longrightarrow> app_wf (snd (add_message now h msg s))"
proof -
  assume wf: "app_wf s"
  obtain h1 m1 where a: "add_files now (h, media_attachments (report_data s)) (in_files msg) = (h1, m1)"
    by fastforce
  from wf have "media_wf (snd (add_files now (h, media_attachments (report_data s)) (in_files msg)))"
    by (intro add_files_media_wf) (simp add: app_wf_def)
  with a have "media_wf m1" by simp
  with wf a show ?thesis
    by (auto simp: add_message_def app_wf_def Let_def split: prod.splits)
qed

lemma bot_response_wf: "app_wf s \<Longrightarrow> app_wf (snd (bot_response model h s))"
  by (simp add: bot_response_def app_wf_def Let_def)

lemma generate_report_wf: "app_wf s \<Longrightarrow> app_wf (snd (generate_comprehensive_report st s))"
  by (simp add: generate_comprehensive_report_def app_wf_def Let_def split: prod.split structured_outcome.split)

lemma clear_conversation_wf: "app_wf s \<Longrightarrow> app_wf (snd (clear_conversation s))"
  by (simp add: clear_conversation_def app_wf_def Let_def)

lemma push_wf:
  "push_report_to_care_bridge post s = (r, s', sp) \<Longrightarrow> app_wf s \<Longrightarrow> app_wf s'"
  by (auto simp: push_report_to_care_bridge_def start_response_polling_cases app_wf_def Let_def
           split: post_outcome.splits reply_body.splits if_splits prod.splits)

lemma poll_body_wf:
  "polling_active s \<Longrightarrow> app_wf s \<Longrightarrow> app_wf (fst (poll_body qo s))"
  by (auto simp: poll_body_def app_wf_def Let_def split: query_outcome.splits list.splits sum.splits)

lemma exit_state_wf: "app_wf s \<Longrightarrow> app_wf (exit_state n s)"
  by (simp add: exit_state_def app_wf_def)

lemma app_wf_init: "app_wf (app (init_sys uuid t0 creds))"
  by (simp add: app_wf_def init_sys_def init_app_def)

lemma sys_step_app_wf:
  assumes "sys_step c e c'" "app_wf (app c)"
  shows "app_wf (app c')"
  using assms
proof (induction rule: sys_step.induct)
  case (push out c r s' sp)
  then show ?case by (auto intro: push_wf)
next
  case (poll n c qo s' brk)
  then show ?case using poll_body_wf [of "app c" qo] by simp
qed (auto intro: complete_onboarding_wf add_message_wf bot_response_wf generate_report_wf
                 clear_conversation_wf exit_state_wf)

subsection \<open>Well-formedness of every reachable state\<close>

text \<open>
  C8: every reachable state is well formed: the drawings and photos lists hold only
  files that \<^verbatim>\<open>classify_file_type\<close> calls images, split by the \<open>draw\<close>
  test, and no audio; the poll flag and a stored reply only occur with Supabase
  configured; an onboarded state holds a non-empty name, gender and location and an
  age between 2 and 18, the range the form's widget admits, truncated by \<^verbatim>\<open>int()\<close>.
\<close>

theorem reachable_app_wf:
  assumes "reachable_by P c"
  shows "app_wf (app c)"
  using assms
  by (induction rule: reachable_by.induct) (auto intro: app_wf_init sys_step_app_wf)

theorem reachable_app_wf_witness:
  "app_wf (app (the (exec_events (init_sys ''u'' ''t0'' True) (demo_events @ [photo_event]))))"
proof -
  have "exec_events (init_sys ''u'' ''t0'' True) (demo_events @ [photo_event]) =
          Some (the (exec_events (init_sys ''u'' ''t0'' True) (demo_events @ [photo_event])))"
    by (simp add: demo_events_def photo_event_def run_simps)
  from exec_events_reachable [OF this reachable_by.start [of "\<lambda>_. True" "''u''" "''t0''" True]]
  have "reachable (the (exec_events (init_sys ''u'' ''t0'' True) (demo_events @ [photo_event])))"
    by (simp add: list_all_iff)
  then show ?thesis by (rule reachable_app_wf)
qed

end
