(* ===== verification/Handlers.thy ===== *)
theory Handlers
  imports Submission Report
begin

text \<open>
  The Gradio event handlers of \<^verbatim>\<open>src/app.py\<close> that wrap the application's
  methods: \<^verbatim>\<open>handle_onboarding\<close> (which section is shown, the child banner, the
  status notice), \<^verbatim>\<open>generate_report_with_progress\<close> (a generator of
  report/progress pairs around \<^verbatim>\<open>generate_comprehensive_report\<close>),
  \<^verbatim>\<open>save_report_with_data\<close> (two files written to the working directory),
  \<^verbatim>\<open>push_to_care_bridge\<close> (the status notice of a push) and
  \<^verbatim>\<open>handle_feedback\<close> (a line printed on standard output). HTML and emoji are not
  reproduced: a notice is its CSS class with its message. The file system is a store
  from paths to file contents; whether \<^verbatim>\<open>open\<close>/\<^verbatim>\<open>write\<close> raises for a path is
  an oracle giving the exception's message. The JSON file holds \<^verbatim>\<open>report_data\<close>,
  modelled as the record itself rather than its serialisation.
\<close>

subsection \<open>Notices\<close>

datatype 'a notice = NoticeSuccess 'a | NoticeWarning 'a | NoticeInfo 'a

subsection \<open>Onboarding\<close>

record onboarding_view =
  onboarding_visible :: bool
  main_visible :: bool
  child_banner :: "(string \<times> int \<times> string \<times> string) option"
  onboarding_notice :: "string notice"

definition handle_onboarding ::
  "string \<Rightarrow> py_float option \<Rightarrow> string \<Rightarrow> string \<Rightarrow> app_state \<Rightarrow> onboarding_view \<times> app_state" where
  "handle_onboarding nm age gd loc s =
     (case complete_onboarding nm age gd loc s of
        ((ok, msg), s') \<Rightarrow>
          (if ok then \<lparr>onboarding_visible = False, main_visible = True,
                       child_banner = Some (nm, py_int_of_float (the age), gd, loc), onboarding_notice = NoticeSuccess msg\<rparr>
           else \<lparr>onboarding_visible = True, main_visible = False,
                 child_banner = None, onboarding_notice = NoticeWarning msg\<rparr>, s'))"

subsection \<open>Report generation with progress\<close>

text \<open>
  The notes appended to \<^verbatim>\<open>progress_updates\<close>: the start, the milestones that
  \<^verbatim>\<open>generate_comprehensive_report\<close> reports through \<^verbatim>\<open>update_progress\<close>, and the
  completion. A yield is the pair (report shown, progress shown); \<open>None\<close> is the
  empty string.
\<close>

datatype progress_note = StartingNote | MilestoneNote milestone | CompletedNote

type_synonym report_yield = "report_result option \<times> progress_note option"

definition generate_report_with_progress ::
  "structured_llm \<Rightarrow> app_state \<Rightarrow> report_yield list \<times> progress_note list \<times> app_state" where
  "generate_report_with_progress st s =
     (case generate_comprehensive_report st s of
        ((ms, r), s') \<Rightarrow>
          ([(None, Some StartingNote), (Some r, Some CompletedNote), (Some r, None)],
           StartingNote # map MilestoneNote ms @ [CompletedNote], s'))"

subsection \<open>Saving the report\<close>

datatype file_data = MarkdownFile string | JsonFile report_data

type_synonym file_store = "path \<Rightarrow> file_data option"

type_synonym write_oracle = "path \<Rightarrow> string option"

datatype save_status = SaveNothing | SaveDone path path | SaveError string

definition report_filename :: "string \<Rightarrow> string \<Rightarrow> path" where
  "report_filename nm stamp = ''trauma_report_'' @ nm @ ''_'' @ stamp @ ''.md''"

definition data_filename :: "string \<Rightarrow> string \<Rightarrow> path" where
  "data_filename nm stamp = ''assessment_data_'' @ nm @ ''_'' @ stamp @ ''.json''"

text \<open>
  \<^verbatim>\<open>save_report_with_data\<close>: the guard on the shown text, the two file names from the
  child's name and the \<^verbatim>\<open>strftime\<close> stamp, then the two writes in order inside one
  \<^verbatim>\<open>try\<close>.
\<close>

definition save_report_with_data ::
  "write_oracle \<Rightarrow> string \<Rightarrow> string \<Rightarrow> app_state \<Rightarrow> file_store \<Rightarrow> save_status \<times> file_store" where
  "save_report_with_data wr stamp content s fs =
     (if content = [] \<or> py_in ''Please complete'' content then (SaveNothing, fs)
      else
        (let nm = child_name (child_info (report_data s));
             rf = report_filename nm stamp;
             df = data_filename nm stamp
         in case wr rf of
              Some e \<Rightarrow> (SaveError e, fs)
            | None \<Rightarrow>
                (let fs1 = fs(rf \<mapsto> MarkdownFile content)
                 in case wr df of
                      Some e \<Rightarrow> (SaveError e, fs1)
                    | None \<Rightarrow> (SaveDone rf df, fs1(df \<mapsto> JsonFile (report_data s))))))"

text \<open>The text the report box shows for a result of \<^verbatim>\<open>generate_comprehensive_report\<close>
  when it is one of its instruction messages.\<close>

fun shown_message :: "report_result \<Rightarrow> string option" where
  "shown_message (ReportMessage m) = Some m"
| "shown_message (ReportText _) = None"

subsection \<open>Pushing\<close>

definition push_to_care_bridge ::
  "http_post \<Rightarrow> app_state \<Rightarrow> push_message notice \<times> app_state \<times> bool" where
  "push_to_care_bridge post s =
     (case push_report_to_care_bridge post s of
        ((ok, msg), s', sp) \<Rightarrow> ((if ok then NoticeSuccess msg else NoticeWarning msg), s', sp))"

subsection \<open>Feedback\<close>

text \<open>
  \<^verbatim>\<open>handle_feedback\<close>, registered with \<^verbatim>\<open>chatbot.like\<close>: the like data of a
  chatbot of type \<^verbatim>\<open>"messages"\<close> carries the message's position; the handler only
  prints a line, modelled as appending it to the list of lines written to standard
  output. Nothing is stored in the application's state.
\<close>

record like_data =
  liked :: bool
  like_index :: nat

datatype feedback_kind = Helpful | NeedsImprovement

datatype log_line = FeedbackLine feedback_kind nat

definition handle_feedback :: "like_data \<Rightarrow> log_line list \<Rightarrow> log_line list" where
  "handle_feedback x out =
     out @ [FeedbackLine (if liked x then Helpful else NeedsImprovement) (like_index x)]"

subsection \<open>Properties of the file store\<close>

lemma report_data_filename_distinct [simp]:
  "report_filename nm stamp \<noteq> data_filename nm' stamp'"
  "data_filename nm' stamp' \<noteq> report_filename nm stamp"
  by (simp_all add: report_filename_def data_filename_def)

lemma save_guard_passes:
  "content \<noteq> [] \<Longrightarrow> \<not> py_in ''Please complete'' content \<Longrightarrow>
   save_report_with_data wr stamp content s fs =
     (let rf = report_filename (child_name (child_info (report_data s))) stamp;
          df = data_filename (child_name (child_info (report_data s))) stamp
      in case wr rf of
           Some e \<Rightarrow> (SaveError e, fs)
         | None \<Rightarrow> (case wr df of
                     Some e \<Rightarrow> (SaveError e, fs(rf \<mapsto> MarkdownFile content))
                   | None \<Rightarrow> (SaveDone rf df, fs(rf \<mapsto> MarkdownFile content, df \<mapsto> JsonFile (report_data s)))))"
  by (simp add: save_report_with_data_def Let_def split: option.split)

lemma generate_guard_messages:
  "\<not> is_onboarded s \<Longrightarrow>
     snd (fst (generate_comprehensive_report st s)) =
       ReportMessage ''Please complete the initial assessment form first.''"
  "is_onboarded s \<Longrightarrow> ollama_conversation s = [] \<Longrightarrow>
     snd (fst (generate_comprehensive_report st s)) =
       ReportMessage ''Please have a conversation first before generating a report.''"
  by (simp_all add: generate_comprehensive_report_def)

text \<open>
  C35: saving writes what it reports: when the shown text passes the guard and both
  writes succeed, the handler reports the two file names, the Markdown file holds the
  shown text, the JSON file holds \<^verbatim>\<open>report_data\<close>, and no other path changes.
\<close>

theorem save_report_roundtrip:
  assumes "content \<noteq> []" "\<not> py_in ''Please complete'' content"
    and "wr (report_filename (child_name (child_info (report_data s))) stamp) = None"
    and "wr (data_filename (child_name (child_info (report_data s))) stamp) = None"
  shows "fst (save_report_with_data wr stamp content s fs) =
           SaveDone (report_filename (child_name (child_info (report_data s))) stamp)
                    (data_filename (child_name (child_info (report_data s))) stamp) \<and>
         snd (save_report_with_data wr stamp content s fs)
           (report_filename (child_name (child_info (report_data s))) stamp) = Some (MarkdownFile content) \<and>
         snd (save_report_with_data wr stamp content s fs)
           (data_filename (child_name (child_info (report_data s))) stamp) = Some (JsonFile (report_data s)) \<and>
         (\<forall>p. p \<noteq> report_filename (child_name (child_info (report_data s))) stamp \<longrightarrow>
              p \<noteq> data_filename (child_name (child_info (report_data s))) stamp \<longrightarrow>
              snd (save_report_with_data wr stamp content s fs) p = fs p)"
  using assms by (simp add: save_guard_passes Let_def)

text \<open>
  C36: a failed second write leaves a half-saved report: when the Markdown file is
  written and writing the JSON file raises, the handler reports the error but the
  Markdown file stays in the store.
\<close>

theorem save_report_partial:
  assumes "content \<noteq> []" "\<not> py_in ''Please complete'' content"
    and "wr (report_filename (child_name (child_info (report_data s))) stamp) = None"
    and "wr (data_filename (child_name (child_info (report_data s))) stamp) = Some e"
  shows "fst (save_report_with_data wr stamp content s fs) = SaveError e \<and>
         snd (save_report_with_data wr stamp content s fs)
           (report_filename (child_name (child_info (report_data s))) stamp) = Some (MarkdownFile content) \<and>
         snd (save_report_with_data wr stamp content s fs)
           (data_filename (child_name (child_info (report_data s))) stamp) =
           fs (data_filename (child_name (child_info (report_data s))) stamp)"
  using assms by (simp add: save_guard_passes Let_def)

text \<open>
  C37: the save guard tells the two instruction messages of the report generator apart:
  before onboarding the shown message contains \<open>Please complete\<close> and nothing is
  saved, but after onboarding without a conversation the shown message is saved as
  the report, with the session data beside it.
\<close>

theorem save_instruction_message:
  "(\<not> is_onboarded s \<longrightarrow>
      save_report_with_data wr stamp (the (shown_message (snd (fst (generate_comprehensive_report st s))))) s fs =
        (SaveNothing, fs)) \<and>
   (is_onboarded s \<and> ollama_conversation s = [] \<and> (\<forall>p. wr p = None) \<longrightarrow>
      fst (save_report_with_data wr stamp (the (shown_message (snd (fst (generate_comprehensive_report st s))))) s fs) =
        SaveDone (report_filename (child_name (child_info (report_data s))) stamp)
                 (data_filename (child_name (child_info (report_data s))) stamp))"
proof (intro conjI impI)
  assume "\<not> is_onboarded s"
  moreover have "py_in ''Please complete'' (''Please complete'' @ '' the initial assessment form first.'')"
    using py_in_append_middle [of "''Please complete''" "[]"] by simp
  ultimately show "save_report_with_data wr stamp (the (shown_message (snd (fst (generate_comprehensive_report st s))))) s fs =
          (SaveNothing, fs)"
    by (simp add: generate_guard_messages save_report_with_data_def)
next
  assume a: "is_onboarded s \<and> ollama_conversation s = [] \<and> (\<forall>p. wr p = None)"
  have np: "\<not> py_in ''Please complete'' ''Please have a conversation first before generating a report.''"
    by simp
  show "fst (save_report_with_data wr stamp (the (shown_message (snd (fst (generate_comprehensive_report st s))))) s fs) =
          SaveDone (report_filename (child_name (child_info (report_data s))) stamp)
                   (data_filename (child_name (child_info (report_data s))) stamp)"
    using a np by (auto simp: generate_guard_messages save_guard_passes Let_def)
qed

lemma generate_milestones_start:
  "is_onboarded s \<Longrightarrow> ollama_conversation s \<noteq> [] \<Longrightarrow>
   Analyzing \<in> set (fst (fst (generate_comprehensive_report st s)))"
  by (simp add: generate_comprehensive_report_def Let_def split: structured_outcome.split prod.split)

text \<open>
  C38: the progress of report generation is never shown: the generator yields three
  updates (start, the report with completion, the report alone), none of them a
  milestone, although the milestones reach \<^verbatim>\<open>progress_updates\<close>; the last update
  shows the report \<^verbatim>\<open>generate_comprehensive_report\<close> produced and the state is the
  one it left.
\<close>

theorem progress_milestones_hidden:
  assumes "is_onboarded s" "ollama_conversation s \<noteq> []"
  shows "length (fst (generate_report_with_progress st s)) = 3 \<and>
         (\<forall>y \<in> set (fst (generate_report_with_progress st s)). \<forall>m. snd y \<noteq> Some (MilestoneNote m)) \<and>
         MilestoneNote Analyzing \<in> set (fst (snd (generate_report_with_progress st s))) \<and>
         fst (last (fst (generate_report_with_progress st s))) =
           Some (snd (fst (generate_comprehensive_report st s))) \<and>
         snd (snd (generate_report_with_progress st s)) = snd (generate_comprehensive_report st s)"
proof -
  obtain ms r s' where g: "generate_comprehensive_report st s = ((ms, r), s')" by (metis prod.collapse)
  have "Analyzing \<in> set ms" using generate_milestones_start [OF assms, of st] g by simp
  then show ?thesis using g by (simp add: generate_report_with_progress_def)
qed

subsection \<open>Witnesses\<close>

theorem save_report_roundtrip_witness:
  "fst (save_report_with_data (\<lambda>_. None) ''20250101_000000'' ''# Report'' demo_report_state Map.empty) =
     SaveDone ''trauma_report_Sam_20250101_000000.md'' ''assessment_data_Sam_20250101_000000.json'' \<and>
   snd (save_report_with_data (\<lambda>_. None) ''20250101_000000'' ''# Report'' demo_report_state Map.empty)
     ''trauma_report_Sam_20250101_000000.md'' = Some (MarkdownFile ''# Report'')"
proof -
  have n: "child_name (child_info (report_data demo_report_state)) = ''Sam''"
    by (simp add: demo_report_state_def Let_def)
  have "\<not> py_in ''Please complete'' ''# Report''" by simp
  from save_report_roundtrip [of "''# Report''" "\<lambda>_. None" demo_report_state "''20250101_000000''" Map.empty, OF _ this]
  show ?thesis by (simp add: n report_filename_def data_filename_def)
qed

theorem save_report_partial_witness:
  "save_report_with_data (\<lambda>p. if p = ''assessment_data_Sam_1.json'' then Some ''No space left on device'' else None)
     ''1'' ''# Report'' demo_report_state Map.empty =
   (SaveError ''No space left on device'', [''trauma_report_Sam_1.md'' \<mapsto> MarkdownFile ''# Report''])"
proof -
  have n: "child_name (child_info (report_data demo_report_state)) = ''Sam''"
    by (simp add: demo_report_state_def Let_def)
  have "\<not> py_in ''Please complete'' ''# Report''" by simp
  from save_report_partial [of "''# Report''"
         "\<lambda>p. if p = ''assessment_data_Sam_1.json'' then Some ''No space left on device'' else None"
         demo_report_state "''1''" "''No space left on device''" Map.empty, OF _ this]
  have "fst (save_report_with_data (\<lambda>p. if p = ''assessment_data_Sam_1.json'' then Some ''No space left on device'' else None)
     ''1'' ''# Report'' demo_report_state Map.empty) = SaveError ''No space left on device''"
    by (simp add: n report_filename_def data_filename_def)
  moreover have "snd (save_report_with_data (\<lambda>p. if p = ''assessment_data_Sam_1.json'' then Some ''No space left on device'' else None)
     ''1'' ''# Report'' demo_report_state Map.empty) = [''trauma_report_Sam_1.md'' \<mapsto> MarkdownFile ''# Report'']"
    by (simp add: save_report_with_data_def n report_filename_def data_filename_def)
  ultimately show ?thesis by (metis prod.collapse)
qed

theorem save_instruction_message_witness:
  "fst (save_report_with_data (\<lambda>_. None) ''1''
      (the (shown_message (snd (fst (generate_comprehensive_report (\<lambda>_. ChatFailed) demo_session))))) demo_session Map.empty) =
     SaveDone ''trauma_report_Sam_1.md'' ''assessment_data_Sam_1.json'' \<and>
   save_report_with_data (\<lambda>_. None) ''1''
      (the (shown_message (snd (fst (generate_comprehensive_report (\<lambda>_. ChatFailed) (init_app ''u'' ''t'' True))))))
      (init_app ''u'' ''t'' True) Map.empty = (SaveNothing, Map.empty)"
proof -
  have d: "is_onboarded demo_session \<and> ollama_conversation demo_session = [] \<and>
           child_name (child_info (report_data demo_session)) = ''Sam''"
    by (simp add: demo_session_def init_app_def Let_def)
  have i: "\<not> is_onboarded (init_app ''u'' ''t'' True)" by (simp add: init_app_def)
  show ?thesis
    using conjunct2 [OF save_instruction_message [of demo_session "\<lambda>_. None" "''1''" "\<lambda>_. ChatFailed" Map.empty]]
          conjunct1 [OF save_instruction_message [of "init_app ''u'' ''t'' True" "\<lambda>_. None" "''1''" "\<lambda>_. ChatFailed" Map.empty]]
          d i by (simp add: report_filename_def data_filename_def)
qed

theorem progress_milestones_hidden_witness:
  "length (fst (generate_report_with_progress (\<lambda>_. ChatFailed) demo_report_state)) = 3 \<and>
   MilestoneNote Analyzing \<in> set (fst (snd (generate_report_with_progress (\<lambda>_. ChatFailed) demo_report_state)))"
proof -
  have "is_onboarded demo_report_state" "ollama_conversation demo_report_state \<noteq> []"
    by (simp_all add: demo_report_state_def Let_def)
  from progress_milestones_hidden [OF this, of "\<lambda>_. ChatFailed"] show ?thesis by simp
qed

end
