(* ===== verification/Refinement.thy ===== *)
theory Refinement
  imports Concurrency
begin

text \<open>
  The coordinator's status as the specification sees it, and the refinement of that
  abstract machine by the interleaving model of \<open>Concurrency\<close>. The four statuses
  (Idle, Polling, Responded, TimedOut) are read off the state by \<open>abs_status\<close>,
  following the cascade of the \<^verbatim>\<open>check_for_response\<close> handler
  (\<^verbatim>\<open>src/app.py\<close>). The refinement holds for an environment whose platform answers
  a successful submission with a usable id. The theorems after it show where the code
  leaves the abstract machine: a timed-out submission can be re-submitted, a null id
  leaves polling running without an id, and without Supabase the check claims a timeout.
\<close>

subsection \<open>The abstract submission status\<close>

text \<open>
  The coordinator's states of the specification (Idle, Submitted+Polling, Responded,
  PollingTimedOut) read off the concrete state the way the check handler reads them,
  and the specification's transitions: a submission starts polling, polling ends with
  a reply or by running out of attempts.
\<close>

datatype status = Idle | Polling | Responded | TimedOut

definition abs_status :: "app_state \<Rightarrow> status" where
  "abs_status s =
     (if specialist_response s \<noteq> None then Responded
      else if polling_active s then Polling
      else if report_id_truthy (submitted_report_id s) then TimedOut
      else Idle)"

inductive spec_status_step :: "status \<Rightarrow> status \<Rightarrow> bool" where
  submit: "spec_status_step Idle Polling"
| reply: "spec_status_step Polling Responded"
| timeout: "spec_status_step Polling TimedOut"

text \<open>
  A platform that answers a successful submission with a usable id (a non-empty
  string, not null): the environment the specification assumes.
\<close>

fun platform_ok :: "event \<Rightarrow> bool" where
  "platform_ok (EvPush (HttpReply st _ (IdObject ido))) = (st \<noteq> 201 \<or> report_id_truthy (report_id_of ido))"
| "platform_ok _ = True"

text \<open>
  The invariant of that environment (a running poll has a usable report id), and a run
  used by the witnesses: the demo run of \<open>Concurrency\<close> followed by a push answered
  with a null id.
\<close>

definition wb_inv :: "sys \<Rightarrow> bool" where
  "wb_inv c \<longleftrightarrow> (polling_active (app c) \<longrightarrow> report_id_truthy (submitted_report_id (app c)))"

definition null_id_events :: "event list" where
  "null_id_events = demo_events @ [EvPush (HttpReply 201 [] (IdObject (Some JNull)))]"

subsection \<open>Refinement and divergences\<close>

lemma push_wb:
  assumes "push_report_to_care_bridge (\<lambda>_. out) s = (r, s', sp)" "platform_ok (EvPush out)"
    and "polling_active s \<longrightarrow> report_id_truthy (submitted_report_id s)"
  shows "(polling_active s' \<longrightarrow> report_id_truthy (submitted_report_id s')) \<and>
         supabase_configured s' = supabase_configured s"
  using assms
  by (auto simp: push_report_to_care_bridge_def start_response_polling_cases Let_def
           split: post_outcome.splits reply_body.splits if_splits prod.splits)

lemma wb_step:
  assumes "sys_step c e c'" "platform_ok e" "wb_inv c"
  shows "wb_inv c' \<and> supabase_configured (app c') = supabase_configured (app c)"
  using assms
proof (induction rule: sys_step.induct)
  case (push out c r s' sp)
  then show ?case using push_wb [OF push.hyps] by (simp add: wb_inv_def)
next
  case (poll n c qo s' brk)
  then show ?case using poll_body_frame [of "app c" qo] by (simp add: wb_inv_def poll_frame_def)
qed (insert handler_poll_fields, auto simp: wb_inv_def poll_fields_eq_def exit_state_def)

lemma reachable_wb: "reachable_by platform_ok c \<Longrightarrow> wb_inv c"
proof (induction rule: reachable_by.induct)
  case (start uuid t0 creds)
  then show ?case by (simp add: wb_inv_def init_sys_def init_app_def)
next
  case (step c e c')
  then show ?case using wb_step by blast
qed

lemma push_abs:
  assumes "push_report_to_care_bridge (\<lambda>_. out) s = (r, s', sp)" "supabase_configured s"
    and "platform_ok (EvPush out)"
  shows "abs_status s' = abs_status s \<or> (abs_status s \<in> {Idle, TimedOut} \<and> abs_status s' = Polling)"
  using assms
  by (auto simp: push_report_to_care_bridge_def start_response_polling_cases Let_def abs_status_def
           split: post_outcome.splits reply_body.splits if_splits prod.splits)

lemma poll_abs:
  assumes "poll_body qo s = (s', brk)" "polling_active s"
  shows "abs_status s' = abs_status s \<or> (abs_status s = Polling \<and> abs_status s' = Responded)"
  using assms
  by (auto simp: poll_body_def abs_status_def Let_def split: query_outcome.splits list.splits sum.splits)


text \<open>
  C6: with a platform that answers a successful submission with a usable id and with Supabase configured, every step either leaves the abstract status unchanged or is a transition of the specification (submit, reply, timeout), except a re-submission from TimedOut, which restarts polling.
\<close>

theorem status_refinement:
  assumes "reachable_by platform_ok c" "supabase_configured (app c)"
    and "sys_step c e c'" "platform_ok e"
  shows "abs_status (app c') = abs_status (app c) \<or> spec_status_step (abs_status (app c)) (abs_status (app c')) \<or>
         (abs_status (app c) = TimedOut \<and> abs_status (app c') = Polling)"
proof -
  from assms(1) have inv: "sys_inv c" "wb_inv c" by (auto intro: reachable_by_inv reachable_wb)
  from assms(3,2,4) inv show ?thesis
  proof (induction rule: sys_step.induct)
    case (push out c r s' sp)
    then show ?case using push_abs [OF push.hyps] by (auto intro: spec_status_step.intros)
  next
    case (poll n c qo s' brk)
    then show ?case using poll_abs [OF poll.hyps(4,2)] by (auto intro: spec_status_step.intros)
  next
    case (poll_exit n c)
    then have "polling_active (app c)" by (auto simp: sys_inv_def)
    with poll_exit show ?case
      by (auto simp: exit_state_def abs_status_def wb_inv_def intro: spec_status_step.intros)
  qed (insert handler_poll_fields, auto simp: abs_status_def poll_fields_eq_def)
qed


text \<open>
  C21: the timed-out state is not terminal, unlike the specification says: a new successful push from it starts a new polling thread.
\<close>

theorem timed_out_not_terminal:
  assumes "abs_status s = TimedOut" "supabase_configured s" "is_onboarded s"
    and "conversation_history (report_data s) \<noteq> []" "i \<noteq> []"
  shows "abs_status (fst (snd (push_report_to_care_bridge (\<lambda>_. HttpReply 201 t (IdObject (Some (JStr i)))) s)))
           = Polling \<and>
         snd (snd (push_report_to_care_bridge (\<lambda>_. HttpReply 201 t (IdObject (Some (JStr i)))) s))"
  using assms
  by (auto simp: push_report_to_care_bridge_def start_response_polling_cases abs_status_def
                 report_id_truthy_def Let_def split: if_splits)


text \<open>
  C18: a 201 reply is a success whatever its id: without an \<^verbatim>\<open>id\<close> member the
  default \<open>Unknown\<close> is stored and a poll starts for a report of that name; with a
  null, empty-string or empty-object id the push is reported as a success, no poll
  starts, and the check handler then asks to submit a report first.
\<close>

theorem push_unusable_id:
  assumes "is_onboarded s" "conversation_history (report_data s) \<noteq> []" "supabase_configured s"
    and "\<not> polling_active s" "specialist_response s = None"
    and "post (build_api_data (report_data s)) = HttpReply 201 t (IdObject ido)"
  shows "(ido = None \<longrightarrow>
            fst (push_report_to_care_bridge post s) = (True, PushSuccess ''Unknown'') \<and>
            submitted_report_id (fst (snd (push_report_to_care_bridge post s))) = Some ''Unknown'' \<and>
            snd (snd (push_report_to_care_bridge post s))) \<and>
         (ido \<in> {Some JNull, Some (JStr []), Some (JObj [])} \<longrightarrow>
            fst (fst (push_report_to_care_bridge post s)) \<and>
            \<not> snd (snd (push_report_to_care_bridge post s)) \<and>
            check_for_response (fst (snd (push_report_to_care_bridge post s))) = Inr SubmitFirst)"
  using assms
  by (auto simp: push_report_to_care_bridge_def start_response_polling_cases report_id_truthy_def Let_def
                 check_for_response_def get_specialist_response_def)

text \<open>
  C22: without Supabase credentials a successful push stores the id but starts no poll, and the check handler then reports "Monitoring stopped. No response received within time limit" although nothing was monitored.
\<close>

theorem no_supabase_reports_stopped:
  assumes "\<not> supabase_configured s" "is_onboarded s" "conversation_history (report_data s) \<noteq> []"
    and "specialist_response s = None" "\<not> polling_active s" "i \<noteq> []"
  shows "push_report_to_care_bridge (\<lambda>_. HttpReply 201 t (IdObject (Some (JStr i)))) s =
           ((True, PushSuccess i), s\<lparr>submitted_report_id := Some i\<rparr>, False) \<and>
         check_for_response (s\<lparr>submitted_report_id := Some i\<rparr>) = Inr MonitoringStopped"
  using assms
  by (simp add: push_report_to_care_bridge_def start_response_polling_cases report_id_truthy_def
                check_for_response_def get_specialist_response_def Let_def)



text \<open>
  C20: the specification's invariant "polling only while a report id is set" fails: a second push answered with a null id while a poll runs leaves polling_active set and no report id.
\<close>

theorem polling_without_report_id:
  "\<exists>c. reachable c \<and> polling_active (app c) \<and> submitted_report_id (app c) = None"
proof -
  obtain c where run: "exec_events (init_sys ''u'' ''t0'' True) null_id_events = Some c"
    by (simp add: null_id_events_def demo_events_def run_simps)
  have "reachable c"
    by (rule exec_events_reachable [OF run reachable_by.start]) (simp add: list_all_iff)
  moreover from run have "polling_active (app c) \<and> submitted_report_id (app c) = None"
    by (auto simp: null_id_events_def demo_events_def run_simps)
  ultimately show ?thesis by blast
qed

lemma demo_run_reachable: "reachable_by platform_ok (the (exec_events (init_sys ''u'' ''t0'' True) demo_events))"
  by (rule exec_events_reachable [OF demo_run reachable_by.start]) (simp add: demo_events_def report_id_truthy_def)

subsection \<open>Witnesses\<close>

theorem status_refinement_witness:
  "abs_status (app (the (exec_events (init_sys ''u'' ''t0'' True) demo_events))) = Polling \<and>
   abs_status (app (the (exec_event (the (exec_events (init_sys ''u'' ''t0'' True) demo_events))
                         (EvPoll 0 (QueryRows [demo_row]))))) = Responded"
proof -
  let ?c = "the (exec_events (init_sys ''u'' ''t0'' True) demo_events)"
  have en: "exec_event ?c (EvPoll 0 (QueryRows [demo_row])) \<noteq> None"
    using demo_run_state by (simp add: max_polls_def split: prod.split)
  then obtain c' where e: "exec_event ?c (EvPoll 0 (QueryRows [demo_row])) = Some c'" by blast
  then have st: "sys_step ?c (EvPoll 0 (QueryRows [demo_row])) c'" by (simp only: exec_event_sys_step)
  have a0: "abs_status (app ?c) = Polling" using demo_run_state by (simp add: abs_status_def)
  have "abs_status (app c') = abs_status (app ?c) \<or> spec_status_step (abs_status (app ?c)) (abs_status (app c')) \<or>
        (abs_status (app ?c) = TimedOut \<and> abs_status (app c') = Polling)"
    using status_refinement [OF demo_run_reachable _ st] demo_run_state by simp
  moreover have "specialist_response (app c') = Some demo_row"
    using e demo_run_state by (auto simp: poll_body_def max_polls_def Let_def split: prod.splits sum.splits)
  ultimately show ?thesis using a0 e by (simp add: abs_status_def)
qed

theorem push_unusable_id_witness:
  "fst (push_report_to_care_bridge (\<lambda>_. HttpReply 201 [] (IdObject None)) demo_session)
     = (True, PushSuccess ''Unknown'') \<and>
   snd (snd (push_report_to_care_bridge (\<lambda>_. HttpReply 201 [] (IdObject None)) demo_session)) \<and>
   check_for_response (fst (snd (push_report_to_care_bridge
     (\<lambda>_. HttpReply 201 [] (IdObject (Some (JObj [])))) demo_session))) = Inr SubmitFirst"
proof -
  have d: "is_onboarded demo_session" "conversation_history (report_data demo_session) \<noteq> []"
    "supabase_configured demo_session" "\<not> polling_active demo_session"
    "specialist_response demo_session = None"
    by (simp_all add: demo_session_def init_app_def)
  note n = push_unusable_id [OF d, of "\<lambda>_. HttpReply 201 [] (IdObject None)" "[]" None]
  note o = push_unusable_id [OF d, of "\<lambda>_. HttpReply 201 [] (IdObject (Some (JObj [])))" "[]"
             "Some (JObj [])"]
  from n o show ?thesis by simp
qed

theorem timed_out_not_terminal_witness:
  "abs_status (fst (snd (push_report_to_care_bridge (\<lambda>_. HttpReply 201 [] (IdObject (Some (JStr ''r2''))))
      (demo_session\<lparr>submitted_report_id := Some ''r1''\<rparr>)))) = Polling"
proof -
  have h: "abs_status (demo_session\<lparr>submitted_report_id := Some ''r1''\<rparr>) = TimedOut"
    "supabase_configured (demo_session\<lparr>submitted_report_id := Some ''r1''\<rparr>)"
    "is_onboarded (demo_session\<lparr>submitted_report_id := Some ''r1''\<rparr>)"
    "conversation_history (report_data (demo_session\<lparr>submitted_report_id := Some ''r1''\<rparr>)) \<noteq> []"
    "''r2'' \<noteq> []"
    by (simp_all add: demo_session_def init_app_def abs_status_def report_id_truthy_def)
  from timed_out_not_terminal [OF h] show ?thesis by simp
qed

theorem no_supabase_reports_stopped_witness:
  "check_for_response ((demo_session\<lparr>supabase_configured := False\<rparr>)\<lparr>submitted_report_id := Some ''r1''\<rparr>)
     = Inr MonitoringStopped"
proof -
  have h: "\<not> supabase_configured (demo_session\<lparr>supabase_configured := False\<rparr>)"
    "is_onboarded (demo_session\<lparr>supabase_configured := False\<rparr>)"
    "conversation_history (report_data (demo_session\<lparr>supabase_configured := False\<rparr>)) \<noteq> []"
    "specialist_response (demo_session\<lparr>supabase_configured := False\<rparr>) = None"
    "\<not> polling_active (demo_session\<lparr>supabase_configured := False\<rparr>)"
    "''r1'' \<noteq> []"
    by (simp_all add: demo_session_def init_app_def)
  from no_supabase_reports_stopped [OF h, of "[]"] show ?thesis by simp
qed

end
