(* ===== verification/Spec2Isabelle.thy ===== *)
theory Spec2Isabelle
  imports Runs Wellformed Handlers Refinement
begin

text \<open>
  \<^bold>\<open>A verification model of the Mobile Trauma Assessment app.\<close>

  The program is one Python module, \<^verbatim>\<open>src/app.py\<close>. Its class
  \<^verbatim>\<open>EnhancedTraumaAssessmentApp\<close> holds the session report and the flags of
  the submission. The Gradio handlers (onboarding, chat, report, push, check, clear) call
  its methods on the single module-level object \<^verbatim>\<open>app\<close>. After a successful push,
  \<^verbatim>\<open>start_response_polling\<close> starts a daemon thread running
  \<^verbatim>\<open>_poll_for_response\<close>, which shares that object with the handlers. The
  language model (Ollama), the case-management platform (HTTP POST) and the reply store
  (Supabase) are external services.

  \<^medskip>\<^bold>\<open>Theories and correspondence.\<close>
  \<^item> \<open>Prelude\<close> holds the Python string operations the code uses (ASCII
    \<^verbatim>\<open>lower\<close>, \<^verbatim>\<open>upper\<close>, \<^verbatim>\<open>title\<close>,
    \<^verbatim>\<open>in\<close>, \<^verbatim>\<open>endswith\<close>,
    \<^verbatim>\<open>join\<close>, \<^verbatim>\<open>str(int)\<close>) and \<^verbatim>\<open>int()\<close> of a float
    (\<open>py_int_of_float\<close>, truncation toward zero). It relates the string operations to
    the library's \<open>sublist\<close> and \<open>suffix\<close> and holds the theorem collections.
  \<^item> \<open>Session\<close> holds the state of \<^verbatim>\<open>__init__\<close> (lines 28-65) as the
    records \<open>app_state\<close> and \<open>report_data\<close>, together with
    \<^verbatim>\<open>complete_onboarding\<close>, \<^verbatim>\<open>generate_cultural_context\<close> and the
    \<^verbatim>\<open>clear_conversation\<close> handler. Each method is a function from the state to
    its return value and the updated state. The form's age is the float of the
    \<^verbatim>\<open>gr.Number\<close> widget (a real). The widget's range check (\<open>age_widget_ok\<close>,
    \<^verbatim>\<open>minimum=2, maximum=18\<close>) guards the onboarding event.
  \<^item> \<open>Polling\<close> holds \<^verbatim>\<open>get_specialist_response\<close>
    (\<open>format_specialist_response\<close>), the \<^verbatim>\<open>check_for_response\<close> handler,
    and \<^verbatim>\<open>_poll_for_response\<close>:
    \<^item> \<open>poll_body\<close> is one iteration of the loop;
    \<^item> \<open>poll_loop\<close> is the \<^verbatim>\<open>while\<close> loop, defined by
      well-founded recursion on \<open>max_polls - n\<close>;
    \<^item> the Supabase query is an oracle \<open>lookup_store\<close> from the attempt number and
      the report id to rows or a failure.
  \<^item> \<open>Submission\<close> holds \<^verbatim>\<open>start_response_polling\<close> and
    \<^verbatim>\<open>push_report_to_care_bridge\<close>. The POST is an oracle \<open>http_post\<close>
    from the request body to a reply or one of the caught exceptions. The push returns
    whether a polling thread was started.
  \<^item> \<open>Conversation\<close> holds \<^verbatim>\<open>add_message\<close>,
    \<^verbatim>\<open>classify_file_type\<close> and \<^verbatim>\<open>bot_response\<close>, with the chat
    model as an oracle \<open>llm\<close> (None for an exception). The streamed reply is the
    list of history snapshots the generator yields. \<open>chat_turn\<close> composes the two
    as \<^verbatim>\<open>handle_conversation\<close> chains them on a submit.
  \<^item> \<open>Report\<close> holds \<^verbatim>\<open>generate_comprehensive_report\<close>. The structured
    chat call is an oracle \<open>structured_llm\<close> (chat failure, invalid JSON, or a
    parsed \<^verbatim>\<open>RiskAssessment\<close>). The report is the record of the values its
    template prints, and the progress messages are a \<open>milestone\<close> list.
  \<^item> \<open>Concurrency\<close> composes these. A system state \<open>sys\<close> is the
    \<open>app_state\<close> plus a multiset of running polling threads, each given by its
    \<^verbatim>\<open>poll_count\<close>.
    \<^item> \<open>sys_step\<close> is the interleaving step relation. Each handler runs
      atomically. A polling thread takes one loop iteration (\<open>EvPoll\<close>) or its exit
      (\<open>EvPollExit\<close>) per step, so handlers interleave between iterations.
    \<^item> \<open>exec_event\<close> is the executable step function, proved equal to the relation.
  \<^item> \<open>Refinement\<close> holds the specification's status machine. \<open>abs_status\<close> maps a
    state to its four statuses, and \<open>spec_status_step\<close> gives its transitions. The
    theory proves that the interleaving refines the machine, and where the code leaves it.
  \<^item> \<open>Runs\<close> adds finite runs of the system: \<open>runs\<close> is the labelled
    reflexive-transitive closure of \<open>sys_step\<close>, and the executable
    \<open>exec_events\<close> is proved equal to it. A polling thread run step by step is
    proved to compute the sequential \<open>poll_for_response\<close>. This justifies modelling
    the daemon thread one atomic iteration at a time.
  \<^item> \<open>Wellformed\<close> defines the well-formedness of a state (\<open>app_wf\<close>). One
    lemma per handler shows that the handler keeps it.
  \<^item> \<open>Handlers\<close> holds the Gradio wrappers around the methods:
    \<^item> \<^verbatim>\<open>handle_onboarding\<close> decides which section is shown;
    \<^item> \<^verbatim>\<open>generate_report_with_progress\<close> is the list of its yields and its
      \<^verbatim>\<open>progress_updates\<close>;
    \<^item> \<^verbatim>\<open>save_report_with_data\<close> writes to a file store, a map from paths to
      contents, and an oracle says which writes raise;
    \<^item> \<^verbatim>\<open>push_to_care_bridge\<close> turns the push result into a notice;
    \<^item> \<^verbatim>\<open>handle_feedback\<close> appends a line to standard output.
  \<^item> This theory holds the properties that span the components: the end-to-end
    submission and reply, and the effect of Clear on the push and the report.

  \<^medskip>\<^bold>\<open>What is proved.\<close>
  \<^item> \<^emph>\<open>Polling\<close>:
    \<^item> the loop terminates after at most 120 attempts with the flag cleared;
    \<^item> an exhausted budget gives the timed-out state;
    \<^item> the first renderable row ends the loop and is stored;
    \<^item> a row that cannot be rendered is polled 120 times, after which the check raises
      (a defect).
  \<^item> \<^emph>\<open>Submission\<close>:
    \<^item> one theorem covers the failure paths: the guards send no request, a
      non-201 reply fails with its status and text, and every failure (guard, status,
      a body that is not JSON, JSON that is not an object, transport exception)
      leaves the state unchanged;
    \<^item> a 201 reply stores the id and starts polling once (start is idempotent);
    \<^item> a 201 reply is a success whatever its id: a missing id polls for the report
      \<open>Unknown\<close>, and a null, empty or empty-object id starts nothing while the check
      asks to submit first.
  \<^item> \<^emph>\<open>Interleaving\<close> (rule induction over \<open>reachable_by\<close>):
    \<^item> at most one polling thread runs, and exactly while \<open>polling_active\<close>;
    \<^item> every poll step lowers the measure \<open>poll_budget\<close> (at most 121), and a
      running thread can always step, so polling ends;
    \<^item> a stored reply is never lost;
    \<^item> refinement: with Supabase configured and a platform that answers 201 with a
      usable id, every step keeps the abstract status or takes a transition of the
      specification's machine. The one extra transition is TimedOut to Polling on a
      re-submission; it is proved reachable, as is polling with a null report id.
  \<^item> \<^emph>\<open>Conversation\<close>:
    \<^item> observations are the space-join of the non-empty text turns;
    \<^item> the reply stream is the prefixes of the reply;
    \<^item> model failures give the fixed fallback;
    \<^item> any file turn, not only an image, is sent as an image (a defect);
    \<^item> ordering: a text turn keeps the model conversation a sequence of
      user/assistant exchanges (\<open>exchanges\<close>), but a files-only turn appends an
      assistant reply with no user turn, so the alternation is lost (a divergence);
    \<^item> boundary: an empty model reply shows nothing but is recorded.
  \<^item> \<^emph>\<open>Report\<close>:
    \<^item> the guards;
    \<^item> the parsed and fallback records, including severity 6 and the three indicators;
    \<^item> the prompt depends on the child's data only, not the transcript.
  \<^item> \<^emph>\<open>Session\<close>: the onboarding gate; the Gaza cultural context.
  \<^item> \<^emph>\<open>Runs\<close>:
    \<^item> liveness, for every answer of the store and every scheduling: from a
      reachable state every run of polling-thread steps has at most 121 steps, a run
      that cannot be extended ends with no thread and the flag clear, and for every
      sequence of answers the thread fed them reaches that state;
    \<^item> bounds: a run from the start makes at most 121 poll steps per push;
    \<^item> equivalence: a freshly started thread, stepped alone, ends in exactly the
      state of \<open>poll_for_response\<close>;
    \<^item> the gate: a run that ends before onboarding ends in the start state.
  \<^item> \<^emph>\<open>Well-formedness\<close>: every reachable state is well formed:
    \<^item> the drawings and photos lists hold only images, split by the
      \<open>draw\<close> test, and no audio;
    \<^item> polling and a stored reply only occur with Supabase configured;
    \<^item> an onboarded state holds complete child data, with an age between 2 and 18.
  \<^item> \<^emph>\<open>Roundtrips\<close>:
    \<^item> what \<^verbatim>\<open>add_message\<close> records is what \<^verbatim>\<open>bot_response\<close>
      reads back;
    \<^item> a save whose writes succeed stores exactly the shown text and the
      session data under the names it reports.
  \<^item> \<^emph>\<open>Handlers\<close>:
    \<^item> a failed JSON write leaves a half-saved report;
    \<^item> the save guard accepts the "Please have a conversation first" message as a
      report (a defect);
    \<^item> the report milestones are never shown (a defect).

  \<^medskip>\<^bold>\<open>Bounds.\<close> \<open>max_polls = 120\<close>, as in the code. \<open>poll_loop\<close>
  terminates by its measure and needs no fuel. The interleaving model bounds each thread
  by its counter, and \<open>poll_budget\<close> sums \<open>Suc max_polls - n\<close> over the threads.
  The liveness and bound theorems over \<open>runs\<close> rest on the same measure: a
  push adds at most 121 to the budget, and every polling step lowers it. The concrete
  runs of the witnesses are evaluated by \<open>simp\<close> through \<open>exec_events\<close>.

  \<^medskip>\<^bold>\<open>Abstractions and what is not modelled.\<close>
  \<^item> The model does not reproduce the \<^verbatim>\<open>time.sleep\<close> pauses, the wall-clock
    timestamps (they are parameters), the emoji and fixed prose of the report text, or
    the logging.
  \<^item> Each handler is atomic. Python's GIL does not guarantee this, but the handlers
    share no field with the loop body except those the model tracks.
  \<^item> The Gradio layout, CSS and launch (lines 510-832, 998-1003) are presentation only
    and are not modelled. The exception is the age widget's range (lines 672-678), which
    decides whether the onboarding handler runs at all.
  \<^item> The JSON file of \<^verbatim>\<open>save_report_with_data\<close> holds the
    \<^verbatim>\<open>report_data\<close> record, not its serialisation.
  \<^item> A failing write is treated as writing nothing. A file truncated by a failed
    \<^verbatim>\<open>json.dump\<close> is not modelled.
  \<^item> A Python float is the real it denotes: rounding, NaN and infinity are not
    modelled. The widget bounds the age before it reaches \<^verbatim>\<open>int()\<close>.
  \<^item> Strings are lists of 8-bit characters. Python's Unicode strings and case tables
    therefore cannot be represented, and case mapping is ASCII. The values the code
    lower-cases are only tested against ASCII keywords, extensions and the ASCII gender
    choices, so those tests agree with Python on ASCII input. The upper-cased urgency
    level and the title-cased recommendation keys are exact only for ASCII text.
  \<^item> The stored report id is a string: an object id is kept as its printed text
    and the empty object, falsy like the empty string, as the empty string; numeric ids
    cannot be represented. A body that is not JSON is a network error, as
    \<^verbatim>\<open>requests\<close> 2.27 and later classify \<^verbatim>\<open>JSONDecodeError\<close>.
  \<^item> \<open>chat_turn\<close> hands the history \<^verbatim>\<open>add_message\<close> returns straight to
    \<^verbatim>\<open>bot_response\<close>; Gradio re-serialises it between the two handlers. History
    contents are text or a file path; other shapes Gradio may pass back, which the
    search loop of \<^verbatim>\<open>bot_response\<close> skips, are not represented.
  \<^item> The interleaving events call the methods directly, not through the Handlers
    wrappers, which add only presentation.
\<close>

section \<open>Properties spanning components\<close>

subsection \<open>Submission followed by the specialist's reply\<close>

text \<open>
  C7: for an onboarded session with a transcript and Supabase configured and no poll
  running, a 201 reply whose id is a non-empty string stores the id and starts the poll;
  if the store has no reply for the first k attempts and a well-formed reply at attempt
  k below the bound, the poll loop stops there and the response check shows that reply.
\<close>

theorem submit_then_specialist_reply:
  assumes "is_onboarded s" "conversation_history (report_data s) \<noteq> []"
    and "supabase_configured s" "\<not> polling_active s"
    and "post (build_api_data (report_data s)) = HttpReply 201 t (IdObject (Some (JStr i)))" "i \<noteq> []"
    and "k < max_polls" "\<forall>j<k. no_reply (q j (Some i))"
    and "q k (Some i) = QueryRows (r # rs)" "format_specialist_response r = Inr v"
  shows "push_report_to_care_bridge post s =
           ((True, PushSuccess i), s\<lparr>submitted_report_id := Some i, polling_active := True\<rparr>, True) \<and>
         check_for_response (fst (poll_for_response q (fst (snd (push_report_to_care_bridge post s))))) =
           Inr (ResponseReceived v)"
proof -
  let ?s1 = "s\<lparr>submitted_report_id := Some i, polling_active := True\<rparr>"
  have push: "push_report_to_care_bridge post s = ((True, PushSuccess i), ?s1, True)"
    using assms(1-6)
    by (simp add: push_report_to_care_bridge_def start_response_polling_cases report_id_truthy_def Let_def)
  have "poll_loop q 0 ?s1 = (?s1\<lparr>specialist_response := Some r, polling_active := False\<rparr>, k)"
    using assms(7-10) by (intro poll_loop_first_reply) simp_all
  then have "fst (poll_for_response q ?s1) = ?s1\<lparr>specialist_response := Some r, polling_active := False\<rparr>"
    by (simp add: poll_for_response_def)
  with push assms(10) show ?thesis
    by (simp add: check_for_response_def get_specialist_response_def)
qed

subsection \<open>Clearing the conversation\<close>

text \<open>
  C33: the Clear button empties the transcript but not the model conversation: after it
  the push is refused for lack of a conversation while the report is still generated,
  and the child's data and the model conversation are kept.
\<close>

theorem clear_keeps_model_conversation:
  assumes "is_onboarded s" "ollama_conversation s \<noteq> []"
  shows "push_report_to_care_bridge post (snd (clear_conversation s)) =
           ((False, PushNeedConversation), snd (clear_conversation s), False) \<and>
         (\<exists>v. snd (fst (generate_comprehensive_report st (snd (clear_conversation s)))) = ReportText v) \<and>
         ollama_conversation (snd (clear_conversation s)) = ollama_conversation s \<and>
         child_info (report_data (snd (clear_conversation s))) = child_info (report_data s)"
  using assms
  by (auto simp: push_report_to_care_bridge_def generate_comprehensive_report_def clear_conversation_def
           Let_def split: prod.splits structured_outcome.splits)

section \<open>Witnesses\<close>

theorem submit_then_specialist_reply_witness:
  "check_for_response (fst (poll_for_response (\<lambda>(k::nat) _. if k < 3 then QueryFailed else QueryRows [demo_row])
     (fst (snd (push_report_to_care_bridge (\<lambda>_. HttpReply 201 ''Created'' (IdObject (Some (JStr ''r1''))))
        demo_session))))) =
   Inr (ResponseReceived
          \<lparr>reply_date = ''2025-01-02 03:04:05'', reply_specialist = ''p1'', reply_badge = BadgeOrange,
          reply_urgency = ''HIGH'', reply_notes = ''Seen.'',
          reply_recommendations = ''**Next Step:** call'' @ nl @ nl\<rparr>)"
proof -
  have f: "format_specialist_response demo_row =
     Inr \<lparr>reply_date = ''2025-01-02 03:04:05'', reply_specialist = ''p1'', reply_badge = BadgeOrange,
          reply_urgency = ''HIGH'', reply_notes = ''Seen.'',
          reply_recommendations = ''**Next Step:** call'' @ nl @ nl\<rparr>"
    by (simp add: format_specialist_response_def demo_row_def urgency_color_def py_upper_def
                  py_is_lower_def py_title_def py_is_cased_def py_is_upper_def)
  have "\<forall>j<3. no_reply ((\<lambda>(k::nat) _. if k < 3 then QueryFailed else QueryRows [demo_row]) j (Some ''r1''))"
    by (simp add: no_reply_def)
  from submit_then_specialist_reply [of demo_session "\<lambda>_. HttpReply 201 ''Created'' (IdObject (Some (JStr ''r1'')))"
         "''Created''" "''r1''" 3 "\<lambda>(k::nat) _. if k < 3 then QueryFailed else QueryRows [demo_row]" demo_row "[]",
       OF _ _ _ _ _ _ _ this _ f, THEN conjunct2]
  show ?thesis by (simp add: demo_session_def init_app_def max_polls_def)
qed

theorem clear_keeps_model_conversation_witness:
  "push_report_to_care_bridge (\<lambda>_. ConnectionFailed) (snd (clear_conversation demo_report_state)) =
     ((False, PushNeedConversation), snd (clear_conversation demo_report_state), False) \<and>
   ollama_conversation (snd (clear_conversation demo_report_state)) = ollama_conversation demo_report_state"
  using clear_keeps_model_conversation [of demo_report_state "\<lambda>_. ConnectionFailed" "\<lambda>_. ChatFailed"]
  by (simp add: demo_report_state_def init_app_def)

end
